theory Spec2Isabelle
  imports Main "HOL-Library.Word" "HOL-Library.Sublist"
begin

section \<open>The trading-API bridge \<^verbatim>\<open>vntaptd.cpp\<close>\<close>

text \<open>
  The file \<^verbatim>\<open>vntaptd.cpp\<close> bridges the vendor SDK's callback interface to a
  scripting host. Each SDK callback \<^verbatim>\<open>TdApi::OnX\<close> packs its arguments into a
  \<^verbatim>\<open>Task\<close> tagged with the constant \<^verbatim>\<open>ONX\<close> and pushes it onto
  \<^verbatim>\<open>task_queue\<close>; the loop \<^verbatim>\<open>TdApi::processTask\<close> pops tasks and
  dispatches each one to \<^verbatim>\<open>TdApi::processX\<close>, which rebuilds a dict from the
  payload and invokes the overridable handler \<^verbatim>\<open>onX\<close>.
\<close>

subsection \<open>C values, structs and dicts\<close>

text \<open>
  \<^verbatim>\<open>unsigned int\<close> and \<^verbatim>\<open>int\<close> are 32-bit words (read with \<open>unat\<close> and
  \<open>sint\<close>); a conversion between the two keeps the word. \<^verbatim>\<open>char\<close> is an 8-bit
  word. The vendor structs are declared in the SDK headers, which are not part of the
  sources: a struct is modelled by the values of its fields, by field name, over a
  type \<open>'v\<close> of C field values. A \<^verbatim>\<open>dict\<close> maps string keys to host values \<open>'p\<close>.
\<close>

type_synonym uint = "32 word"
type_synonym cint = "32 word"
type_synonym cchar = "8 word"
type_synonym 'v cstruct = "string \<Rightarrow> 'v"
type_synonym 'p dict = "string \<rightharpoonup> 'p"

text \<open>
  The two ways a field value reaches the dict: through \<^verbatim>\<open>toUtf(...)\<close>, a helper
  declared in a header that is not part of the sources, or directly, through the
  binding library's implicit conversion. Both are parameters of the model.
\<close>

record ('v, 'p) py =
  toUtf :: "'v \<Rightarrow> 'p"
  implicit :: "'v \<Rightarrow> 'p"

subsection \<open>Tasks and the task queue\<close>

text \<open>
  The tags \<^verbatim>\<open>ONCONNECT\<close> ... \<^verbatim>\<open>ONRSPFILLLOCALREMOVE\<close> are integer macros of
  \<^verbatim>\<open>vntaptd.h\<close>, which is not part of the sources. All of them are case labels of
  the one \<^verbatim>\<open>switch\<close> of \<^verbatim>\<open>processTask\<close>, so their values are pairwise
  different; they are modelled as the constructors of a datatype, in the order of the
  \<^verbatim>\<open>switch\<close>.
\<close>

datatype task_name =
  ONCONNECT | ONRSPLOGIN | ONRTNCONTACTINFO | ONRSPREQUESTVERTIFICATECODE | ONEXPRIATIONDATE |
  ONAPIREADY | ONDISCONNECT | ONRSPCHANGEPASSWORD | ONRSPAUTHPASSWORD | ONRSPQRYTRADINGDATE |
  ONRSPSETRESERVEDINFO | ONRSPQRYACCOUNT | ONRSPQRYFUND | ONRTNFUND | ONRSPQRYEXCHANGE |
  ONRSPQRYCOMMODITY | ONRSPQRYCONTRACT | ONRTNCONTRACT | ONRSPORDERACTION | ONRTNORDER |
  ONRSPQRYORDER | ONRSPQRYORDERPROCESS | ONRSPQRYFILL | ONRTNFILL | ONRSPQRYPOSITION |
  ONRTNPOSITION | ONRSPQRYPOSITIONSUMMARY | ONRTNPOSITIONSUMMARY | ONRTNPOSITIONPROFIT |
  ONRSPQRYCURRENCY | ONRSPQRYTRADEMESSAGE | ONRTNTRADEMESSAGE | ONRSPQRYHISORDER |
  ONRSPQRYHISORDERPROCESS | ONRSPQRYHISMATCH | ONRSPQRYHISPOSITION | ONRSPQRYHISDELIVERY |
  ONRSPQRYACCOUNTCASHADJUST | ONRSPQRYBILL | ONRSPQRYACCOUNTFEERENT |
  ONRSPQRYACCOUNTMARGINRENT | ONRSPHKMARKETORDERINSERT | ONRSPHKMARKETORDERDELETE |
  ONHKMARKETQUOTENOTICE | ONRSPORDERLOCALREMOVE | ONRSPORDERLOCALINPUT | ONRSPORDERLOCALMODIFY |
  ONRSPORDERLOCALTRANSFER | ONRSPFILLLOCALINPUT | ONRSPFILLLOCALREMOVE

definition all_task_names :: "task_name list" where
  "all_task_names =
    [ONCONNECT, ONRSPLOGIN, ONRTNCONTACTINFO, ONRSPREQUESTVERTIFICATECODE, ONEXPRIATIONDATE,
     ONAPIREADY, ONDISCONNECT, ONRSPCHANGEPASSWORD, ONRSPAUTHPASSWORD, ONRSPQRYTRADINGDATE,
     ONRSPSETRESERVEDINFO, ONRSPQRYACCOUNT, ONRSPQRYFUND, ONRTNFUND, ONRSPQRYEXCHANGE,
     ONRSPQRYCOMMODITY, ONRSPQRYCONTRACT, ONRTNCONTRACT, ONRSPORDERACTION, ONRTNORDER,
     ONRSPQRYORDER, ONRSPQRYORDERPROCESS, ONRSPQRYFILL, ONRTNFILL, ONRSPQRYPOSITION,
     ONRTNPOSITION, ONRSPQRYPOSITIONSUMMARY, ONRTNPOSITIONSUMMARY, ONRTNPOSITIONPROFIT,
     ONRSPQRYCURRENCY, ONRSPQRYTRADEMESSAGE, ONRTNTRADEMESSAGE, ONRSPQRYHISORDER,
     ONRSPQRYHISORDERPROCESS, ONRSPQRYHISMATCH, ONRSPQRYHISPOSITION, ONRSPQRYHISDELIVERY,
     ONRSPQRYACCOUNTCASHADJUST, ONRSPQRYBILL, ONRSPQRYACCOUNTFEERENT, ONRSPQRYACCOUNTMARGINRENT,
     ONRSPHKMARKETORDERINSERT, ONRSPHKMARKETORDERDELETE, ONHKMARKETQUOTENOTICE,
     ONRSPORDERLOCALREMOVE, ONRSPORDERLOCALINPUT, ONRSPORDERLOCALMODIFY,
     ONRSPORDERLOCALTRANSFER, ONRSPFILLLOCALINPUT, ONRSPFILLLOCALREMOVE]"

text \<open>
  \<^verbatim>\<open>struct Task\<close> is declared in a header that is not part of the sources. Each
  field has the type of the values that the callbacks store into it:
  \<^verbatim>\<open>task_id\<close> takes the \<^verbatim>\<open>unsigned int\<close> arguments, \<^verbatim>\<open>task_int\<close> the
  \<^verbatim>\<open>int\<close> arguments, \<^verbatim>\<open>task_last\<close> the \<^verbatim>\<open>char\<close> arguments,
  \<^verbatim>\<open>task_string\<close> the strings, and \<^verbatim>\<open>task_data\<close> is the pointer to the
  callback's own copy of the payload struct (\<open>None\<close> is the null pointer).
\<close>

record 'v Task =
  task_name :: task_name
  task_data :: "'v cstruct option"
  task_id :: uint
  task_int :: cint
  task_last :: cchar
  task_string :: string

text \<open>
  \<^verbatim>\<open>Task task = Task(); task.task_name = N;\<close>: a value-initialised task (null
  pointer, zero numbers, empty string) with its tag set.
\<close>

definition new_Task :: "task_name \<Rightarrow> 'v Task" where
  "new_Task N = \<lparr>task_name = N, task_data = None, task_id = 0, task_int = 0,
                 task_last = 0, task_string = []\<rparr>"

text \<open>
  Modelled from the spec: the class \<^verbatim>\<open>TaskQueue\<close> (\<^verbatim>\<open>push\<close>, \<^verbatim>\<open>pop\<close>,
  \<^verbatim>\<open>terminate\<close>) is declared in a header that is not part of the sources. The spec
  calls it a blocking queue with a single consumer: \<open>push\<close> appends at the back,
  \<open>pop\<close> takes from the front and blocks while the queue is empty; after
  \<open>terminate\<close> it raises \<^verbatim>\<open>TerminatedError\<close>, which \<^verbatim>\<open>processTask\<close> catches.
\<close>

record 'a TaskQueue =
  queued :: "'a list"
  terminated :: bool

datatype 'a popped = TerminatedError | Blocked | Popped 'a "'a TaskQueue"

text \<open>Modelled from the spec: a new queue is empty and not terminated.\<close>

definition empty_queue :: "'a TaskQueue" where
  "empty_queue = \<lparr>queued = [], terminated = False\<rparr>"

text \<open>Modelled from the spec: \<^verbatim>\<open>TaskQueue::push\<close> appends the task at the back.\<close>

definition push :: "'a \<Rightarrow> 'a TaskQueue \<Rightarrow> 'a TaskQueue" where
  "push t q = q\<lparr>queued := queued q @ [t]\<rparr>"

text \<open>
  Modelled from the spec: \<^verbatim>\<open>TaskQueue::pop\<close> raises \<^verbatim>\<open>TerminatedError\<close> on a
  terminated queue, blocks on an empty one, and otherwise removes and returns the task
  at the front.
\<close>

definition pop :: "'a TaskQueue \<Rightarrow> 'a popped" where
  "pop q =
     (if terminated q then TerminatedError
      else case queued q of [] \<Rightarrow> Blocked | t # ts \<Rightarrow> Popped t (q\<lparr>queued := ts\<rparr>))"

text \<open>Modelled from the spec: \<^verbatim>\<open>TaskQueue::terminate\<close> marks the queue as terminated.\<close>

definition terminate :: "'a TaskQueue \<Rightarrow> 'a TaskQueue" where
  "terminate q = q\<lparr>terminated := True\<rparr>"

subsection \<open>The SDK callbacks\<close>

text \<open>
  One constructor for each callback \<^verbatim>\<open>TdApi::OnX\<close>, with the callback's arguments; a
  struct pointer is \<open>None\<close> when null, and otherwise the struct it points to.
\<close>

datatype (plugins only:) (dead 'v) callback =
    OnConnect
  | OnRspLogin cint "'v cstruct option"
  | OnRtnContactInfo cint cchar string
  | OnRspRequestVertificateCode uint cint "'v cstruct option"
  | OnExpriationDate string cint
  | OnAPIReady cint
  | OnDisconnect cint
  | OnRspChangePassword uint cint
  | OnRspAuthPassword uint cint
  | OnRspQryTradingDate uint cint "'v cstruct option"
  | OnRspSetReservedInfo uint cint string
  | OnRspQryAccount uint uint cchar "'v cstruct option"
  | OnRspQryFund uint cint cchar "'v cstruct option"
  | OnRtnFund "'v cstruct option"
  | OnRspQryExchange uint cint cchar "'v cstruct option"
  | OnRspQryCommodity uint cint cchar "'v cstruct option"
  | OnRspQryContract uint cint cchar "'v cstruct option"
  | OnRtnContract "'v cstruct option"
  | OnRspOrderAction uint cint "'v cstruct option"
  | OnRtnOrder "'v cstruct option"
  | OnRspQryOrder uint cint cchar "'v cstruct option"
  | OnRspQryOrderProcess uint cint cchar "'v cstruct option"
  | OnRspQryFill uint cint cchar "'v cstruct option"
  | OnRtnFill "'v cstruct option"
  | OnRspQryPosition uint cint cchar "'v cstruct option"
  | OnRtnPosition "'v cstruct option"
  | OnRspQryPositionSummary uint cint cchar "'v cstruct option"
  | OnRtnPositionSummary "'v cstruct option"
  | OnRtnPositionProfit "'v cstruct option"
  | OnRspQryCurrency uint cint cchar "'v cstruct option"
  | OnRspQryTradeMessage uint cint cchar "'v cstruct option"
  | OnRtnTradeMessage "'v cstruct option"
  | OnRspQryHisOrder uint cint cchar "'v cstruct option"
  | OnRspQryHisOrderProcess uint cint cchar "'v cstruct option"
  | OnRspQryHisMatch uint cint cchar "'v cstruct option"
  | OnRspQryHisPosition uint cint cchar "'v cstruct option"
  | OnRspQryHisDelivery uint cint cchar "'v cstruct option"
  | OnRspQryAccountCashAdjust uint cint cchar "'v cstruct option"
  | OnRspQryBill uint cint cchar "'v cstruct option"
  | OnRspQryAccountFeeRent uint cint cchar "'v cstruct option"
  | OnRspQryAccountMarginRent uint cint cchar "'v cstruct option"
  | OnRspHKMarketOrderInsert uint cint "'v cstruct option"
  | OnRspHKMarketOrderDelete uint cint "'v cstruct option"
  | OnHKMarketQuoteNotice "'v cstruct option"
  | OnRspOrderLocalRemove uint cint "'v cstruct option"
  | OnRspOrderLocalInput uint cint "'v cstruct option"
  | OnRspOrderLocalModify uint cint "'v cstruct option"
  | OnRspOrderLocalTransfer uint cint "'v cstruct option"
  | OnRspFillLocalInput uint cint "'v cstruct option"
  | OnRspFillLocalRemove uint cint "'v cstruct option"

text \<open>The bodies of the callbacks: build the task, push it.\<close>

primrec sdk_callback :: "'v callback \<Rightarrow> 'v Task TaskQueue \<Rightarrow> 'v Task TaskQueue" where
  "sdk_callback OnConnect task_queue =
     (let task = new_Task ONCONNECT
      in push task task_queue)"
| "sdk_callback (OnRspLogin errorCode loginRspInfo) task_queue =
     (let task = new_Task ONRSPLOGIN;
          task = task\<lparr>task_int := errorCode\<rparr>;
          task = (case loginRspInfo of None \<Rightarrow> task
                  | Some task_data' \<Rightarrow> task\<lparr>task_data := Some task_data'\<rparr>)
      in push task task_queue)"
| "sdk_callback (OnRtnContactInfo errorCode isLast ContactInfo) task_queue =
     (let task = new_Task ONRTNCONTACTINFO;
          task = task\<lparr>task_int := errorCode\<rparr>;
          task = task\<lparr>task_last := isLast\<rparr>;
          task = task\<lparr>task_string := ContactInfo\<rparr>
      in push task task_queue)"
| "sdk_callback (OnRspRequestVertificateCode sessionID errorCode rsp) task_queue =
     (let task = new_Task ONRSPREQUESTVERTIFICATECODE;
          task = task\<lparr>task_id := sessionID\<rparr>;
          task = task\<lparr>task_int := errorCode\<rparr>;
          task = (case rsp of None \<Rightarrow> task
                  | Some task_data' \<Rightarrow> task\<lparr>task_data := Some task_data'\<rparr>)
      in push task task_queue)"
| "sdk_callback (OnExpriationDate date days) task_queue =
     (let task = new_Task ONEXPRIATIONDATE;
          task = task\<lparr>task_string := date\<rparr>;
          task = task\<lparr>task_int := days\<rparr>
      in push task task_queue)"
| "sdk_callback (OnAPIReady errorCode) task_queue =
     (let task = new_Task ONAPIREADY;
          task = task\<lparr>task_int := errorCode\<rparr>
      in push task task_queue)"
| "sdk_callback (OnDisconnect reasonCode) task_queue =
     (let task = new_Task ONDISCONNECT;
          task = task\<lparr>task_int := reasonCode\<rparr>
      in push task task_queue)"
| "sdk_callback (OnRspChangePassword sessionID errorCode) task_queue =
     (let task = new_Task ONRSPCHANGEPASSWORD;
          task = task\<lparr>task_id := sessionID\<rparr>;
          task = task\<lparr>task_int := errorCode\<rparr>
      in push task task_queue)"
| "sdk_callback (OnRspAuthPassword sessionID errorCode) task_queue =
     (let task = new_Task ONRSPAUTHPASSWORD;
          task = task\<lparr>task_id := sessionID\<rparr>;
          task = task\<lparr>task_int := errorCode\<rparr>
      in push task task_queue)"
| "sdk_callback (OnRspQryTradingDate sessionID errorCode info) task_queue =
     (let task = new_Task ONRSPQRYTRADINGDATE;
          task = task\<lparr>task_id := sessionID\<rparr>;
          task = task\<lparr>task_int := errorCode\<rparr>;
          task = (case info of None \<Rightarrow> task
                  | Some task_data' \<Rightarrow> task\<lparr>task_data := Some task_data'\<rparr>)
      in push task task_queue)"
| "sdk_callback (OnRspSetReservedInfo sessionID errorCode info) task_queue =
     (let task = new_Task ONRSPSETRESERVEDINFO;
          task = task\<lparr>task_id := sessionID\<rparr>;
          task = task\<lparr>task_int := errorCode\<rparr>;
          task = task\<lparr>task_string := info\<rparr>
      in push task task_queue)"
| "sdk_callback (OnRspQryAccount sessionID errorCode isLast info) task_queue =
     (let task = new_Task ONRSPQRYACCOUNT;
          task = task\<lparr>task_id := sessionID\<rparr>;
          task = task\<lparr>task_id := errorCode\<rparr>;
          task = task\<lparr>task_last := isLast\<rparr>;
          task = (case info of None \<Rightarrow> task
                  | Some task_data' \<Rightarrow> task\<lparr>task_data := Some task_data'\<rparr>)
      in push task task_queue)"
| "sdk_callback (OnRspQryFund sessionID errorCode isLast info) task_queue =
     (let task = new_Task ONRSPQRYFUND;
          task = task\<lparr>task_id := sessionID\<rparr>;
          task = task\<lparr>task_int := errorCode\<rparr>;
          task = task\<lparr>task_last := isLast\<rparr>;
          task = (case info of None \<Rightarrow> task
                  | Some task_data' \<Rightarrow> task\<lparr>task_data := Some task_data'\<rparr>)
      in push task task_queue)"
| "sdk_callback (OnRtnFund info) task_queue =
     (let task = new_Task ONRTNFUND;
          task = (case info of None \<Rightarrow> task
                  | Some task_data' \<Rightarrow> task\<lparr>task_data := Some task_data'\<rparr>)
      in push task task_queue)"
| "sdk_callback (OnRspQryExchange sessionID errorCode isLast info) task_queue =
     (let task = new_Task ONRSPQRYEXCHANGE;
          task = task\<lparr>task_id := sessionID\<rparr>;
          task = task\<lparr>task_int := errorCode\<rparr>;
          task = task\<lparr>task_last := isLast\<rparr>;
          task = (case info of None \<Rightarrow> task
                  | Some task_data' \<Rightarrow> task\<lparr>task_data := Some task_data'\<rparr>)
      in push task task_queue)"
| "sdk_callback (OnRspQryCommodity sessionID errorCode isLast info) task_queue =
     (let task = new_Task ONRSPQRYCOMMODITY;
          task = task\<lparr>task_id := sessionID\<rparr>;
          task = task\<lparr>task_int := errorCode\<rparr>;
          task = task\<lparr>task_last := isLast\<rparr>;
          task = (case info of None \<Rightarrow> task
                  | Some task_data' \<Rightarrow> task\<lparr>task_data := Some task_data'\<rparr>)
      in push task task_queue)"
| "sdk_callback (OnRspQryContract sessionID errorCode isLast info) task_queue =
     (let task = new_Task ONRSPQRYCONTRACT;
          task = task\<lparr>task_id := sessionID\<rparr>;
          task = task\<lparr>task_int := errorCode\<rparr>;
          task = task\<lparr>task_last := isLast\<rparr>;
          task = (case info of None \<Rightarrow> task
                  | Some task_data' \<Rightarrow> task\<lparr>task_data := Some task_data'\<rparr>)
      in push task task_queue)"
| "sdk_callback (OnRtnContract info) task_queue =
     (let task = new_Task ONRTNCONTRACT;
          task = (case info of None \<Rightarrow> task
                  | Some task_data' \<Rightarrow> task\<lparr>task_data := Some task_data'\<rparr>)
      in push task task_queue)"
| "sdk_callback (OnRspOrderAction sessionID errorCode info) task_queue =
     (let task = new_Task ONRSPORDERACTION;
          task = task\<lparr>task_id := sessionID\<rparr>;
          task = task\<lparr>task_int := errorCode\<rparr>;
          task = (case info of None \<Rightarrow> task
                  | Some task_data' \<Rightarrow> task\<lparr>task_data := Some task_data'\<rparr>)
      in push task task_queue)"
| "sdk_callback (OnRtnOrder info) task_queue =
     (let task = new_Task ONRTNORDER;
          task = (case info of None \<Rightarrow> task
                  | Some task_data' \<Rightarrow> task\<lparr>task_data := Some task_data'\<rparr>)
      in push task task_queue)"
| "sdk_callback (OnRspQryOrder sessionID errorCode isLast info) task_queue =
     (let task = new_Task ONRSPQRYORDER;
          task = task\<lparr>task_id := sessionID\<rparr>;
          task = task\<lparr>task_int := errorCode\<rparr>;
          task = task\<lparr>task_last := isLast\<rparr>;
          task = (case info of None \<Rightarrow> task
                  | Some task_data' \<Rightarrow> task\<lparr>task_data := Some task_data'\<rparr>)
      in push task task_queue)"
| "sdk_callback (OnRspQryOrderProcess sessionID errorCode isLast info) task_queue =
     (let task = new_Task ONRSPQRYORDERPROCESS;
          task = task\<lparr>task_id := sessionID\<rparr>;
          task = task\<lparr>task_int := errorCode\<rparr>;
          task = task\<lparr>task_last := isLast\<rparr>;
          task = (case info of None \<Rightarrow> task
                  | Some task_data' \<Rightarrow> task\<lparr>task_data := Some task_data'\<rparr>)
      in push task task_queue)"
| "sdk_callback (OnRspQryFill sessionID errorCode isLast info) task_queue =
     (let task = new_Task ONRSPQRYFILL;
          task = task\<lparr>task_id := sessionID\<rparr>;
          task = task\<lparr>task_int := errorCode\<rparr>;
          task = task\<lparr>task_last := isLast\<rparr>;
          task = (case info of None \<Rightarrow> task
                  | Some task_data' \<Rightarrow> task\<lparr>task_data := Some task_data'\<rparr>)
      in push task task_queue)"
| "sdk_callback (OnRtnFill info) task_queue =
     (let task = new_Task ONRTNFILL;
          task = (case info of None \<Rightarrow> task
                  | Some task_data' \<Rightarrow> task\<lparr>task_data := Some task_data'\<rparr>)
      in push task task_queue)"
| "sdk_callback (OnRspQryPosition sessionID errorCode isLast info) task_queue =
     (let task = new_Task ONRSPQRYPOSITION;
          task = task\<lparr>task_id := sessionID\<rparr>;
          task = task\<lparr>task_int := errorCode\<rparr>;
          task = task\<lparr>task_last := isLast\<rparr>;
          task = (case info of None \<Rightarrow> task
                  | Some task_data' \<Rightarrow> task\<lparr>task_data := Some task_data'\<rparr>)
      in push task task_queue)"
| "sdk_callback (OnRtnPosition info) task_queue =
     (let task = new_Task ONRTNPOSITION;
          task = (case info of None \<Rightarrow> task
                  | Some task_data' \<Rightarrow> task\<lparr>task_data := Some task_data'\<rparr>)
      in push task task_queue)"
| "sdk_callback (OnRspQryPositionSummary sessionID errorCode isLast info) task_queue =
     (let task = new_Task ONRSPQRYPOSITIONSUMMARY;
          task = task\<lparr>task_id := sessionID\<rparr>;
          task = task\<lparr>task_int := errorCode\<rparr>;
          task = task\<lparr>task_last := isLast\<rparr>;
          task = (case info of None \<Rightarrow> task
                  | Some task_data' \<Rightarrow> task\<lparr>task_data := Some task_data'\<rparr>)
      in push task task_queue)"
| "sdk_callback (OnRtnPositionSummary info) task_queue =
     (let task = new_Task ONRTNPOSITIONSUMMARY;
          task = (case info of None \<Rightarrow> task
                  | Some task_data' \<Rightarrow> task\<lparr>task_data := Some task_data'\<rparr>)
      in push task task_queue)"
| "sdk_callback (OnRtnPositionProfit info) task_queue =
     (let task = new_Task ONRTNPOSITIONPROFIT;
          task = (case info of None \<Rightarrow> task
                  | Some task_data' \<Rightarrow> task\<lparr>task_data := Some task_data'\<rparr>)
      in push task task_queue)"
| "sdk_callback (OnRspQryCurrency sessionID errorCode isLast info) task_queue =
     (let task = new_Task ONRSPQRYCURRENCY;
          task = task\<lparr>task_id := sessionID\<rparr>;
          task = task\<lparr>task_int := errorCode\<rparr>;
          task = task\<lparr>task_last := isLast\<rparr>;
          task = (case info of None \<Rightarrow> task
                  | Some task_data' \<Rightarrow> task\<lparr>task_data := Some task_data'\<rparr>)
      in push task task_queue)"
| "sdk_callback (OnRspQryTradeMessage sessionID errorCode isLast info) task_queue =
     (let task = new_Task ONRSPQRYTRADEMESSAGE;
          task = task\<lparr>task_id := sessionID\<rparr>;
          task = task\<lparr>task_int := errorCode\<rparr>;
          task = task\<lparr>task_last := isLast\<rparr>;
          task = (case info of None \<Rightarrow> task
                  | Some task_data' \<Rightarrow> task\<lparr>task_data := Some task_data'\<rparr>)
      in push task task_queue)"
| "sdk_callback (OnRtnTradeMessage info) task_queue =
     (let task = new_Task ONRTNTRADEMESSAGE;
          task = (case info of None \<Rightarrow> task
                  | Some task_data' \<Rightarrow> task\<lparr>task_data := Some task_data'\<rparr>)
      in push task task_queue)"
| "sdk_callback (OnRspQryHisOrder sessionID errorCode isLast info) task_queue =
     (let task = new_Task ONRSPQRYHISORDER;
          task = task\<lparr>task_id := sessionID\<rparr>;
          task = task\<lparr>task_int := errorCode\<rparr>;
          task = task\<lparr>task_last := isLast\<rparr>;
          task = (case info of None \<Rightarrow> task
                  | Some task_data' \<Rightarrow> task\<lparr>task_data := Some task_data'\<rparr>)
      in push task task_queue)"
| "sdk_callback (OnRspQryHisOrderProcess sessionID errorCode isLast info) task_queue =
     (let task = new_Task ONRSPQRYHISORDERPROCESS;
          task = task\<lparr>task_id := sessionID\<rparr>;
          task = task\<lparr>task_int := errorCode\<rparr>;
          task = task\<lparr>task_last := isLast\<rparr>;
          task = (case info of None \<Rightarrow> task
                  | Some task_data' \<Rightarrow> task\<lparr>task_data := Some task_data'\<rparr>)
      in push task task_queue)"
| "sdk_callback (OnRspQryHisMatch sessionID errorCode isLast info) task_queue =
     (let task = new_Task ONRSPQRYHISMATCH;
          task = task\<lparr>task_id := sessionID\<rparr>;
          task = task\<lparr>task_int := errorCode\<rparr>;
          task = task\<lparr>task_last := isLast\<rparr>;
          task = (case info of None \<Rightarrow> task
                  | Some task_data' \<Rightarrow> task\<lparr>task_data := Some task_data'\<rparr>)
      in push task task_queue)"
| "sdk_callback (OnRspQryHisPosition sessionID errorCode isLast info) task_queue =
     (let task = new_Task ONRSPQRYHISPOSITION;
          task = task\<lparr>task_id := sessionID\<rparr>;
          task = task\<lparr>task_int := errorCode\<rparr>;
          task = task\<lparr>task_last := isLast\<rparr>;
          task = (case info of None \<Rightarrow> task
                  | Some task_data' \<Rightarrow> task\<lparr>task_data := Some task_data'\<rparr>)
      in push task task_queue)"
| "sdk_callback (OnRspQryHisDelivery sessionID errorCode isLast info) task_queue =
     (let task = new_Task ONRSPQRYHISDELIVERY;
          task = task\<lparr>task_id := sessionID\<rparr>;
          task = task\<lparr>task_int := errorCode\<rparr>;
          task = task\<lparr>task_last := isLast\<rparr>;
          task = (case info of None \<Rightarrow> task
                  | Some task_data' \<Rightarrow> task\<lparr>task_data := Some task_data'\<rparr>)
      in push task task_queue)"
| "sdk_callback (OnRspQryAccountCashAdjust sessionID errorCode isLast info) task_queue =
     (let task = new_Task ONRSPQRYACCOUNTCASHADJUST;
          task = task\<lparr>task_id := sessionID\<rparr>;
          task = task\<lparr>task_int := errorCode\<rparr>;
          task = task\<lparr>task_last := isLast\<rparr>;
          task = (case info of None \<Rightarrow> task
                  | Some task_data' \<Rightarrow> task\<lparr>task_data := Some task_data'\<rparr>)
      in push task task_queue)"
| "sdk_callback (OnRspQryBill sessionID errorCode isLast info) task_queue =
     (let task = new_Task ONRSPQRYBILL;
          task = task\<lparr>task_id := sessionID\<rparr>;
          task = task\<lparr>task_int := errorCode\<rparr>;
          task = task\<lparr>task_last := isLast\<rparr>;
          task = (case info of None \<Rightarrow> task
                  | Some task_data' \<Rightarrow> task\<lparr>task_data := Some task_data'\<rparr>)
      in push task task_queue)"
| "sdk_callback (OnRspQryAccountFeeRent sessionID errorCode isLast info) task_queue =
     (let task = new_Task ONRSPQRYACCOUNTFEERENT;
          task = task\<lparr>task_id := sessionID\<rparr>;
          task = task\<lparr>task_int := errorCode\<rparr>;
          task = task\<lparr>task_last := isLast\<rparr>;
          task = (case info of None \<Rightarrow> task
                  | Some task_data' \<Rightarrow> task\<lparr>task_data := Some task_data'\<rparr>)
      in push task task_queue)"
| "sdk_callback (OnRspQryAccountMarginRent sessionID errorCode isLast info) task_queue =
     (let task = new_Task ONRSPQRYACCOUNTMARGINRENT;
          task = task\<lparr>task_id := sessionID\<rparr>;
          task = task\<lparr>task_int := errorCode\<rparr>;
          task = task\<lparr>task_last := isLast\<rparr>;
          task = (case info of None \<Rightarrow> task
                  | Some task_data' \<Rightarrow> task\<lparr>task_data := Some task_data'\<rparr>)
      in push task task_queue)"
| "sdk_callback (OnRspHKMarketOrderInsert sessionID errorCode info) task_queue =
     (let task = new_Task ONRSPHKMARKETORDERINSERT;
          task = task\<lparr>task_id := sessionID\<rparr>;
          task = task\<lparr>task_int := errorCode\<rparr>;
          task = (case info of None \<Rightarrow> task
                  | Some task_data' \<Rightarrow> task\<lparr>task_data := Some task_data'\<rparr>)
      in push task task_queue)"
| "sdk_callback (OnRspHKMarketOrderDelete sessionID errorCode info) task_queue =
     (let task = new_Task ONRSPHKMARKETORDERDELETE;
          task = task\<lparr>task_id := sessionID\<rparr>;
          task = task\<lparr>task_int := errorCode\<rparr>;
          task = (case info of None \<Rightarrow> task
                  | Some task_data' \<Rightarrow> task\<lparr>task_data := Some task_data'\<rparr>)
      in push task task_queue)"
| "sdk_callback (OnHKMarketQuoteNotice info) task_queue =
     (let task = new_Task ONHKMARKETQUOTENOTICE;
          task = (case info of None \<Rightarrow> task
                  | Some task_data' \<Rightarrow> task\<lparr>task_data := Some task_data'\<rparr>)
      in push task task_queue)"
| "sdk_callback (OnRspOrderLocalRemove sessionID errorCode info) task_queue =
     (let task = new_Task ONRSPORDERLOCALREMOVE;
          task = task\<lparr>task_id := sessionID\<rparr>;
          task = task\<lparr>task_int := errorCode\<rparr>;
          task = (case info of None \<Rightarrow> task
                  | Some task_data' \<Rightarrow> task\<lparr>task_data := Some task_data'\<rparr>)
      in push task task_queue)"
| "sdk_callback (OnRspOrderLocalInput sessionID errorCode info) task_queue =
     (let task = new_Task ONRSPORDERLOCALINPUT;
          task = task\<lparr>task_id := sessionID\<rparr>;
          task = task\<lparr>task_int := errorCode\<rparr>;
          task = (case info of None \<Rightarrow> task
                  | Some task_data' \<Rightarrow> task\<lparr>task_data := Some task_data'\<rparr>)
      in push task task_queue)"
| "sdk_callback (OnRspOrderLocalModify sessionID errorCode info) task_queue =
     (let task = new_Task ONRSPORDERLOCALMODIFY;
          task = task\<lparr>task_id := sessionID\<rparr>;
          task = task\<lparr>task_int := errorCode\<rparr>;
          task = (case info of None \<Rightarrow> task
                  | Some task_data' \<Rightarrow> task\<lparr>task_data := Some task_data'\<rparr>)
      in push task task_queue)"
| "sdk_callback (OnRspOrderLocalTransfer sessionID errorCode info) task_queue =
     (let task = new_Task ONRSPORDERLOCALTRANSFER;
          task = task\<lparr>task_id := sessionID\<rparr>;
          task = task\<lparr>task_int := errorCode\<rparr>;
          task = (case info of None \<Rightarrow> task
                  | Some task_data' \<Rightarrow> task\<lparr>task_data := Some task_data'\<rparr>)
      in push task task_queue)"
| "sdk_callback (OnRspFillLocalInput sessionID errorCode info) task_queue =
     (let task = new_Task ONRSPFILLLOCALINPUT;
          task = task\<lparr>task_id := sessionID\<rparr>;
          task = task\<lparr>task_int := errorCode\<rparr>;
          task = (case info of None \<Rightarrow> task
                  | Some task_data' \<Rightarrow> task\<lparr>task_data := Some task_data'\<rparr>)
      in push task task_queue)"
| "sdk_callback (OnRspFillLocalRemove sessionID errorCode info) task_queue =
     (let task = new_Task ONRSPFILLLOCALREMOVE;
          task = task\<lparr>task_id := sessionID\<rparr>;
          task = task\<lparr>task_int := errorCode\<rparr>;
          task = (case info of None \<Rightarrow> task
                  | Some task_data' \<Rightarrow> task\<lparr>task_data := Some task_data'\<rparr>)
      in push task task_queue)"

subsection \<open>The handlers\<close>

text \<open>
  One constructor for each overridable handler \<^verbatim>\<open>onX\<close>, with the parameter types
  of its override in \<^verbatim>\<open>PyTdApi\<close>: \<^verbatim>\<open>int\<close>, \<^verbatim>\<open>bool\<close>, \<^verbatim>\<open>string\<close> and
  \<^verbatim>\<open>const dict &\<close>. A value of this type is one invocation of a handler.
\<close>

datatype (plugins only:) (dead 'p) handler_call =
    onConnect
  | onRspLogin cint "'p dict"
  | onRtnContactInfo cint bool string
  | onRspRequestVertificateCode cint cint "'p dict"
  | onExpriationDate string cint
  | onAPIReady cint
  | onDisconnect cint
  | onRspChangePassword cint cint
  | onRspAuthPassword cint cint
  | onRspQryTradingDate cint cint "'p dict"
  | onRspSetReservedInfo cint cint string
  | onRspQryAccount cint cint bool "'p dict"
  | onRspQryFund cint cint bool "'p dict"
  | onRtnFund "'p dict"
  | onRspQryExchange cint cint bool "'p dict"
  | onRspQryCommodity cint cint bool "'p dict"
  | onRspQryContract cint cint bool "'p dict"
  | onRtnContract "'p dict"
  | onRspOrderAction cint cint "'p dict"
  | onRtnOrder "'p dict"
  | onRspQryOrder cint cint bool "'p dict"
  | onRspQryOrderProcess cint cint bool "'p dict"
  | onRspQryFill cint cint bool "'p dict"
  | onRtnFill "'p dict"
  | onRspQryPosition cint cint bool "'p dict"
  | onRtnPosition "'p dict"
  | onRspQryPositionSummary cint cint bool "'p dict"
  | onRtnPositionSummary "'p dict"
  | onRtnPositionProfit "'p dict"
  | onRspQryCurrency cint cint bool "'p dict"
  | onRspQryTradeMessage cint cint bool "'p dict"
  | onRtnTradeMessage "'p dict"
  | onRspQryHisOrder cint cint bool "'p dict"
  | onRspQryHisOrderProcess cint cint bool "'p dict"
  | onRspQryHisMatch cint cint bool "'p dict"
  | onRspQryHisPosition cint cint bool "'p dict"
  | onRspQryHisDelivery cint cint bool "'p dict"
  | onRspQryAccountCashAdjust cint cint bool "'p dict"
  | onRspQryBill cint cint bool "'p dict"
  | onRspQryAccountFeeRent cint cint bool "'p dict"
  | onRspQryAccountMarginRent cint cint bool "'p dict"
  | onRspHKMarketOrderInsert cint cint "'p dict"
  | onRspHKMarketOrderDelete cint cint "'p dict"
  | onHKMarketQuoteNotice "'p dict"
  | onRspOrderLocalRemove cint cint "'p dict"
  | onRspOrderLocalInput cint cint "'p dict"
  | onRspOrderLocalModify cint cint "'p dict"
  | onRspOrderLocalTransfer cint cint "'p dict"
  | onRspFillLocalInput cint cint "'p dict"
  | onRspFillLocalRemove cint cint "'p dict"

subsection \<open>The process functions\<close>

text \<open>
  The statements \<^verbatim>\<open>data["K"] = toUtf(task_data->F);\<close> and
  \<^verbatim>\<open>data["K"] = task_data->F;\<close> of a process function, in the order of the source.
\<close>

datatype rhs = Utf string | Raw string

type_synonym copy_stmt = "string \<times> rhs"


fun rhs_value :: "('v, 'p) py \<Rightarrow> rhs \<Rightarrow> 'v cstruct \<Rightarrow> 'p" where
  "rhs_value py (Utf f) task_data' = toUtf py (task_data' f)"
| "rhs_value py (Raw f) task_data' = implicit py (task_data' f)"

fun copy_fields :: "('v, 'p) py \<Rightarrow> copy_stmt list \<Rightarrow> 'v cstruct \<Rightarrow> 'p dict \<Rightarrow> 'p dict" where
  "copy_fields py [] task_data' data = data"
| "copy_fields py ((key, r) # stmts) task_data' data =
     copy_fields py stmts task_data' (data(key \<mapsto> rhs_value py r task_data'))"

definition processRspLogin_body :: "copy_stmt list" where
  "processRspLogin_body =
    [(''UserNo'', Utf ''UserNo''), (''UserType'', Raw ''UserType''),
     (''UserName'', Utf ''UserName''), (''ReservedInfo'', Utf ''ReservedInfo''),
     (''LastLoginIP'', Utf ''LastLoginIP''), (''LastLoginProt'', Raw ''LastLoginProt''),
     (''LastLoginTime'', Utf ''LastLoginTime''), (''LastLogoutTime'', Utf ''LastLogoutTime''),
     (''TradeDate'', Utf ''TradeDate''), (''LastSettleTime'', Utf ''LastSettleTime''),
     (''StartTime'', Utf ''StartTime''), (''InitTime'', Utf ''InitTime'')]"

definition processRspRequestVertificateCode_body :: "copy_stmt list" where
  "processRspRequestVertificateCode_body =
    [(''SecondSerialID'', Utf ''SecondSerialID''), (''Effective'', Raw ''Effective'')]"

definition processRspQryTradingDate_body :: "copy_stmt list" where
  "processRspQryTradingDate_body =
    [(''CurrTradeDate'', Utf ''CurrTradeDate''),
     (''LastSettlementDate'', Utf ''LastSettlementDate''), (''PromptDate'', Utf ''PromptDate''),
     (''LastPromptDate'', Utf ''LastPromptDate'')]"

definition processRspQryAccount_body :: "copy_stmt list" where
  "processRspQryAccount_body =
    [(''AccountNo'', Utf ''AccountNo''), (''AccountType'', Raw ''AccountType''),
     (''AccountState'', Raw ''AccountState''),
     (''AccountTradeRight'', Raw ''AccountTradeRight''),
     (''CommodityGroupNo'', Utf ''CommodityGroupNo''),
     (''AccountShortName'', Utf ''AccountShortName''),
     (''AccountEnShortName'', Utf ''AccountEnShortName'')]"

definition processRspQryFund_body :: "copy_stmt list" where
  "processRspQryFund_body =
    [(''AccountNo'', Utf ''AccountNo''), (''CurrencyGroupNo'', Utf ''CurrencyGroupNo''),
     (''CurrencyNo'', Utf ''CurrencyNo''), (''TradeRate'', Raw ''TradeRate''),
     (''FutureAlg'', Raw ''FutureAlg''), (''OptionAlg'', Raw ''OptionAlg''),
     (''PreBalance'', Raw ''PreBalance''), (''PreUnExpProfit'', Raw ''PreUnExpProfit''),
     (''PreLMEPositionProfit'', Raw ''PreLMEPositionProfit''),
     (''PreEquity'', Raw ''PreEquity''), (''PreAvailable1'', Raw ''PreAvailable1''),
     (''PreMarketEquity'', Raw ''PreMarketEquity''), (''CashInValue'', Raw ''CashInValue''),
     (''CashOutValue'', Raw ''CashOutValue''), (''CashAdjustValue'', Raw ''CashAdjustValue''),
     (''CashPledged'', Raw ''CashPledged''), (''FrozenFee'', Raw ''FrozenFee''),
     (''FrozenDeposit'', Raw ''FrozenDeposit''), (''AccountFee'', Raw ''AccountFee''),
     (''SwapInValue'', Raw ''SwapInValue''), (''SwapOutValue'', Raw ''SwapOutValue''),
     (''PremiumIncome'', Raw ''PremiumIncome''), (''PremiumPay'', Raw ''PremiumPay''),
     (''CloseProfit'', Raw ''CloseProfit''), (''FrozenFund'', Raw ''FrozenFund''),
     (''UnExpProfit'', Raw ''UnExpProfit''), (''ExpProfit'', Raw ''ExpProfit''),
     (''PositionProfit'', Raw ''PositionProfit''),
     (''LmePositionProfit'', Raw ''LmePositionProfit''),
     (''OptionMarketValue'', Raw ''OptionMarketValue''),
     (''AccountIntialMargin'', Raw ''AccountIntialMargin''),
     (''AccountMaintenanceMargin'', Raw ''AccountMaintenanceMargin''),
     (''UpperInitalMargin'', Raw ''UpperInitalMargin''),
     (''UpperMaintenanceMargin'', Raw ''UpperMaintenanceMargin''),
     (''Discount'', Raw ''Discount''), (''Balance'', Raw ''Balance''),
     (''Equity'', Raw ''Equity''), (''Available'', Raw ''Available''),
     (''CanDraw'', Raw ''CanDraw''), (''MarketEquity'', Raw ''MarketEquity''),
     (''AuthMoney'', Raw ''AuthMoney'')]"

definition processRtnFund_body :: "copy_stmt list" where
  "processRtnFund_body =
    [(''AccountNo'', Utf ''AccountNo''), (''CurrencyGroupNo'', Utf ''CurrencyGroupNo''),
     (''CurrencyNo'', Utf ''CurrencyNo''), (''TradeRate'', Raw ''TradeRate''),
     (''FutureAlg'', Raw ''FutureAlg''), (''OptionAlg'', Raw ''OptionAlg''),
     (''PreBalance'', Raw ''PreBalance''), (''PreUnExpProfit'', Raw ''PreUnExpProfit''),
     (''PreLMEPositionProfit'', Raw ''PreLMEPositionProfit''),
     (''PreEquity'', Raw ''PreEquity''), (''PreAvailable1'', Raw ''PreAvailable1''),
     (''PreMarketEquity'', Raw ''PreMarketEquity''), (''CashInValue'', Raw ''CashInValue''),
     (''CashOutValue'', Raw ''CashOutValue''), (''CashAdjustValue'', Raw ''CashAdjustValue''),
     (''CashPledged'', Raw ''CashPledged''), (''FrozenFee'', Raw ''FrozenFee''),
     (''FrozenDeposit'', Raw ''FrozenDeposit''), (''AccountFee'', Raw ''AccountFee''),
     (''SwapInValue'', Raw ''SwapInValue''), (''SwapOutValue'', Raw ''SwapOutValue''),
     (''PremiumIncome'', Raw ''PremiumIncome''), (''PremiumPay'', Raw ''PremiumPay''),
     (''CloseProfit'', Raw ''CloseProfit''), (''FrozenFund'', Raw ''FrozenFund''),
     (''UnExpProfit'', Raw ''UnExpProfit''), (''ExpProfit'', Raw ''ExpProfit''),
     (''PositionProfit'', Raw ''PositionProfit''),
     (''LmePositionProfit'', Raw ''LmePositionProfit''),
     (''OptionMarketValue'', Raw ''OptionMarketValue''),
     (''AccountIntialMargin'', Raw ''AccountIntialMargin''),
     (''AccountMaintenanceMargin'', Raw ''AccountMaintenanceMargin''),
     (''UpperInitalMargin'', Raw ''UpperInitalMargin''),
     (''UpperMaintenanceMargin'', Raw ''UpperMaintenanceMargin''),
     (''Discount'', Raw ''Discount''), (''Balance'', Raw ''Balance''),
     (''Equity'', Raw ''Equity''), (''Available'', Raw ''Available''),
     (''CanDraw'', Raw ''CanDraw''), (''MarketEquity'', Raw ''MarketEquity''),
     (''AuthMoney'', Raw ''AuthMoney'')]"

definition processRspQryExchange_body :: "copy_stmt list" where
  "processRspQryExchange_body =
    [(''ExchangeNo'', Utf ''ExchangeNo''), (''ExchangeName'', Utf ''ExchangeName'')]"

definition processRspQryCommodity_body :: "copy_stmt list" where
  "processRspQryCommodity_body =
    [(''ExchangeNo'', Utf ''ExchangeNo''), (''CommodityType'', Raw ''CommodityType''),
     (''CommodityNo'', Utf ''CommodityNo''), (''CommodityName'', Utf ''CommodityName''),
     (''CommodityEngName'', Utf ''CommodityEngName''),
     (''RelateExchangeNo'', Utf ''RelateExchangeNo''),
     (''RelateCommodityType'', Raw ''RelateCommodityType''),
     (''RelateCommodityNo'', Utf ''RelateCommodityNo''),
     (''RelateExchangeNo2'', Utf ''RelateExchangeNo2''),
     (''RelateCommodityType2'', Raw ''RelateCommodityType2''),
     (''RelateCommodityNo2'', Utf ''RelateCommodityNo2''),
     (''CurrencyGroupNo'', Utf ''CurrencyGroupNo''), (''TradeCurrency'', Utf ''TradeCurrency''),
     (''ContractSize'', Raw ''ContractSize''), (''OpenCloseMode'', Raw ''OpenCloseMode''),
     (''StrikePriceTimes'', Raw ''StrikePriceTimes''),
     (''CommodityTickSize'', Raw ''CommodityTickSize''),
     (''CommodityDenominator'', Raw ''CommodityDenominator''),
     (''CmbDirect'', Raw ''CmbDirect''), (''DeliveryMode'', Raw ''DeliveryMode''),
     (''DeliveryDays'', Raw ''DeliveryDays''), (''AddOneTime'', Utf ''AddOneTime''),
     (''CommodityTimeZone'', Raw ''CommodityTimeZone''), (''IsAddOne'', Raw ''IsAddOne'')]"

definition processRspQryContract_body :: "copy_stmt list" where
  "processRspQryContract_body =
    [(''ExchangeNo'', Utf ''ExchangeNo''), (''CommodityType'', Raw ''CommodityType''),
     (''CommodityNo'', Utf ''CommodityNo''), (''ContractNo1'', Utf ''ContractNo1''),
     (''StrikePrice1'', Utf ''StrikePrice1''), (''CallOrPutFlag1'', Raw ''CallOrPutFlag1''),
     (''ContractNo2'', Utf ''ContractNo2''), (''StrikePrice2'', Utf ''StrikePrice2''),
     (''CallOrPutFlag2'', Raw ''CallOrPutFlag2''), (''ContractType'', Raw ''ContractType''),
     (''QuoteUnderlyingContract'', Utf ''QuoteUnderlyingContract''),
     (''ContractName'', Utf ''ContractName''), (''ContractExpDate'', Utf ''ContractExpDate''),
     (''LastTradeDate'', Utf ''LastTradeDate''), (''FirstNoticeDate'', Utf ''FirstNoticeDate'')]"

definition processRtnContract_body :: "copy_stmt list" where
  "processRtnContract_body =
    [(''ExchangeNo'', Utf ''ExchangeNo''), (''CommodityType'', Raw ''CommodityType''),
     (''CommodityNo'', Utf ''CommodityNo''), (''ContractNo1'', Utf ''ContractNo1''),
     (''StrikePrice1'', Utf ''StrikePrice1''), (''CallOrPutFlag1'', Raw ''CallOrPutFlag1''),
     (''ContractNo2'', Utf ''ContractNo2''), (''StrikePrice2'', Utf ''StrikePrice2''),
     (''CallOrPutFlag2'', Raw ''CallOrPutFlag2''), (''ContractType'', Raw ''ContractType''),
     (''QuoteUnderlyingContract'', Utf ''QuoteUnderlyingContract''),
     (''ContractName'', Utf ''ContractName''), (''ContractExpDate'', Utf ''ContractExpDate''),
     (''LastTradeDate'', Utf ''LastTradeDate''), (''FirstNoticeDate'', Utf ''FirstNoticeDate'')]"

definition processRspOrderAction_body :: "copy_stmt list" where
  "processRspOrderAction_body =
    [(''ActionType'', Raw ''ActionType''), (''OrderInfo'', Raw ''OrderInfo'')]"

definition processRtnOrder_body :: "copy_stmt list" where
  "processRtnOrder_body =
    [(''SessionID'', Raw ''SessionID''), (''ErrorCode'', Raw ''ErrorCode''),
     (''OrderInfo'', Raw ''OrderInfo'')]"

definition processRspQryOrder_body :: "copy_stmt list" where
  "processRspQryOrder_body =
    [(''AccountNo'', Utf ''AccountNo''), (''ExchangeNo'', Utf ''ExchangeNo''),
     (''CommodityType'', Raw ''CommodityType''), (''CommodityNo'', Utf ''CommodityNo''),
     (''ContractNo'', Utf ''ContractNo''), (''StrikePrice'', Utf ''StrikePrice''),
     (''CallOrPutFlag'', Raw ''CallOrPutFlag''), (''ContractNo2'', Utf ''ContractNo2''),
     (''StrikePrice2'', Utf ''StrikePrice2''), (''CallOrPutFlag2'', Raw ''CallOrPutFlag2''),
     (''OrderType'', Raw ''OrderType''), (''OrderSource'', Raw ''OrderSource''),
     (''TimeInForce'', Raw ''TimeInForce''), (''ExpireTime'', Utf ''ExpireTime''),
     (''IsRiskOrder'', Raw ''IsRiskOrder''), (''OrderSide'', Raw ''OrderSide''),
     (''PositionEffect'', Raw ''PositionEffect''),
     (''PositionEffect2'', Raw ''PositionEffect2''), (''InquiryNo'', Utf ''InquiryNo''),
     (''HedgeFlag'', Raw ''HedgeFlag''), (''OrderPrice'', Raw ''OrderPrice''),
     (''OrderPrice2'', Raw ''OrderPrice2''), (''StopPrice'', Raw ''StopPrice''),
     (''OrderQty'', Raw ''OrderQty''), (''OrderMinQty'', Raw ''OrderMinQty''),
     (''RefInt'', Raw ''RefInt''), (''RefDouble'', Raw ''RefDouble''),
     (''RefString'', Utf ''RefString''), (''MinClipSize'', Raw ''MinClipSize''),
     (''MaxClipSize'', Raw ''MaxClipSize''), (''LicenseNo'', Utf ''LicenseNo''),
     (''ServerFlag'', Raw ''ServerFlag''), (''OrderNo'', Utf ''OrderNo''),
     (''ClientOrderNo'', Utf ''ClientOrderNo''), (''ClientID'', Utf ''ClientID''),
     (''TacticsType'', Raw ''TacticsType''), (''TriggerCondition'', Raw ''TriggerCondition''),
     (''TriggerPriceType'', Raw ''TriggerPriceType''),
     (''AddOneIsValid'', Raw ''AddOneIsValid''), (''ClientLocalIP'', Utf ''ClientLocalIP''),
     (''ClientMac'', Utf ''ClientMac''), (''ClientIP'', Utf ''ClientIP''),
     (''OrderStreamID'', Raw ''OrderStreamID''), (''UpperNo'', Utf ''UpperNo''),
     (''UpperChannelNo'', Utf ''UpperChannelNo''), (''OrderLocalNo'', Utf ''OrderLocalNo''),
     (''UpperStreamID'', Raw ''UpperStreamID''), (''OrderSystemNo'', Utf ''OrderSystemNo''),
     (''OrderExchangeSystemNo'', Utf ''OrderExchangeSystemNo''),
     (''OrderParentSystemNo'', Utf ''OrderParentSystemNo''),
     (''OrderInsertUserNo'', Utf ''OrderInsertUserNo''),
     (''OrderInsertTime'', Utf ''OrderInsertTime''),
     (''OrderCommandUserNo'', Utf ''OrderCommandUserNo''),
     (''OrderUpdateUserNo'', Utf ''OrderUpdateUserNo''),
     (''OrderUpdateTime'', Utf ''OrderUpdateTime''), (''OrderState'', Raw ''OrderState''),
     (''OrderMatchPrice'', Raw ''OrderMatchPrice''),
     (''OrderMatchPrice2'', Raw ''OrderMatchPrice2''),
     (''OrderMatchQty'', Raw ''OrderMatchQty''), (''OrderMatchQty2'', Raw ''OrderMatchQty2''),
     (''ErrorCode'', Raw ''ErrorCode''), (''ErrorText'', Utf ''ErrorText''),
     (''IsBackInput'', Raw ''IsBackInput''), (''IsDeleted'', Raw ''IsDeleted''),
     (''IsAddOne'', Raw ''IsAddOne'')]"

definition processRspQryOrderProcess_body :: "copy_stmt list" where
  "processRspQryOrderProcess_body =
    [(''AccountNo'', Utf ''AccountNo''), (''ExchangeNo'', Utf ''ExchangeNo''),
     (''CommodityType'', Raw ''CommodityType''), (''CommodityNo'', Utf ''CommodityNo''),
     (''ContractNo'', Utf ''ContractNo''), (''StrikePrice'', Utf ''StrikePrice''),
     (''CallOrPutFlag'', Raw ''CallOrPutFlag''), (''ContractNo2'', Utf ''ContractNo2''),
     (''StrikePrice2'', Utf ''StrikePrice2''), (''CallOrPutFlag2'', Raw ''CallOrPutFlag2''),
     (''OrderType'', Raw ''OrderType''), (''OrderSource'', Raw ''OrderSource''),
     (''TimeInForce'', Raw ''TimeInForce''), (''ExpireTime'', Utf ''ExpireTime''),
     (''IsRiskOrder'', Raw ''IsRiskOrder''), (''OrderSide'', Raw ''OrderSide''),
     (''PositionEffect'', Raw ''PositionEffect''),
     (''PositionEffect2'', Raw ''PositionEffect2''), (''InquiryNo'', Utf ''InquiryNo''),
     (''HedgeFlag'', Raw ''HedgeFlag''), (''OrderPrice'', Raw ''OrderPrice''),
     (''OrderPrice2'', Raw ''OrderPrice2''), (''StopPrice'', Raw ''StopPrice''),
     (''OrderQty'', Raw ''OrderQty''), (''OrderMinQty'', Raw ''OrderMinQty''),
     (''RefInt'', Raw ''RefInt''), (''RefDouble'', Raw ''RefDouble''),
     (''RefString'', Utf ''RefString''), (''MinClipSize'', Raw ''MinClipSize''),
     (''MaxClipSize'', Raw ''MaxClipSize''), (''LicenseNo'', Utf ''LicenseNo''),
     (''ServerFlag'', Raw ''ServerFlag''), (''OrderNo'', Utf ''OrderNo''),
     (''ClientOrderNo'', Utf ''ClientOrderNo''), (''ClientID'', Utf ''ClientID''),
     (''TacticsType'', Raw ''TacticsType''), (''TriggerCondition'', Raw ''TriggerCondition''),
     (''TriggerPriceType'', Raw ''TriggerPriceType''),
     (''AddOneIsValid'', Raw ''AddOneIsValid''), (''ClientLocalIP'', Utf ''ClientLocalIP''),
     (''ClientMac'', Utf ''ClientMac''), (''ClientIP'', Utf ''ClientIP''),
     (''OrderStreamID'', Raw ''OrderStreamID''), (''UpperNo'', Utf ''UpperNo''),
     (''UpperChannelNo'', Utf ''UpperChannelNo''), (''OrderLocalNo'', Utf ''OrderLocalNo''),
     (''UpperStreamID'', Raw ''UpperStreamID''), (''OrderSystemNo'', Utf ''OrderSystemNo''),
     (''OrderExchangeSystemNo'', Utf ''OrderExchangeSystemNo''),
     (''OrderParentSystemNo'', Utf ''OrderParentSystemNo''),
     (''OrderInsertUserNo'', Utf ''OrderInsertUserNo''),
     (''OrderInsertTime'', Utf ''OrderInsertTime''),
     (''OrderCommandUserNo'', Utf ''OrderCommandUserNo''),
     (''OrderUpdateUserNo'', Utf ''OrderUpdateUserNo''),
     (''OrderUpdateTime'', Utf ''OrderUpdateTime''), (''OrderState'', Raw ''OrderState''),
     (''OrderMatchPrice'', Raw ''OrderMatchPrice''),
     (''OrderMatchPrice2'', Raw ''OrderMatchPrice2''),
     (''OrderMatchQty'', Raw ''OrderMatchQty''), (''OrderMatchQty2'', Raw ''OrderMatchQty2''),
     (''ErrorCode'', Raw ''ErrorCode''), (''ErrorText'', Utf ''ErrorText''),
     (''IsBackInput'', Raw ''IsBackInput''), (''IsDeleted'', Raw ''IsDeleted''),
     (''IsAddOne'', Raw ''IsAddOne'')]"

definition processRspQryFill_body :: "copy_stmt list" where
  "processRspQryFill_body =
    [(''AccountNo'', Utf ''AccountNo''), (''ExchangeNo'', Utf ''ExchangeNo''),
     (''CommodityType'', Raw ''CommodityType''), (''CommodityNo'', Utf ''CommodityNo''),
     (''ContractNo'', Utf ''ContractNo''), (''StrikePrice'', Utf ''StrikePrice''),
     (''CallOrPutFlag'', Raw ''CallOrPutFlag''), (''MatchSource'', Raw ''MatchSource''),
     (''MatchSide'', Raw ''MatchSide''), (''PositionEffect'', Raw ''PositionEffect''),
     (''ServerFlag'', Raw ''ServerFlag''), (''OrderNo'', Utf ''OrderNo''),
     (''OrderSystemNo'', Utf ''OrderSystemNo''), (''MatchNo'', Utf ''MatchNo''),
     (''UpperMatchNo'', Utf ''UpperMatchNo''), (''ExchangeMatchNo'', Utf ''ExchangeMatchNo''),
     (''MatchDateTime'', Utf ''MatchDateTime''),
     (''UpperMatchDateTime'', Utf ''UpperMatchDateTime''), (''UpperNo'', Utf ''UpperNo''),
     (''MatchPrice'', Raw ''MatchPrice''), (''MatchQty'', Raw ''MatchQty''),
     (''IsDeleted'', Raw ''IsDeleted''), (''IsAddOne'', Raw ''IsAddOne''),
     (''FeeCurrencyGroup'', Utf ''FeeCurrencyGroup''), (''FeeCurrency'', Utf ''FeeCurrency''),
     (''FeeValue'', Raw ''FeeValue''), (''IsManualFee'', Raw ''IsManualFee''),
     (''ClosePrositionPrice'', Raw ''ClosePrositionPrice'')]"

definition processRtnFill_body :: "copy_stmt list" where
  "processRtnFill_body =
    [(''AccountNo'', Utf ''AccountNo''), (''ExchangeNo'', Utf ''ExchangeNo''),
     (''CommodityType'', Raw ''CommodityType''), (''CommodityNo'', Utf ''CommodityNo''),
     (''ContractNo'', Utf ''ContractNo''), (''StrikePrice'', Utf ''StrikePrice''),
     (''CallOrPutFlag'', Raw ''CallOrPutFlag''), (''MatchSource'', Raw ''MatchSource''),
     (''MatchSide'', Raw ''MatchSide''), (''PositionEffect'', Raw ''PositionEffect''),
     (''ServerFlag'', Raw ''ServerFlag''), (''OrderNo'', Utf ''OrderNo''),
     (''OrderSystemNo'', Utf ''OrderSystemNo''), (''MatchNo'', Utf ''MatchNo''),
     (''UpperMatchNo'', Utf ''UpperMatchNo''), (''ExchangeMatchNo'', Utf ''ExchangeMatchNo''),
     (''MatchDateTime'', Utf ''MatchDateTime''),
     (''UpperMatchDateTime'', Utf ''UpperMatchDateTime''), (''UpperNo'', Utf ''UpperNo''),
     (''MatchPrice'', Raw ''MatchPrice''), (''MatchQty'', Raw ''MatchQty''),
     (''IsDeleted'', Raw ''IsDeleted''), (''IsAddOne'', Raw ''IsAddOne''),
     (''FeeCurrencyGroup'', Utf ''FeeCurrencyGroup''), (''FeeCurrency'', Utf ''FeeCurrency''),
     (''FeeValue'', Raw ''FeeValue''), (''IsManualFee'', Raw ''IsManualFee''),
     (''ClosePrositionPrice'', Raw ''ClosePrositionPrice'')]"

definition processRspQryPosition_body :: "copy_stmt list" where
  "processRspQryPosition_body =
    [(''AccountNo'', Utf ''AccountNo''), (''ExchangeNo'', Utf ''ExchangeNo''),
     (''CommodityType'', Raw ''CommodityType''), (''CommodityNo'', Utf ''CommodityNo''),
     (''ContractNo'', Utf ''ContractNo''), (''StrikePrice'', Utf ''StrikePrice''),
     (''CallOrPutFlag'', Raw ''CallOrPutFlag''), (''MatchSide'', Raw ''MatchSide''),
     (''HedgeFlag'', Raw ''HedgeFlag''), (''PositionNo'', Utf ''PositionNo''),
     (''ServerFlag'', Raw ''ServerFlag''), (''OrderNo'', Utf ''OrderNo''),
     (''MatchNo'', Utf ''MatchNo''), (''UpperNo'', Utf ''UpperNo''),
     (''PositionPrice'', Raw ''PositionPrice''), (''PositionQty'', Raw ''PositionQty''),
     (''PositionStreamId'', Raw ''PositionStreamId''),
     (''CommodityCurrencyGroup'', Utf ''CommodityCurrencyGroup''),
     (''CommodityCurrency'', Utf ''CommodityCurrency''),
     (''CalculatePrice'', Raw ''CalculatePrice''),
     (''AccountInitialMargin'', Raw ''AccountInitialMargin''),
     (''AccountMaintenanceMargin'', Raw ''AccountMaintenanceMargin''),
     (''UpperInitialMargin'', Raw ''UpperInitialMargin''),
     (''UpperMaintenanceMargin'', Raw ''UpperMaintenanceMargin''),
     (''PositionProfit'', Raw ''PositionProfit''),
     (''LMEPositionProfit'', Raw ''LMEPositionProfit''),
     (''OptionMarketValue'', Raw ''OptionMarketValue''), (''IsHistory'', Raw ''IsHistory'')]"

definition processRtnPosition_body :: "copy_stmt list" where
  "processRtnPosition_body =
    [(''AccountNo'', Utf ''AccountNo''), (''ExchangeNo'', Utf ''ExchangeNo''),
     (''CommodityType'', Raw ''CommodityType''), (''CommodityNo'', Utf ''CommodityNo''),
     (''ContractNo'', Utf ''ContractNo''), (''StrikePrice'', Utf ''StrikePrice''),
     (''CallOrPutFlag'', Raw ''CallOrPutFlag''), (''MatchSide'', Raw ''MatchSide''),
     (''HedgeFlag'', Raw ''HedgeFlag''), (''PositionNo'', Utf ''PositionNo''),
     (''ServerFlag'', Raw ''ServerFlag''), (''OrderNo'', Utf ''OrderNo''),
     (''MatchNo'', Utf ''MatchNo''), (''UpperNo'', Utf ''UpperNo''),
     (''PositionPrice'', Raw ''PositionPrice''), (''PositionQty'', Raw ''PositionQty''),
     (''PositionStreamId'', Raw ''PositionStreamId''),
     (''CommodityCurrencyGroup'', Utf ''CommodityCurrencyGroup''),
     (''CommodityCurrency'', Utf ''CommodityCurrency''),
     (''CalculatePrice'', Raw ''CalculatePrice''),
     (''AccountInitialMargin'', Raw ''AccountInitialMargin''),
     (''AccountMaintenanceMargin'', Raw ''AccountMaintenanceMargin''),
     (''UpperInitialMargin'', Raw ''UpperInitialMargin''),
     (''UpperMaintenanceMargin'', Raw ''UpperMaintenanceMargin''),
     (''PositionProfit'', Raw ''PositionProfit''),
     (''LMEPositionProfit'', Raw ''LMEPositionProfit''),
     (''OptionMarketValue'', Raw ''OptionMarketValue''), (''IsHistory'', Raw ''IsHistory'')]"

definition processRspQryPositionSummary_body :: "copy_stmt list" where
  "processRspQryPositionSummary_body =
    [(''AccountNo'', Utf ''AccountNo''), (''ExchangeNo'', Utf ''ExchangeNo''),
     (''CommodityType'', Raw ''CommodityType''), (''CommodityNo'', Utf ''CommodityNo''),
     (''ContractNo'', Utf ''ContractNo''), (''StrikePrice'', Utf ''StrikePrice''),
     (''CallOrPutFlag'', Raw ''CallOrPutFlag''), (''MatchSide'', Raw ''MatchSide''),
     (''PositionPrice'', Raw ''PositionPrice''), (''PositionQty'', Raw ''PositionQty''),
     (''HisPositionQty'', Raw ''HisPositionQty'')]"

definition processRtnPositionSummary_body :: "copy_stmt list" where
  "processRtnPositionSummary_body =
    [(''AccountNo'', Utf ''AccountNo''), (''ExchangeNo'', Utf ''ExchangeNo''),
     (''CommodityType'', Raw ''CommodityType''), (''CommodityNo'', Utf ''CommodityNo''),
     (''ContractNo'', Utf ''ContractNo''), (''StrikePrice'', Utf ''StrikePrice''),
     (''CallOrPutFlag'', Raw ''CallOrPutFlag''), (''MatchSide'', Raw ''MatchSide''),
     (''PositionPrice'', Raw ''PositionPrice''), (''PositionQty'', Raw ''PositionQty''),
     (''HisPositionQty'', Raw ''HisPositionQty'')]"

definition processRtnPositionProfit_body :: "copy_stmt list" where
  "processRtnPositionProfit_body =
    [(''IsLast'', Raw ''IsLast''), (''Data'', Raw ''Data'')]"

definition processRspQryCurrency_body :: "copy_stmt list" where
  "processRspQryCurrency_body =
    [(''CurrencyNo'', Utf ''CurrencyNo''), (''CurrencyGroupNo'', Utf ''CurrencyGroupNo''),
     (''TradeRate'', Raw ''TradeRate''), (''TradeRate2'', Raw ''TradeRate2''),
     (''FutureAlg'', Raw ''FutureAlg''), (''OptionAlg'', Raw ''OptionAlg'')]"

definition processRspQryTradeMessage_body :: "copy_stmt list" where
  "processRspQryTradeMessage_body =
    [(''SerialID'', Raw ''SerialID''), (''AccountNo'', Utf ''AccountNo''),
     (''TMsgValidDateTime'', Utf ''TMsgValidDateTime''), (''TMsgTitle'', Utf ''TMsgTitle''),
     (''TMsgContent'', Utf ''TMsgContent''), (''TMsgType'', Raw ''TMsgType''),
     (''TMsgLevel'', Raw ''TMsgLevel''), (''IsSendBySMS'', Raw ''IsSendBySMS''),
     (''IsSendByEMail'', Raw ''IsSendByEMail''), (''Sender'', Utf ''Sender''),
     (''SendDateTime'', Utf ''SendDateTime'')]"

definition processRtnTradeMessage_body :: "copy_stmt list" where
  "processRtnTradeMessage_body =
    [(''SerialID'', Raw ''SerialID''), (''AccountNo'', Utf ''AccountNo''),
     (''TMsgValidDateTime'', Utf ''TMsgValidDateTime''), (''TMsgTitle'', Utf ''TMsgTitle''),
     (''TMsgContent'', Utf ''TMsgContent''), (''TMsgType'', Raw ''TMsgType''),
     (''TMsgLevel'', Raw ''TMsgLevel''), (''IsSendBySMS'', Raw ''IsSendBySMS''),
     (''IsSendByEMail'', Raw ''IsSendByEMail''), (''Sender'', Utf ''Sender''),
     (''SendDateTime'', Utf ''SendDateTime'')]"

definition processRspQryHisOrder_body :: "copy_stmt list" where
  "processRspQryHisOrder_body =
    [(''Date'', Utf ''Date''), (''AccountNo'', Utf ''AccountNo''),
     (''ExchangeNo'', Utf ''ExchangeNo''), (''CommodityType'', Raw ''CommodityType''),
     (''CommodityNo'', Utf ''CommodityNo''), (''ContractNo'', Utf ''ContractNo''),
     (''StrikePrice'', Utf ''StrikePrice''), (''CallOrPutFlag'', Raw ''CallOrPutFlag''),
     (''ContractNo2'', Utf ''ContractNo2''), (''StrikePrice2'', Utf ''StrikePrice2''),
     (''CallOrPutFlag2'', Raw ''CallOrPutFlag2''), (''OrderType'', Raw ''OrderType''),
     (''OrderSource'', Raw ''OrderSource''), (''TimeInForce'', Raw ''TimeInForce''),
     (''ExpireTime'', Utf ''ExpireTime''), (''IsRiskOrder'', Raw ''IsRiskOrder''),
     (''OrderSide'', Raw ''OrderSide''), (''PositionEffect'', Raw ''PositionEffect''),
     (''PositionEffect2'', Raw ''PositionEffect2''), (''InquiryNo'', Utf ''InquiryNo''),
     (''HedgeFlag'', Raw ''HedgeFlag''), (''OrderPrice'', Raw ''OrderPrice''),
     (''OrderPrice2'', Raw ''OrderPrice2''), (''StopPrice'', Raw ''StopPrice''),
     (''OrderQty'', Raw ''OrderQty''), (''OrderMinQty'', Raw ''OrderMinQty''),
     (''OrderCanceledQty'', Raw ''OrderCanceledQty''), (''RefInt'', Raw ''RefInt''),
     (''RefDouble'', Raw ''RefDouble''), (''RefString'', Utf ''RefString''),
     (''ServerFlag'', Raw ''ServerFlag''), (''OrderNo'', Utf ''OrderNo''),
     (''OrderStreamID'', Raw ''OrderStreamID''), (''UpperNo'', Utf ''UpperNo''),
     (''UpperChannelNo'', Utf ''UpperChannelNo''), (''OrderLocalNo'', Utf ''OrderLocalNo''),
     (''UpperStreamID'', Raw ''UpperStreamID''), (''OrderSystemNo'', Utf ''OrderSystemNo''),
     (''OrderExchangeSystemNo'', Utf ''OrderExchangeSystemNo''),
     (''OrderParentSystemNo'', Utf ''OrderParentSystemNo''),
     (''OrderInsertUserNo'', Utf ''OrderInsertUserNo''),
     (''OrderInsertTime'', Utf ''OrderInsertTime''),
     (''OrderCommandUserNo'', Utf ''OrderCommandUserNo''),
     (''OrderUpdateUserNo'', Utf ''OrderUpdateUserNo''),
     (''OrderUpdateTime'', Utf ''OrderUpdateTime''), (''OrderState'', Raw ''OrderState''),
     (''OrderMatchPrice'', Raw ''OrderMatchPrice''),
     (''OrderMatchPrice2'', Raw ''OrderMatchPrice2''),
     (''OrderMatchQty'', Raw ''OrderMatchQty''), (''OrderMatchQty2'', Raw ''OrderMatchQty2''),
     (''ErrorCode'', Raw ''ErrorCode''), (''ErrorText'', Utf ''ErrorText''),
     (''IsBackInput'', Raw ''IsBackInput''), (''IsDeleted'', Raw ''IsDeleted''),
     (''IsAddOne'', Raw ''IsAddOne''), (''AddOneIsValid'', Raw ''AddOneIsValid''),
     (''MinClipSize'', Raw ''MinClipSize''), (''MaxClipSize'', Raw ''MaxClipSize''),
     (''LicenseNo'', Utf ''LicenseNo''), (''TacticsType'', Raw ''TacticsType''),
     (''TriggerCondition'', Raw ''TriggerCondition''),
     (''TriggerPriceType'', Raw ''TriggerPriceType'')]"

definition processRspQryHisOrderProcess_body :: "copy_stmt list" where
  "processRspQryHisOrderProcess_body =
    [(''Date'', Utf ''Date''), (''AccountNo'', Utf ''AccountNo''),
     (''ExchangeNo'', Utf ''ExchangeNo''), (''CommodityType'', Raw ''CommodityType''),
     (''CommodityNo'', Utf ''CommodityNo''), (''ContractNo'', Utf ''ContractNo''),
     (''StrikePrice'', Utf ''StrikePrice''), (''CallOrPutFlag'', Raw ''CallOrPutFlag''),
     (''ContractNo2'', Utf ''ContractNo2''), (''StrikePrice2'', Utf ''StrikePrice2''),
     (''CallOrPutFlag2'', Raw ''CallOrPutFlag2''), (''OrderType'', Raw ''OrderType''),
     (''OrderSource'', Raw ''OrderSource''), (''TimeInForce'', Raw ''TimeInForce''),
     (''ExpireTime'', Utf ''ExpireTime''), (''IsRiskOrder'', Raw ''IsRiskOrder''),
     (''OrderSide'', Raw ''OrderSide''), (''PositionEffect'', Raw ''PositionEffect''),
     (''PositionEffect2'', Raw ''PositionEffect2''), (''InquiryNo'', Utf ''InquiryNo''),
     (''HedgeFlag'', Raw ''HedgeFlag''), (''OrderPrice'', Raw ''OrderPrice''),
     (''OrderPrice2'', Raw ''OrderPrice2''), (''StopPrice'', Raw ''StopPrice''),
     (''OrderQty'', Raw ''OrderQty''), (''OrderMinQty'', Raw ''OrderMinQty''),
     (''OrderCanceledQty'', Raw ''OrderCanceledQty''), (''RefInt'', Raw ''RefInt''),
     (''RefDouble'', Raw ''RefDouble''), (''RefString'', Utf ''RefString''),
     (''ServerFlag'', Raw ''ServerFlag''), (''OrderNo'', Utf ''OrderNo''),
     (''OrderStreamID'', Raw ''OrderStreamID''), (''UpperNo'', Utf ''UpperNo''),
     (''UpperChannelNo'', Utf ''UpperChannelNo''), (''OrderLocalNo'', Utf ''OrderLocalNo''),
     (''UpperStreamID'', Raw ''UpperStreamID''), (''OrderSystemNo'', Utf ''OrderSystemNo''),
     (''OrderExchangeSystemNo'', Utf ''OrderExchangeSystemNo''),
     (''OrderParentSystemNo'', Utf ''OrderParentSystemNo''),
     (''OrderInsertUserNo'', Utf ''OrderInsertUserNo''),
     (''OrderInsertTime'', Utf ''OrderInsertTime''),
     (''OrderCommandUserNo'', Utf ''OrderCommandUserNo''),
     (''OrderUpdateUserNo'', Utf ''OrderUpdateUserNo''),
     (''OrderUpdateTime'', Utf ''OrderUpdateTime''), (''OrderState'', Raw ''OrderState''),
     (''OrderMatchPrice'', Raw ''OrderMatchPrice''),
     (''OrderMatchPrice2'', Raw ''OrderMatchPrice2''),
     (''OrderMatchQty'', Raw ''OrderMatchQty''), (''OrderMatchQty2'', Raw ''OrderMatchQty2''),
     (''ErrorCode'', Raw ''ErrorCode''), (''ErrorText'', Utf ''ErrorText''),
     (''IsBackInput'', Raw ''IsBackInput''), (''IsDeleted'', Raw ''IsDeleted''),
     (''IsAddOne'', Raw ''IsAddOne''), (''AddOneIsValid'', Raw ''AddOneIsValid''),
     (''MinClipSize'', Raw ''MinClipSize''), (''MaxClipSize'', Raw ''MaxClipSize''),
     (''LicenseNo'', Utf ''LicenseNo''), (''TacticsType'', Raw ''TacticsType''),
     (''TriggerCondition'', Raw ''TriggerCondition''),
     (''TriggerPriceType'', Raw ''TriggerPriceType'')]"

definition processRspQryHisMatch_body :: "copy_stmt list" where
  "processRspQryHisMatch_body =
    [(''SettleDate'', Utf ''SettleDate''), (''TradeDate'', Utf ''TradeDate''),
     (''AccountNo'', Utf ''AccountNo''), (''ExchangeNo'', Utf ''ExchangeNo''),
     (''CommodityType'', Raw ''CommodityType''), (''CommodityNo'', Utf ''CommodityNo''),
     (''ContractNo'', Utf ''ContractNo''), (''StrikePrice'', Utf ''StrikePrice''),
     (''CallOrPutFlag'', Raw ''CallOrPutFlag''), (''MatchSource'', Raw ''MatchSource''),
     (''MatchSide'', Raw ''MatchSide''), (''PositionEffect'', Raw ''PositionEffect''),
     (''HedgeFlag'', Raw ''HedgeFlag''), (''MatchPrice'', Raw ''MatchPrice''),
     (''MatchQty'', Raw ''MatchQty''), (''OrderNo'', Utf ''OrderNo''),
     (''MatchNo'', Utf ''MatchNo''), (''MatchStreamID'', Raw ''MatchStreamID''),
     (''UpperNo'', Utf ''UpperNo''), (''MatchCmbNo'', Utf ''MatchCmbNo''),
     (''ExchangeMatchNo'', Utf ''ExchangeMatchNo''),
     (''MatchUpperStreamID'', Raw ''MatchUpperStreamID''),
     (''CommodityCurrencyGroup'', Utf ''CommodityCurrencyGroup''),
     (''CommodityCurrency'', Utf ''CommodityCurrency''), (''Turnover'', Raw ''Turnover''),
     (''PremiumIncome'', Raw ''PremiumIncome''), (''PremiumPay'', Raw ''PremiumPay''),
     (''AccountFee'', Raw ''AccountFee''),
     (''AccountFeeCurrencyGroup'', Utf ''AccountFeeCurrencyGroup''),
     (''AccountFeeCurrency'', Utf ''AccountFeeCurrency''),
     (''IsManualFee'', Raw ''IsManualFee''), (''AccountOtherFee'', Raw ''AccountOtherFee''),
     (''UpperFee'', Raw ''UpperFee''),
     (''UpperFeeCurrencyGroup'', Utf ''UpperFeeCurrencyGroup''),
     (''UpperFeeCurrency'', Utf ''UpperFeeCurrency''),
     (''IsUpperManualFee'', Raw ''IsUpperManualFee''),
     (''UpperOtherFee'', Raw ''UpperOtherFee''), (''MatchDateTime'', Utf ''MatchDateTime''),
     (''UpperMatchDateTime'', Utf ''UpperMatchDateTime''),
     (''CloseProfit'', Raw ''CloseProfit''), (''ClosePrice'', Raw ''ClosePrice''),
     (''CloseQty'', Raw ''CloseQty''), (''SettleGroupNo'', Utf ''SettleGroupNo''),
     (''OperatorNo'', Utf ''OperatorNo''), (''OperateTime'', Utf ''OperateTime'')]"

definition processRspQryHisPosition_body :: "copy_stmt list" where
  "processRspQryHisPosition_body =
    [(''SettleDate'', Utf ''SettleDate''), (''OpenDate'', Utf ''OpenDate''),
     (''AccountNo'', Utf ''AccountNo''), (''ExchangeNo'', Utf ''ExchangeNo''),
     (''CommodityType'', Raw ''CommodityType''), (''CommodityNo'', Utf ''CommodityNo''),
     (''ContractNo'', Utf ''ContractNo''), (''StrikePrice'', Utf ''StrikePrice''),
     (''CallOrPutFlag'', Raw ''CallOrPutFlag''), (''MatchSide'', Raw ''MatchSide''),
     (''HedgeFlag'', Raw ''HedgeFlag''), (''PositionPrice'', Raw ''PositionPrice''),
     (''PositionQty'', Raw ''PositionQty''), (''OrderNo'', Utf ''OrderNo''),
     (''PositionNo'', Utf ''PositionNo''), (''UpperNo'', Utf ''UpperNo''),
     (''CurrencyGroup'', Utf ''CurrencyGroup''), (''Currency'', Utf ''Currency''),
     (''PreSettlePrice'', Raw ''PreSettlePrice''), (''SettlePrice'', Raw ''SettlePrice''),
     (''PositionDProfit'', Raw ''PositionDProfit''),
     (''LMEPositionProfit'', Raw ''LMEPositionProfit''),
     (''OptionMarketValue'', Raw ''OptionMarketValue''),
     (''AccountInitialMargin'', Raw ''AccountInitialMargin''),
     (''AccountMaintenanceMargin'', Raw ''AccountMaintenanceMargin''),
     (''UpperInitialMargin'', Raw ''UpperInitialMargin''),
     (''UpperMaintenanceMargin'', Raw ''UpperMaintenanceMargin''),
     (''SettleGroupNo'', Utf ''SettleGroupNo'')]"

definition processRspQryHisDelivery_body :: "copy_stmt list" where
  "processRspQryHisDelivery_body =
    [(''DeliveryDate'', Utf ''DeliveryDate''), (''OpenDate'', Utf ''OpenDate''),
     (''AccountNo'', Utf ''AccountNo''), (''ExchangeNo'', Utf ''ExchangeNo''),
     (''CommodityType'', Raw ''CommodityType''), (''CommodityNo'', Utf ''CommodityNo''),
     (''ContractNo'', Utf ''ContractNo''), (''StrikePrice'', Utf ''StrikePrice''),
     (''CallOrPutFlag'', Raw ''CallOrPutFlag''), (''MatchSource'', Raw ''MatchSource''),
     (''OpenSide'', Raw ''OpenSide''), (''OpenPrice'', Raw ''OpenPrice''),
     (''DeliveryPrice'', Raw ''DeliveryPrice''), (''DeliveryQty'', Raw ''DeliveryQty''),
     (''FrozenQty'', Raw ''FrozenQty''), (''OpenNo'', Utf ''OpenNo''),
     (''UpperNo'', Utf ''UpperNo''),
     (''CommodityCurrencyGroupy'', Utf ''CommodityCurrencyGroupy''),
     (''CommodityCurrency'', Utf ''CommodityCurrency''),
     (''PreSettlePrice'', Raw ''PreSettlePrice''), (''DeliveryProfit'', Raw ''DeliveryProfit''),
     (''AccountFrozenInitialMargin'', Raw ''AccountFrozenInitialMargin''),
     (''AccountFrozenMaintenanceMargin'', Raw ''AccountFrozenMaintenanceMargin''),
     (''UpperFrozenInitialMargin'', Raw ''UpperFrozenInitialMargin''),
     (''UpperFrozenMaintenanceMargin'', Raw ''UpperFrozenMaintenanceMargin''),
     (''AccountFeeCurrencyGroup'', Utf ''AccountFeeCurrencyGroup''),
     (''AccountFeeCurrency'', Utf ''AccountFeeCurrency''),
     (''AccountDeliveryFee'', Raw ''AccountDeliveryFee''),
     (''UpperFeeCurrencyGroup'', Utf ''UpperFeeCurrencyGroup''),
     (''UpperFeeCurrency'', Utf ''UpperFeeCurrency''),
     (''UpperDeliveryFee'', Raw ''UpperDeliveryFee''), (''DeliveryMode'', Raw ''DeliveryMode''),
     (''OperatorNo'', Utf ''OperatorNo''), (''OperateTime'', Utf ''OperateTime''),
     (''SettleGourpNo'', Utf ''SettleGourpNo'')]"

definition processRspQryAccountCashAdjust_body :: "copy_stmt list" where
  "processRspQryAccountCashAdjust_body =
    [(''Date'', Utf ''Date''), (''AccountNo'', Utf ''AccountNo''),
     (''CashAdjustType'', Raw ''CashAdjustType''),
     (''CurrencyGroupNo'', Utf ''CurrencyGroupNo''), (''CurrencyNo'', Utf ''CurrencyNo''),
     (''CashAdjustValue'', Raw ''CashAdjustValue''),
     (''CashAdjustRemark'', Utf ''CashAdjustRemark''), (''OperateTime'', Utf ''OperateTime''),
     (''OperatorNo'', Utf ''OperatorNo''), (''AccountBank'', Utf ''AccountBank''),
     (''BankAccount'', Utf ''BankAccount''), (''AccountLWFlag'', Raw ''AccountLWFlag''),
     (''CompanyBank'', Utf ''CompanyBank''),
     (''InternalBankAccount'', Utf ''InternalBankAccount''),
     (''CompanyLWFlag'', Raw ''CompanyLWFlag'')]"

definition processRspQryBill_body :: "copy_stmt list" where
  "processRspQryBill_body =
    [(''Reqdata'', Raw ''Reqdata''), (''BillLen'', Raw ''BillLen''),
     (''BillText'', Raw ''BillText'')]"

definition processRspQryAccountFeeRent_body :: "copy_stmt list" where
  "processRspQryAccountFeeRent_body =
    [(''AccountNo'', Utf ''AccountNo''), (''ExchangeNo'', Utf ''ExchangeNo''),
     (''CommodityType'', Raw ''CommodityType''), (''CommodityNo'', Utf ''CommodityNo''),
     (''MatchSource'', Raw ''MatchSource''), (''CalculateMode'', Raw ''CalculateMode''),
     (''CurrencyGroupNo'', Utf ''CurrencyGroupNo''), (''CurrencyNo'', Utf ''CurrencyNo''),
     (''OpenCloseFee'', Raw ''OpenCloseFee''), (''CloseTodayFee'', Raw ''CloseTodayFee'')]"

definition processRspQryAccountMarginRent_body :: "copy_stmt list" where
  "processRspQryAccountMarginRent_body =
    [(''AccountNo'', Utf ''AccountNo''), (''ExchangeNo'', Utf ''ExchangeNo''),
     (''CommodityType'', Raw ''CommodityType''), (''CommodityNo'', Utf ''CommodityNo''),
     (''ContractNo'', Utf ''ContractNo''), (''StrikePrice'', Utf ''StrikePrice''),
     (''CallOrPutFlag'', Raw ''CallOrPutFlag''), (''CalculateMode'', Raw ''CalculateMode''),
     (''CurrencyGroupNo'', Utf ''CurrencyGroupNo''), (''CurrencyNo'', Utf ''CurrencyNo''),
     (''InitialMargin'', Raw ''InitialMargin''),
     (''MaintenanceMargin'', Raw ''MaintenanceMargin''),
     (''SellInitialMargin'', Raw ''SellInitialMargin''),
     (''SellMaintenanceMargin'', Raw ''SellMaintenanceMargin''),
     (''LockMargin'', Raw ''LockMargin'')]"

definition processRspHKMarketOrderInsert_body :: "copy_stmt list" where
  "processRspHKMarketOrderInsert_body =
    [(''AccountNo'', Utf ''AccountNo''), (''ExchangeNo'', Utf ''ExchangeNo''),
     (''CommodityType'', Raw ''CommodityType''), (''CommodityNo'', Utf ''CommodityNo''),
     (''ContractNo'', Utf ''ContractNo''), (''StrikePrice'', Utf ''StrikePrice''),
     (''CallOrPutFlag'', Raw ''CallOrPutFlag''), (''OrderType'', Raw ''OrderType''),
     (''TimeInForce'', Raw ''TimeInForce''), (''ExpireTime'', Utf ''ExpireTime''),
     (''OrderSource'', Raw ''OrderSource''), (''BuyPositionEffect'', Raw ''BuyPositionEffect''),
     (''SellPositionEffect'', Raw ''SellPositionEffect''),
     (''OrderBuyPrice'', Raw ''OrderBuyPrice''), (''OrderSellPrice'', Raw ''OrderSellPrice''),
     (''OrderBuyQty'', Raw ''OrderBuyQty''), (''OrderSellQty'', Raw ''OrderSellQty''),
     (''ServerFlag'', Raw ''ServerFlag''), (''OrderBuyNo'', Utf ''OrderBuyNo''),
     (''OrderSellNo'', Utf ''OrderSellNo''), (''AddOneIsValid'', Raw ''AddOneIsValid''),
     (''OrderMarketUserNo'', Utf ''OrderMarketUserNo''),
     (''OrderMarketTime'', Utf ''OrderMarketTime''), (''RefInt'', Raw ''RefInt''),
     (''RefDouble'', Raw ''RefDouble''), (''RefString'', Utf ''RefString''),
     (''ClientBuyOrderNo'', Utf ''ClientBuyOrderNo''),
     (''ClientSellOrderNo'', Utf ''ClientSellOrderNo''), (''ErrorCode'', Raw ''ErrorCode''),
     (''ErrorText'', Utf ''ErrorText''), (''ClientLocalIP'', Utf ''ClientLocalIP''),
     (''ClientMac'', Utf ''ClientMac''), (''ClientIP'', Utf ''ClientIP''),
     (''Remark'', Utf ''Remark'')]"

definition processRspHKMarketOrderDelete_body :: "copy_stmt list" where
  "processRspHKMarketOrderDelete_body =
    [(''AccountNo'', Utf ''AccountNo''), (''ExchangeNo'', Utf ''ExchangeNo''),
     (''CommodityType'', Raw ''CommodityType''), (''CommodityNo'', Utf ''CommodityNo''),
     (''ContractNo'', Utf ''ContractNo''), (''StrikePrice'', Utf ''StrikePrice''),
     (''CallOrPutFlag'', Raw ''CallOrPutFlag''), (''OrderType'', Raw ''OrderType''),
     (''TimeInForce'', Raw ''TimeInForce''), (''ExpireTime'', Utf ''ExpireTime''),
     (''OrderSource'', Raw ''OrderSource''), (''BuyPositionEffect'', Raw ''BuyPositionEffect''),
     (''SellPositionEffect'', Raw ''SellPositionEffect''),
     (''OrderBuyPrice'', Raw ''OrderBuyPrice''), (''OrderSellPrice'', Raw ''OrderSellPrice''),
     (''OrderBuyQty'', Raw ''OrderBuyQty''), (''OrderSellQty'', Raw ''OrderSellQty''),
     (''ServerFlag'', Raw ''ServerFlag''), (''OrderBuyNo'', Utf ''OrderBuyNo''),
     (''OrderSellNo'', Utf ''OrderSellNo''), (''AddOneIsValid'', Raw ''AddOneIsValid''),
     (''OrderMarketUserNo'', Utf ''OrderMarketUserNo''),
     (''OrderMarketTime'', Utf ''OrderMarketTime''), (''RefInt'', Raw ''RefInt''),
     (''RefDouble'', Raw ''RefDouble''), (''RefString'', Utf ''RefString''),
     (''ClientBuyOrderNo'', Utf ''ClientBuyOrderNo''),
     (''ClientSellOrderNo'', Utf ''ClientSellOrderNo''), (''ErrorCode'', Raw ''ErrorCode''),
     (''ErrorText'', Utf ''ErrorText''), (''ClientLocalIP'', Utf ''ClientLocalIP''),
     (''ClientMac'', Utf ''ClientMac''), (''ClientIP'', Utf ''ClientIP''),
     (''Remark'', Utf ''Remark'')]"

definition processHKMarketQuoteNotice_body :: "copy_stmt list" where
  "processHKMarketQuoteNotice_body =
    [(''ExchangeNo'', Utf ''ExchangeNo''), (''CommodityType'', Raw ''CommodityType''),
     (''CommodityNo'', Utf ''CommodityNo''), (''ContractNo'', Utf ''ContractNo''),
     (''StrikePrice'', Utf ''StrikePrice''), (''CallOrPutFlag'', Raw ''CallOrPutFlag''),
     (''OrderSide'', Raw ''OrderSide''), (''OrderQty'', Raw ''OrderQty'')]"

definition processRspOrderLocalRemove_body :: "copy_stmt list" where
  "processRspOrderLocalRemove_body =
    [(''req'', Raw ''req''), (''ClientLocalIP'', Utf ''ClientLocalIP''),
     (''ClientMac'', Utf ''ClientMac''), (''ClientIP'', Utf ''ClientIP'')]"

definition processRspOrderLocalInput_body :: "copy_stmt list" where
  "processRspOrderLocalInput_body =
    [(''AccountNo'', Utf ''AccountNo''), (''ExchangeNo'', Utf ''ExchangeNo''),
     (''CommodityType'', Raw ''CommodityType''), (''CommodityNo'', Utf ''CommodityNo''),
     (''ContractNo'', Utf ''ContractNo''), (''StrikePrice'', Utf ''StrikePrice''),
     (''CallOrPutFlag'', Raw ''CallOrPutFlag''), (''ContractNo2'', Utf ''ContractNo2''),
     (''StrikePrice2'', Utf ''StrikePrice2''), (''CallOrPutFlag2'', Raw ''CallOrPutFlag2''),
     (''OrderType'', Raw ''OrderType''), (''OrderSource'', Raw ''OrderSource''),
     (''TimeInForce'', Raw ''TimeInForce''), (''ExpireTime'', Utf ''ExpireTime''),
     (''IsRiskOrder'', Raw ''IsRiskOrder''), (''OrderSide'', Raw ''OrderSide''),
     (''PositionEffect'', Raw ''PositionEffect''),
     (''PositionEffect2'', Raw ''PositionEffect2''), (''InquiryNo'', Utf ''InquiryNo''),
     (''HedgeFlag'', Raw ''HedgeFlag''), (''OrderPrice'', Raw ''OrderPrice''),
     (''OrderPrice2'', Raw ''OrderPrice2''), (''StopPrice'', Raw ''StopPrice''),
     (''OrderQty'', Raw ''OrderQty''), (''OrderMinQty'', Raw ''OrderMinQty''),
     (''RefInt'', Raw ''RefInt''), (''RefDouble'', Raw ''RefDouble''),
     (''RefString'', Utf ''RefString''), (''MinClipSize'', Raw ''MinClipSize''),
     (''MaxClipSize'', Raw ''MaxClipSize''), (''LicenseNo'', Utf ''LicenseNo''),
     (''ServerFlag'', Raw ''ServerFlag''), (''OrderNo'', Utf ''OrderNo''),
     (''ClientOrderNo'', Utf ''ClientOrderNo''), (''ClientID'', Utf ''ClientID''),
     (''TacticsType'', Raw ''TacticsType''), (''TriggerCondition'', Raw ''TriggerCondition''),
     (''TriggerPriceType'', Raw ''TriggerPriceType''),
     (''AddOneIsValid'', Raw ''AddOneIsValid''), (''ClientLocalIP'', Utf ''ClientLocalIP''),
     (''ClientMac'', Utf ''ClientMac''), (''ClientIP'', Utf ''ClientIP''),
     (''OrderStreamID'', Raw ''OrderStreamID''), (''UpperNo'', Utf ''UpperNo''),
     (''UpperChannelNo'', Utf ''UpperChannelNo''), (''OrderLocalNo'', Utf ''OrderLocalNo''),
     (''UpperStreamID'', Raw ''UpperStreamID''), (''OrderSystemNo'', Utf ''OrderSystemNo''),
     (''OrderExchangeSystemNo'', Utf ''OrderExchangeSystemNo''),
     (''OrderParentSystemNo'', Utf ''OrderParentSystemNo''),
     (''OrderInsertUserNo'', Utf ''OrderInsertUserNo''),
     (''OrderInsertTime'', Utf ''OrderInsertTime''),
     (''OrderCommandUserNo'', Utf ''OrderCommandUserNo''),
     (''OrderUpdateUserNo'', Utf ''OrderUpdateUserNo''),
     (''OrderUpdateTime'', Utf ''OrderUpdateTime''), (''OrderState'', Raw ''OrderState''),
     (''OrderMatchPrice'', Raw ''OrderMatchPrice''),
     (''OrderMatchPrice2'', Raw ''OrderMatchPrice2''),
     (''OrderMatchQty'', Raw ''OrderMatchQty''), (''OrderMatchQty2'', Raw ''OrderMatchQty2''),
     (''ErrorCode'', Raw ''ErrorCode''), (''ErrorText'', Utf ''ErrorText''),
     (''IsBackInput'', Raw ''IsBackInput''), (''IsDeleted'', Raw ''IsDeleted''),
     (''IsAddOne'', Raw ''IsAddOne'')]"

definition processRspOrderLocalModify_body :: "copy_stmt list" where
  "processRspOrderLocalModify_body =
    [(''AccountNo'', Utf ''AccountNo''), (''ExchangeNo'', Utf ''ExchangeNo''),
     (''CommodityType'', Raw ''CommodityType''), (''CommodityNo'', Utf ''CommodityNo''),
     (''ContractNo'', Utf ''ContractNo''), (''StrikePrice'', Utf ''StrikePrice''),
     (''CallOrPutFlag'', Raw ''CallOrPutFlag''), (''ContractNo2'', Utf ''ContractNo2''),
     (''StrikePrice2'', Utf ''StrikePrice2''), (''CallOrPutFlag2'', Raw ''CallOrPutFlag2''),
     (''OrderType'', Raw ''OrderType''), (''OrderSource'', Raw ''OrderSource''),
     (''TimeInForce'', Raw ''TimeInForce''), (''ExpireTime'', Utf ''ExpireTime''),
     (''IsRiskOrder'', Raw ''IsRiskOrder''), (''OrderSide'', Raw ''OrderSide''),
     (''PositionEffect'', Raw ''PositionEffect''),
     (''PositionEffect2'', Raw ''PositionEffect2''), (''InquiryNo'', Utf ''InquiryNo''),
     (''HedgeFlag'', Raw ''HedgeFlag''), (''OrderPrice'', Raw ''OrderPrice''),
     (''OrderPrice2'', Raw ''OrderPrice2''), (''StopPrice'', Raw ''StopPrice''),
     (''OrderQty'', Raw ''OrderQty''), (''OrderMinQty'', Raw ''OrderMinQty''),
     (''RefInt'', Raw ''RefInt''), (''RefDouble'', Raw ''RefDouble''),
     (''RefString'', Utf ''RefString''), (''MinClipSize'', Raw ''MinClipSize''),
     (''MaxClipSize'', Raw ''MaxClipSize''), (''LicenseNo'', Utf ''LicenseNo''),
     (''ServerFlag'', Raw ''ServerFlag''), (''OrderNo'', Utf ''OrderNo''),
     (''ClientOrderNo'', Utf ''ClientOrderNo''), (''ClientID'', Utf ''ClientID''),
     (''TacticsType'', Raw ''TacticsType''), (''TriggerCondition'', Raw ''TriggerCondition''),
     (''TriggerPriceType'', Raw ''TriggerPriceType''),
     (''AddOneIsValid'', Raw ''AddOneIsValid''), (''ClientLocalIP'', Utf ''ClientLocalIP''),
     (''ClientMac'', Utf ''ClientMac''), (''ClientIP'', Utf ''ClientIP''),
     (''OrderStreamID'', Raw ''OrderStreamID''), (''UpperNo'', Utf ''UpperNo''),
     (''UpperChannelNo'', Utf ''UpperChannelNo''), (''OrderLocalNo'', Utf ''OrderLocalNo''),
     (''UpperStreamID'', Raw ''UpperStreamID''), (''OrderSystemNo'', Utf ''OrderSystemNo''),
     (''OrderExchangeSystemNo'', Utf ''OrderExchangeSystemNo''),
     (''OrderParentSystemNo'', Utf ''OrderParentSystemNo''),
     (''OrderInsertUserNo'', Utf ''OrderInsertUserNo''),
     (''OrderInsertTime'', Utf ''OrderInsertTime''),
     (''OrderCommandUserNo'', Utf ''OrderCommandUserNo''),
     (''OrderUpdateUserNo'', Utf ''OrderUpdateUserNo''),
     (''OrderUpdateTime'', Utf ''OrderUpdateTime''), (''OrderState'', Raw ''OrderState''),
     (''OrderMatchPrice'', Raw ''OrderMatchPrice''),
     (''OrderMatchPrice2'', Raw ''OrderMatchPrice2''),
     (''OrderMatchQty'', Raw ''OrderMatchQty''), (''OrderMatchQty2'', Raw ''OrderMatchQty2''),
     (''ErrorCode'', Raw ''ErrorCode''), (''ErrorText'', Utf ''ErrorText''),
     (''IsBackInput'', Raw ''IsBackInput''), (''IsDeleted'', Raw ''IsDeleted''),
     (''IsAddOne'', Raw ''IsAddOne'')]"

definition processRspOrderLocalTransfer_body :: "copy_stmt list" where
  "processRspOrderLocalTransfer_body =
    [(''AccountNo'', Utf ''AccountNo''), (''ExchangeNo'', Utf ''ExchangeNo''),
     (''CommodityType'', Raw ''CommodityType''), (''CommodityNo'', Utf ''CommodityNo''),
     (''ContractNo'', Utf ''ContractNo''), (''StrikePrice'', Utf ''StrikePrice''),
     (''CallOrPutFlag'', Raw ''CallOrPutFlag''), (''ContractNo2'', Utf ''ContractNo2''),
     (''StrikePrice2'', Utf ''StrikePrice2''), (''CallOrPutFlag2'', Raw ''CallOrPutFlag2''),
     (''OrderType'', Raw ''OrderType''), (''OrderSource'', Raw ''OrderSource''),
     (''TimeInForce'', Raw ''TimeInForce''), (''ExpireTime'', Utf ''ExpireTime''),
     (''IsRiskOrder'', Raw ''IsRiskOrder''), (''OrderSide'', Raw ''OrderSide''),
     (''PositionEffect'', Raw ''PositionEffect''),
     (''PositionEffect2'', Raw ''PositionEffect2''), (''InquiryNo'', Utf ''InquiryNo''),
     (''HedgeFlag'', Raw ''HedgeFlag''), (''OrderPrice'', Raw ''OrderPrice''),
     (''OrderPrice2'', Raw ''OrderPrice2''), (''StopPrice'', Raw ''StopPrice''),
     (''OrderQty'', Raw ''OrderQty''), (''OrderMinQty'', Raw ''OrderMinQty''),
     (''RefInt'', Raw ''RefInt''), (''RefDouble'', Raw ''RefDouble''),
     (''RefString'', Utf ''RefString''), (''MinClipSize'', Raw ''MinClipSize''),
     (''MaxClipSize'', Raw ''MaxClipSize''), (''LicenseNo'', Utf ''LicenseNo''),
     (''ServerFlag'', Raw ''ServerFlag''), (''OrderNo'', Utf ''OrderNo''),
     (''ClientOrderNo'', Utf ''ClientOrderNo''), (''ClientID'', Utf ''ClientID''),
     (''TacticsType'', Raw ''TacticsType''), (''TriggerCondition'', Raw ''TriggerCondition''),
     (''TriggerPriceType'', Raw ''TriggerPriceType''),
     (''AddOneIsValid'', Raw ''AddOneIsValid''), (''ClientLocalIP'', Utf ''ClientLocalIP''),
     (''ClientMac'', Utf ''ClientMac''), (''ClientIP'', Utf ''ClientIP''),
     (''OrderStreamID'', Raw ''OrderStreamID''), (''UpperNo'', Utf ''UpperNo''),
     (''UpperChannelNo'', Utf ''UpperChannelNo''), (''OrderLocalNo'', Utf ''OrderLocalNo''),
     (''UpperStreamID'', Raw ''UpperStreamID''), (''OrderSystemNo'', Utf ''OrderSystemNo''),
     (''OrderExchangeSystemNo'', Utf ''OrderExchangeSystemNo''),
     (''OrderParentSystemNo'', Utf ''OrderParentSystemNo''),
     (''OrderInsertUserNo'', Utf ''OrderInsertUserNo''),
     (''OrderInsertTime'', Utf ''OrderInsertTime''),
     (''OrderCommandUserNo'', Utf ''OrderCommandUserNo''),
     (''OrderUpdateUserNo'', Utf ''OrderUpdateUserNo''),
     (''OrderUpdateTime'', Utf ''OrderUpdateTime''), (''OrderState'', Raw ''OrderState''),
     (''OrderMatchPrice'', Raw ''OrderMatchPrice''),
     (''OrderMatchPrice2'', Raw ''OrderMatchPrice2''),
     (''OrderMatchQty'', Raw ''OrderMatchQty''), (''OrderMatchQty2'', Raw ''OrderMatchQty2''),
     (''ErrorCode'', Raw ''ErrorCode''), (''ErrorText'', Utf ''ErrorText''),
     (''IsBackInput'', Raw ''IsBackInput''), (''IsDeleted'', Raw ''IsDeleted''),
     (''IsAddOne'', Raw ''IsAddOne'')]"

definition processRspFillLocalInput_body :: "copy_stmt list" where
  "processRspFillLocalInput_body =
    [(''AccountNo'', Utf ''AccountNo''), (''ExchangeNo'', Utf ''ExchangeNo''),
     (''CommodityType'', Raw ''CommodityType''), (''CommodityNo'', Utf ''CommodityNo''),
     (''ContractNo'', Utf ''ContractNo''), (''StrikePrice'', Utf ''StrikePrice''),
     (''CallOrPutFlag'', Raw ''CallOrPutFlag''), (''MatchSide'', Raw ''MatchSide''),
     (''PositionEffect'', Raw ''PositionEffect''), (''HedgeFlag'', Raw ''HedgeFlag''),
     (''MatchPrice'', Raw ''MatchPrice''), (''MatchQty'', Raw ''MatchQty''),
     (''OrderSystemNo'', Utf ''OrderSystemNo''), (''UpperMatchNo'', Utf ''UpperMatchNo''),
     (''MatchDateTime'', Utf ''MatchDateTime''),
     (''UpperMatchDateTime'', Utf ''UpperMatchDateTime''), (''UpperNo'', Utf ''UpperNo''),
     (''IsAddOne'', Raw ''IsAddOne''), (''FeeCurrencyGroup'', Utf ''FeeCurrencyGroup''),
     (''FeeCurrency'', Utf ''FeeCurrency''), (''FeeValue'', Raw ''FeeValue''),
     (''IsManualFee'', Raw ''IsManualFee''),
     (''ClosePositionPrice'', Raw ''ClosePositionPrice'')]"

definition processRspFillLocalRemove_body :: "copy_stmt list" where
  "processRspFillLocalRemove_body =
    [(''ServerFlag'', Raw ''ServerFlag''), (''MatchNo'', Utf ''MatchNo'')]"

text \<open>
  A process function takes the popped task and the log of the handler invocations made
  so far, and returns the log with its own invocation appended. A \<^verbatim>\<open>char\<close> passed
  for a \<^verbatim>\<open>bool\<close> parameter is true when it is not zero.
\<close>

definition processConnect :: "('v, 'p) py \<Rightarrow> 'v Task \<Rightarrow> 'p handler_call list \<Rightarrow> 'p handler_call list" where
  "processConnect py task log = log @ [onConnect]"

definition processRspLogin :: "('v, 'p) py \<Rightarrow> 'v Task \<Rightarrow> 'p handler_call list \<Rightarrow> 'p handler_call list" where
  "processRspLogin py task log =
     (let data = Map.empty;
          data = (case task_data task of None \<Rightarrow> data
                  | Some task_data' \<Rightarrow> copy_fields py processRspLogin_body task_data' data)
      in log @ [onRspLogin (task_int task) data])"

definition processRtnContactInfo :: "('v, 'p) py \<Rightarrow> 'v Task \<Rightarrow> 'p handler_call list \<Rightarrow> 'p handler_call list" where
  "processRtnContactInfo py task log = log @ [onRtnContactInfo (task_int task) (task_last task \<noteq> 0) (task_string task)]"

definition processRspRequestVertificateCode :: "('v, 'p) py \<Rightarrow> 'v Task \<Rightarrow> 'p handler_call list \<Rightarrow> 'p handler_call list" where
  "processRspRequestVertificateCode py task log =
     (let data = Map.empty;
          data = (case task_data task of None \<Rightarrow> data
                  | Some task_data' \<Rightarrow> copy_fields py processRspRequestVertificateCode_body task_data' data)
      in log @ [onRspRequestVertificateCode (task_id task) (task_int task) data])"

definition processExpriationDate :: "('v, 'p) py \<Rightarrow> 'v Task \<Rightarrow> 'p handler_call list \<Rightarrow> 'p handler_call list" where
  "processExpriationDate py task log = log @ [onExpriationDate (task_string task) (task_int task)]"

definition processAPIReady :: "('v, 'p) py \<Rightarrow> 'v Task \<Rightarrow> 'p handler_call list \<Rightarrow> 'p handler_call list" where
  "processAPIReady py task log = log @ [onAPIReady (task_int task)]"

definition processDisconnect :: "('v, 'p) py \<Rightarrow> 'v Task \<Rightarrow> 'p handler_call list \<Rightarrow> 'p handler_call list" where
  "processDisconnect py task log = log @ [onDisconnect (task_int task)]"

definition processRspChangePassword :: "('v, 'p) py \<Rightarrow> 'v Task \<Rightarrow> 'p handler_call list \<Rightarrow> 'p handler_call list" where
  "processRspChangePassword py task log = log @ [onRspChangePassword (task_id task) (task_int task)]"

definition processRspAuthPassword :: "('v, 'p) py \<Rightarrow> 'v Task \<Rightarrow> 'p handler_call list \<Rightarrow> 'p handler_call list" where
  "processRspAuthPassword py task log = log @ [onRspAuthPassword (task_id task) (task_int task)]"

definition processRspQryTradingDate :: "('v, 'p) py \<Rightarrow> 'v Task \<Rightarrow> 'p handler_call list \<Rightarrow> 'p handler_call list" where
  "processRspQryTradingDate py task log =
     (let data = Map.empty;
          data = (case task_data task of None \<Rightarrow> data
                  | Some task_data' \<Rightarrow> copy_fields py processRspQryTradingDate_body task_data' data)
      in log @ [onRspQryTradingDate (task_id task) (task_int task) data])"

definition processRspSetReservedInfo :: "('v, 'p) py \<Rightarrow> 'v Task \<Rightarrow> 'p handler_call list \<Rightarrow> 'p handler_call list" where
  "processRspSetReservedInfo py task log = log @ [onRspSetReservedInfo (task_id task) (task_int task) (task_string task)]"

definition processRspQryAccount :: "('v, 'p) py \<Rightarrow> 'v Task \<Rightarrow> 'p handler_call list \<Rightarrow> 'p handler_call list" where
  "processRspQryAccount py task log =
     (let data = Map.empty;
          data = (case task_data task of None \<Rightarrow> data
                  | Some task_data' \<Rightarrow> copy_fields py processRspQryAccount_body task_data' data)
      in log @ [onRspQryAccount (task_id task) (task_id task) (task_last task \<noteq> 0) data])"

definition processRspQryFund :: "('v, 'p) py \<Rightarrow> 'v Task \<Rightarrow> 'p handler_call list \<Rightarrow> 'p handler_call list" where
  "processRspQryFund py task log =
     (let data = Map.empty;
          data = (case task_data task of None \<Rightarrow> data
                  | Some task_data' \<Rightarrow> copy_fields py processRspQryFund_body task_data' data)
      in log @ [onRspQryFund (task_id task) (task_int task) (task_last task \<noteq> 0) data])"

definition processRtnFund :: "('v, 'p) py \<Rightarrow> 'v Task \<Rightarrow> 'p handler_call list \<Rightarrow> 'p handler_call list" where
  "processRtnFund py task log =
     (let data = Map.empty;
          data = (case task_data task of None \<Rightarrow> data
                  | Some task_data' \<Rightarrow> copy_fields py processRtnFund_body task_data' data)
      in log @ [onRtnFund data])"

definition processRspQryExchange :: "('v, 'p) py \<Rightarrow> 'v Task \<Rightarrow> 'p handler_call list \<Rightarrow> 'p handler_call list" where
  "processRspQryExchange py task log =
     (let data = Map.empty;
          data = (case task_data task of None \<Rightarrow> data
                  | Some task_data' \<Rightarrow> copy_fields py processRspQryExchange_body task_data' data)
      in log @ [onRspQryExchange (task_id task) (task_int task) (task_last task \<noteq> 0) data])"

definition processRspQryCommodity :: "('v, 'p) py \<Rightarrow> 'v Task \<Rightarrow> 'p handler_call list \<Rightarrow> 'p handler_call list" where
  "processRspQryCommodity py task log =
     (let data = Map.empty;
          data = (case task_data task of None \<Rightarrow> data
                  | Some task_data' \<Rightarrow> copy_fields py processRspQryCommodity_body task_data' data)
      in log @ [onRspQryCommodity (task_id task) (task_int task) (task_last task \<noteq> 0) data])"

definition processRspQryContract :: "('v, 'p) py \<Rightarrow> 'v Task \<Rightarrow> 'p handler_call list \<Rightarrow> 'p handler_call list" where
  "processRspQryContract py task log =
     (let data = Map.empty;
          data = (case task_data task of None \<Rightarrow> data
                  | Some task_data' \<Rightarrow> copy_fields py processRspQryContract_body task_data' data)
      in log @ [onRspQryContract (task_id task) (task_int task) (task_last task \<noteq> 0) data])"

definition processRtnContract :: "('v, 'p) py \<Rightarrow> 'v Task \<Rightarrow> 'p handler_call list \<Rightarrow> 'p handler_call list" where
  "processRtnContract py task log =
     (let data = Map.empty;
          data = (case task_data task of None \<Rightarrow> data
                  | Some task_data' \<Rightarrow> copy_fields py processRtnContract_body task_data' data)
      in log @ [onRtnContract data])"

definition processRspOrderAction :: "('v, 'p) py \<Rightarrow> 'v Task \<Rightarrow> 'p handler_call list \<Rightarrow> 'p handler_call list" where
  "processRspOrderAction py task log =
     (let data = Map.empty;
          data = (case task_data task of None \<Rightarrow> data
                  | Some task_data' \<Rightarrow> copy_fields py processRspOrderAction_body task_data' data)
      in log @ [onRspOrderAction (task_id task) (task_int task) data])"

definition processRtnOrder :: "('v, 'p) py \<Rightarrow> 'v Task \<Rightarrow> 'p handler_call list \<Rightarrow> 'p handler_call list" where
  "processRtnOrder py task log =
     (let data = Map.empty;
          data = (case task_data task of None \<Rightarrow> data
                  | Some task_data' \<Rightarrow> copy_fields py processRtnOrder_body task_data' data)
      in log @ [onRtnOrder data])"

definition processRspQryOrder :: "('v, 'p) py \<Rightarrow> 'v Task \<Rightarrow> 'p handler_call list \<Rightarrow> 'p handler_call list" where
  "processRspQryOrder py task log =
     (let data = Map.empty;
          data = (case task_data task of None \<Rightarrow> data
                  | Some task_data' \<Rightarrow> copy_fields py processRspQryOrder_body task_data' data)
      in log @ [onRspQryOrder (task_id task) (task_int task) (task_last task \<noteq> 0) data])"

definition processRspQryOrderProcess :: "('v, 'p) py \<Rightarrow> 'v Task \<Rightarrow> 'p handler_call list \<Rightarrow> 'p handler_call list" where
  "processRspQryOrderProcess py task log =
     (let data = Map.empty;
          data = (case task_data task of None \<Rightarrow> data
                  | Some task_data' \<Rightarrow> copy_fields py processRspQryOrderProcess_body task_data' data)
      in log @ [onRspQryOrderProcess (task_id task) (task_int task) (task_last task \<noteq> 0) data])"

definition processRspQryFill :: "('v, 'p) py \<Rightarrow> 'v Task \<Rightarrow> 'p handler_call list \<Rightarrow> 'p handler_call list" where
  "processRspQryFill py task log =
     (let data = Map.empty;
          data = (case task_data task of None \<Rightarrow> data
                  | Some task_data' \<Rightarrow> copy_fields py processRspQryFill_body task_data' data)
      in log @ [onRspQryFill (task_id task) (task_int task) (task_last task \<noteq> 0) data])"

definition processRtnFill :: "('v, 'p) py \<Rightarrow> 'v Task \<Rightarrow> 'p handler_call list \<Rightarrow> 'p handler_call list" where
  "processRtnFill py task log =
     (let data = Map.empty;
          data = (case task_data task of None \<Rightarrow> data
                  | Some task_data' \<Rightarrow> copy_fields py processRtnFill_body task_data' data)
      in log @ [onRtnFill data])"

definition processRspQryPosition :: "('v, 'p) py \<Rightarrow> 'v Task \<Rightarrow> 'p handler_call list \<Rightarrow> 'p handler_call list" where
  "processRspQryPosition py task log =
     (let data = Map.empty;
          data = (case task_data task of None \<Rightarrow> data
                  | Some task_data' \<Rightarrow> copy_fields py processRspQryPosition_body task_data' data)
      in log @ [onRspQryPosition (task_id task) (task_int task) (task_last task \<noteq> 0) data])"

definition processRtnPosition :: "('v, 'p) py \<Rightarrow> 'v Task \<Rightarrow> 'p handler_call list \<Rightarrow> 'p handler_call list" where
  "processRtnPosition py task log =
     (let data = Map.empty;
          data = (case task_data task of None \<Rightarrow> data
                  | Some task_data' \<Rightarrow> copy_fields py processRtnPosition_body task_data' data)
      in log @ [onRtnPosition data])"

definition processRspQryPositionSummary :: "('v, 'p) py \<Rightarrow> 'v Task \<Rightarrow> 'p handler_call list \<Rightarrow> 'p handler_call list" where
  "processRspQryPositionSummary py task log =
     (let data = Map.empty;
          data = (case task_data task of None \<Rightarrow> data
                  | Some task_data' \<Rightarrow> copy_fields py processRspQryPositionSummary_body task_data' data)
      in log @ [onRspQryPositionSummary (task_id task) (task_int task) (task_last task \<noteq> 0) data])"

definition processRtnPositionSummary :: "('v, 'p) py \<Rightarrow> 'v Task \<Rightarrow> 'p handler_call list \<Rightarrow> 'p handler_call list" where
  "processRtnPositionSummary py task log =
     (let data = Map.empty;
          data = (case task_data task of None \<Rightarrow> data
                  | Some task_data' \<Rightarrow> copy_fields py processRtnPositionSummary_body task_data' data)
      in log @ [onRtnPositionSummary data])"

definition processRtnPositionProfit :: "('v, 'p) py \<Rightarrow> 'v Task \<Rightarrow> 'p handler_call list \<Rightarrow> 'p handler_call list" where
  "processRtnPositionProfit py task log =
     (let data = Map.empty;
          data = (case task_data task of None \<Rightarrow> data
                  | Some task_data' \<Rightarrow> copy_fields py processRtnPositionProfit_body task_data' data)
      in log @ [onRtnPositionProfit data])"

definition processRspQryCurrency :: "('v, 'p) py \<Rightarrow> 'v Task \<Rightarrow> 'p handler_call list \<Rightarrow> 'p handler_call list" where
  "processRspQryCurrency py task log =
     (let data = Map.empty;
          data = (case task_data task of None \<Rightarrow> data
                  | Some task_data' \<Rightarrow> copy_fields py processRspQryCurrency_body task_data' data)
      in log @ [onRspQryCurrency (task_id task) (task_int task) (task_last task \<noteq> 0) data])"

definition processRspQryTradeMessage :: "('v, 'p) py \<Rightarrow> 'v Task \<Rightarrow> 'p handler_call list \<Rightarrow> 'p handler_call list" where
  "processRspQryTradeMessage py task log =
     (let data = Map.empty;
          data = (case task_data task of None \<Rightarrow> data
                  | Some task_data' \<Rightarrow> copy_fields py processRspQryTradeMessage_body task_data' data)
      in log @ [onRspQryTradeMessage (task_id task) (task_int task) (task_last task \<noteq> 0) data])"

definition processRtnTradeMessage :: "('v, 'p) py \<Rightarrow> 'v Task \<Rightarrow> 'p handler_call list \<Rightarrow> 'p handler_call list" where
  "processRtnTradeMessage py task log =
     (let data = Map.empty;
          data = (case task_data task of None \<Rightarrow> data
                  | Some task_data' \<Rightarrow> copy_fields py processRtnTradeMessage_body task_data' data)
      in log @ [onRtnTradeMessage data])"

definition processRspQryHisOrder :: "('v, 'p) py \<Rightarrow> 'v Task \<Rightarrow> 'p handler_call list \<Rightarrow> 'p handler_call list" where
  "processRspQryHisOrder py task log =
     (let data = Map.empty;
          data = (case task_data task of None \<Rightarrow> data
                  | Some task_data' \<Rightarrow> copy_fields py processRspQryHisOrder_body task_data' data)
      in log @ [onRspQryHisOrder (task_id task) (task_int task) (task_last task \<noteq> 0) data])"

definition processRspQryHisOrderProcess :: "('v, 'p) py \<Rightarrow> 'v Task \<Rightarrow> 'p handler_call list \<Rightarrow> 'p handler_call list" where
  "processRspQryHisOrderProcess py task log =
     (let data = Map.empty;
          data = (case task_data task of None \<Rightarrow> data
                  | Some task_data' \<Rightarrow> copy_fields py processRspQryHisOrderProcess_body task_data' data)
      in log @ [onRspQryHisOrderProcess (task_id task) (task_int task) (task_last task \<noteq> 0) data])"

definition processRspQryHisMatch :: "('v, 'p) py \<Rightarrow> 'v Task \<Rightarrow> 'p handler_call list \<Rightarrow> 'p handler_call list" where
  "processRspQryHisMatch py task log =
     (let data = Map.empty;
          data = (case task_data task of None \<Rightarrow> data
                  | Some task_data' \<Rightarrow> copy_fields py processRspQryHisMatch_body task_data' data)
      in log @ [onRspQryHisMatch (task_id task) (task_int task) (task_last task \<noteq> 0) data])"

definition processRspQryHisPosition :: "('v, 'p) py \<Rightarrow> 'v Task \<Rightarrow> 'p handler_call list \<Rightarrow> 'p handler_call list" where
  "processRspQryHisPosition py task log =
     (let data = Map.empty;
          data = (case task_data task of None \<Rightarrow> data
                  | Some task_data' \<Rightarrow> copy_fields py processRspQryHisPosition_body task_data' data)
      in log @ [onRspQryHisPosition (task_id task) (task_int task) (task_last task \<noteq> 0) data])"

definition processRspQryHisDelivery :: "('v, 'p) py \<Rightarrow> 'v Task \<Rightarrow> 'p handler_call list \<Rightarrow> 'p handler_call list" where
  "processRspQryHisDelivery py task log =
     (let data = Map.empty;
          data = (case task_data task of None \<Rightarrow> data
                  | Some task_data' \<Rightarrow> copy_fields py processRspQryHisDelivery_body task_data' data)
      in log @ [onRspQryHisDelivery (task_id task) (task_int task) (task_last task \<noteq> 0) data])"

definition processRspQryAccountCashAdjust :: "('v, 'p) py \<Rightarrow> 'v Task \<Rightarrow> 'p handler_call list \<Rightarrow> 'p handler_call list" where
  "processRspQryAccountCashAdjust py task log =
     (let data = Map.empty;
          data = (case task_data task of None \<Rightarrow> data
                  | Some task_data' \<Rightarrow> copy_fields py processRspQryAccountCashAdjust_body task_data' data)
      in log @ [onRspQryAccountCashAdjust (task_id task) (task_int task) (task_last task \<noteq> 0) data])"

definition processRspQryBill :: "('v, 'p) py \<Rightarrow> 'v Task \<Rightarrow> 'p handler_call list \<Rightarrow> 'p handler_call list" where
  "processRspQryBill py task log =
     (let data = Map.empty;
          data = (case task_data task of None \<Rightarrow> data
                  | Some task_data' \<Rightarrow> copy_fields py processRspQryBill_body task_data' data)
      in log @ [onRspQryBill (task_id task) (task_int task) (task_last task \<noteq> 0) data])"

definition processRspQryAccountFeeRent :: "('v, 'p) py \<Rightarrow> 'v Task \<Rightarrow> 'p handler_call list \<Rightarrow> 'p handler_call list" where
  "processRspQryAccountFeeRent py task log =
     (let data = Map.empty;
          data = (case task_data task of None \<Rightarrow> data
                  | Some task_data' \<Rightarrow> copy_fields py processRspQryAccountFeeRent_body task_data' data)
      in log @ [onRspQryAccountFeeRent (task_id task) (task_int task) (task_last task \<noteq> 0) data])"

definition processRspQryAccountMarginRent :: "('v, 'p) py \<Rightarrow> 'v Task \<Rightarrow> 'p handler_call list \<Rightarrow> 'p handler_call list" where
  "processRspQryAccountMarginRent py task log =
     (let data = Map.empty;
          data = (case task_data task of None \<Rightarrow> data
                  | Some task_data' \<Rightarrow> copy_fields py processRspQryAccountMarginRent_body task_data' data)
      in log @ [onRspQryAccountMarginRent (task_id task) (task_int task) (task_last task \<noteq> 0) data])"

definition processRspHKMarketOrderInsert :: "('v, 'p) py \<Rightarrow> 'v Task \<Rightarrow> 'p handler_call list \<Rightarrow> 'p handler_call list" where
  "processRspHKMarketOrderInsert py task log =
     (let data = Map.empty;
          data = (case task_data task of None \<Rightarrow> data
                  | Some task_data' \<Rightarrow> copy_fields py processRspHKMarketOrderInsert_body task_data' data)
      in log @ [onRspHKMarketOrderInsert (task_id task) (task_int task) data])"

definition processRspHKMarketOrderDelete :: "('v, 'p) py \<Rightarrow> 'v Task \<Rightarrow> 'p handler_call list \<Rightarrow> 'p handler_call list" where
  "processRspHKMarketOrderDelete py task log =
     (let data = Map.empty;
          data = (case task_data task of None \<Rightarrow> data
                  | Some task_data' \<Rightarrow> copy_fields py processRspHKMarketOrderDelete_body task_data' data)
      in log @ [onRspHKMarketOrderDelete (task_id task) (task_int task) data])"

definition processHKMarketQuoteNotice :: "('v, 'p) py \<Rightarrow> 'v Task \<Rightarrow> 'p handler_call list \<Rightarrow> 'p handler_call list" where
  "processHKMarketQuoteNotice py task log =
     (let data = Map.empty;
          data = (case task_data task of None \<Rightarrow> data
                  | Some task_data' \<Rightarrow> copy_fields py processHKMarketQuoteNotice_body task_data' data)
      in log @ [onHKMarketQuoteNotice data])"

definition processRspOrderLocalRemove :: "('v, 'p) py \<Rightarrow> 'v Task \<Rightarrow> 'p handler_call list \<Rightarrow> 'p handler_call list" where
  "processRspOrderLocalRemove py task log =
     (let data = Map.empty;
          data = (case task_data task of None \<Rightarrow> data
                  | Some task_data' \<Rightarrow> copy_fields py processRspOrderLocalRemove_body task_data' data)
      in log @ [onRspOrderLocalRemove (task_id task) (task_int task) data])"

definition processRspOrderLocalInput :: "('v, 'p) py \<Rightarrow> 'v Task \<Rightarrow> 'p handler_call list \<Rightarrow> 'p handler_call list" where
  "processRspOrderLocalInput py task log =
     (let data = Map.empty;
          data = (case task_data task of None \<Rightarrow> data
                  | Some task_data' \<Rightarrow> copy_fields py processRspOrderLocalInput_body task_data' data)
      in log @ [onRspOrderLocalInput (task_id task) (task_int task) data])"

definition processRspOrderLocalModify :: "('v, 'p) py \<Rightarrow> 'v Task \<Rightarrow> 'p handler_call list \<Rightarrow> 'p handler_call list" where
  "processRspOrderLocalModify py task log =
     (let data = Map.empty;
          data = (case task_data task of None \<Rightarrow> data
                  | Some task_data' \<Rightarrow> copy_fields py processRspOrderLocalModify_body task_data' data)
      in log @ [onRspOrderLocalModify (task_id task) (task_int task) data])"

definition processRspOrderLocalTransfer :: "('v, 'p) py \<Rightarrow> 'v Task \<Rightarrow> 'p handler_call list \<Rightarrow> 'p handler_call list" where
  "processRspOrderLocalTransfer py task log =
     (let data = Map.empty;
          data = (case task_data task of None \<Rightarrow> data
                  | Some task_data' \<Rightarrow> copy_fields py processRspOrderLocalTransfer_body task_data' data)
      in log @ [onRspOrderLocalTransfer (task_id task) (task_int task) data])"

definition processRspFillLocalInput :: "('v, 'p) py \<Rightarrow> 'v Task \<Rightarrow> 'p handler_call list \<Rightarrow> 'p handler_call list" where
  "processRspFillLocalInput py task log =
     (let data = Map.empty;
          data = (case task_data task of None \<Rightarrow> data
                  | Some task_data' \<Rightarrow> copy_fields py processRspFillLocalInput_body task_data' data)
      in log @ [onRspFillLocalInput (task_id task) (task_int task) data])"

definition processRspFillLocalRemove :: "('v, 'p) py \<Rightarrow> 'v Task \<Rightarrow> 'p handler_call list \<Rightarrow> 'p handler_call list" where
  "processRspFillLocalRemove py task log =
     (let data = Map.empty;
          data = (case task_data task of None \<Rightarrow> data
                  | Some task_data' \<Rightarrow> copy_fields py processRspFillLocalRemove_body task_data' data)
      in log @ [onRspFillLocalRemove (task_id task) (task_int task) data])"

text \<open>The \<^verbatim>\<open>switch\<close> of \<^verbatim>\<open>processTask\<close>.\<close>

definition processTask_switch :: "('v, 'p) py \<Rightarrow> 'v Task \<Rightarrow> 'p handler_call list \<Rightarrow> 'p handler_call list" where
  "processTask_switch py task log =
     (case task_name task of
        ONCONNECT \<Rightarrow> processConnect py task log
      | ONRSPLOGIN \<Rightarrow> processRspLogin py task log
      | ONRTNCONTACTINFO \<Rightarrow> processRtnContactInfo py task log
      | ONRSPREQUESTVERTIFICATECODE \<Rightarrow> processRspRequestVertificateCode py task log
      | ONEXPRIATIONDATE \<Rightarrow> processExpriationDate py task log
      | ONAPIREADY \<Rightarrow> processAPIReady py task log
      | ONDISCONNECT \<Rightarrow> processDisconnect py task log
      | ONRSPCHANGEPASSWORD \<Rightarrow> processRspChangePassword py task log
      | ONRSPAUTHPASSWORD \<Rightarrow> processRspAuthPassword py task log
      | ONRSPQRYTRADINGDATE \<Rightarrow> processRspQryTradingDate py task log
      | ONRSPSETRESERVEDINFO \<Rightarrow> processRspSetReservedInfo py task log
      | ONRSPQRYACCOUNT \<Rightarrow> processRspQryAccount py task log
      | ONRSPQRYFUND \<Rightarrow> processRspQryFund py task log
      | ONRTNFUND \<Rightarrow> processRtnFund py task log
      | ONRSPQRYEXCHANGE \<Rightarrow> processRspQryExchange py task log
      | ONRSPQRYCOMMODITY \<Rightarrow> processRspQryCommodity py task log
      | ONRSPQRYCONTRACT \<Rightarrow> processRspQryContract py task log
      | ONRTNCONTRACT \<Rightarrow> processRtnContract py task log
      | ONRSPORDERACTION \<Rightarrow> processRspOrderAction py task log
      | ONRTNORDER \<Rightarrow> processRtnOrder py task log
      | ONRSPQRYORDER \<Rightarrow> processRspQryOrder py task log
      | ONRSPQRYORDERPROCESS \<Rightarrow> processRspQryOrderProcess py task log
      | ONRSPQRYFILL \<Rightarrow> processRspQryFill py task log
      | ONRTNFILL \<Rightarrow> processRtnFill py task log
      | ONRSPQRYPOSITION \<Rightarrow> processRspQryPosition py task log
      | ONRTNPOSITION \<Rightarrow> processRtnPosition py task log
      | ONRSPQRYPOSITIONSUMMARY \<Rightarrow> processRspQryPositionSummary py task log
      | ONRTNPOSITIONSUMMARY \<Rightarrow> processRtnPositionSummary py task log
      | ONRTNPOSITIONPROFIT \<Rightarrow> processRtnPositionProfit py task log
      | ONRSPQRYCURRENCY \<Rightarrow> processRspQryCurrency py task log
      | ONRSPQRYTRADEMESSAGE \<Rightarrow> processRspQryTradeMessage py task log
      | ONRTNTRADEMESSAGE \<Rightarrow> processRtnTradeMessage py task log
      | ONRSPQRYHISORDER \<Rightarrow> processRspQryHisOrder py task log
      | ONRSPQRYHISORDERPROCESS \<Rightarrow> processRspQryHisOrderProcess py task log
      | ONRSPQRYHISMATCH \<Rightarrow> processRspQryHisMatch py task log
      | ONRSPQRYHISPOSITION \<Rightarrow> processRspQryHisPosition py task log
      | ONRSPQRYHISDELIVERY \<Rightarrow> processRspQryHisDelivery py task log
      | ONRSPQRYACCOUNTCASHADJUST \<Rightarrow> processRspQryAccountCashAdjust py task log
      | ONRSPQRYBILL \<Rightarrow> processRspQryBill py task log
      | ONRSPQRYACCOUNTFEERENT \<Rightarrow> processRspQryAccountFeeRent py task log
      | ONRSPQRYACCOUNTMARGINRENT \<Rightarrow> processRspQryAccountMarginRent py task log
      | ONRSPHKMARKETORDERINSERT \<Rightarrow> processRspHKMarketOrderInsert py task log
      | ONRSPHKMARKETORDERDELETE \<Rightarrow> processRspHKMarketOrderDelete py task log
      | ONHKMARKETQUOTENOTICE \<Rightarrow> processHKMarketQuoteNotice py task log
      | ONRSPORDERLOCALREMOVE \<Rightarrow> processRspOrderLocalRemove py task log
      | ONRSPORDERLOCALINPUT \<Rightarrow> processRspOrderLocalInput py task log
      | ONRSPORDERLOCALMODIFY \<Rightarrow> processRspOrderLocalModify py task log
      | ONRSPORDERLOCALTRANSFER \<Rightarrow> processRspOrderLocalTransfer py task log
      | ONRSPFILLLOCALINPUT \<Rightarrow> processRspFillLocalInput py task log
      | ONRSPFILLLOCALREMOVE \<Rightarrow> processRspFillLocalRemove py task log)"


subsection \<open>The worker thread\<close>

text \<open>
  The part of a \<^verbatim>\<open>TdApi\<close> object that the bridge works on: the flag
  \<^verbatim>\<open>active\<close>, the queue \<^verbatim>\<open>task_queue\<close>, and, as the record of the effects,
  the log \<open>calls\<close> of the handler invocations made so far, oldest first.
\<close>

record ('v, 'p) TdApi =
  active :: bool
  task_queue :: "'v Task TaskQueue"
  calls :: "'p handler_call list"

text \<open>
  One pass through the body of \<^verbatim>\<open>while (this->active)\<close> in
  \<^verbatim>\<open>processTask\<close>: pop a task and dispatch it. The result is \<open>None\<close> when the
  loop does not get through a pass: \<^verbatim>\<open>active\<close> is false, \<^verbatim>\<open>pop\<close> raises
  \<^verbatim>\<open>TerminatedError\<close> (caught outside the loop), or \<^verbatim>\<open>pop\<close> blocks on the
  empty queue.
\<close>

definition processTask_pass :: "('v, 'p) py \<Rightarrow> ('v, 'p) TdApi \<Rightarrow> ('v, 'p) TdApi option" where
  "processTask_pass py this =
     (if active this then
        (case pop (task_queue this) of
           TerminatedError \<Rightarrow> None
         | Blocked \<Rightarrow> None
         | Popped task q \<Rightarrow>
             Some (this\<lparr>task_queue := q, calls := processTask_switch py task (calls this)\<rparr>))
      else None)"

text \<open>
  \<^verbatim>\<open>processTask\<close> run by the worker thread alone: passes are made until the loop
  ends or blocks; the result is the state reached then.
\<close>

function processTask :: "('v, 'p) py \<Rightarrow> ('v, 'p) TdApi \<Rightarrow> ('v, 'p) TdApi" where
  "processTask py this =
     (case processTask_pass py this of
        None \<Rightarrow> this
      | Some this' \<Rightarrow> processTask py this')"
  by pat_completeness auto
termination
proof (relation "measure (\<lambda>(py, this). length (queued (task_queue this)))")
  show "wf (measure (\<lambda>(py :: ('v, 'p) py, this :: ('v, 'p) TdApi). length (queued (task_queue this))))"
    by simp
next
  fix py :: "('v, 'p) py" and this this' :: "('v, 'p) TdApi"
  assume "processTask_pass py this = Some this'"
  then show "((py, this'), (py, this)) \<in> measure (\<lambda>(py, this). length (queued (task_queue this)))"
    by (auto simp: processTask_pass_def pop_def split: if_splits list.splits)
qed

text \<open>
  \<^verbatim>\<open>init()\<close> sets \<^verbatim>\<open>active\<close> and starts the worker thread on
  \<^verbatim>\<open>processTask\<close>; \<^verbatim>\<open>exit()\<close> clears \<^verbatim>\<open>active\<close>, terminates the queue and
  joins the thread. The calls into the SDK (\<^verbatim>\<open>api->Init()\<close>, \<^verbatim>\<open>api->Release()\<close>)
  do not touch the three fields and are left out.
\<close>

definition init :: "('v, 'p) TdApi \<Rightarrow> ('v, 'p) TdApi" where
  "init this = this\<lparr>active := True\<rparr>"

definition exit :: "('v, 'p) TdApi \<Rightarrow> ('v, 'p) TdApi" where
  "exit this = this\<lparr>active := False, task_queue := terminate (task_queue this)\<rparr>"

text \<open>
  A schedule is a sequence of atomic actions on the object, in the order in which the
  queue's lock admits them: an SDK thread runs a callback, the worker makes one pass of
  its loop, or the host calls \<^verbatim>\<open>exit()\<close>.
\<close>

datatype (plugins only:) (dead 'v) action = SDK "'v callback" | Worker | Exit

primrec perform :: "('v, 'p) py \<Rightarrow> 'v action \<Rightarrow> ('v, 'p) TdApi \<Rightarrow> ('v, 'p) TdApi" where
  "perform py (SDK cb) this = this\<lparr>task_queue := sdk_callback cb (task_queue this)\<rparr>"
| "perform py Worker this = (case processTask_pass py this of None \<Rightarrow> this | Some this' \<Rightarrow> this')"
| "perform py Exit this = exit this"

primrec run :: "('v, 'p) py \<Rightarrow> 'v action list \<Rightarrow> ('v, 'p) TdApi \<Rightarrow> ('v, 'p) TdApi" where
  "run py [] this = this"
| "run py (a # as) this = run py as (perform py a this)"

text \<open>
  The tasks that one invocation of a callback puts on an empty queue, and the tasks that
  the callbacks of a schedule push, in the order of the pushes.
\<close>

definition pushed_by :: "'v callback \<Rightarrow> 'v Task list" where
  "pushed_by cb = queued (sdk_callback cb empty_queue)"

primrec pushed :: "'v action list \<Rightarrow> 'v Task list" where
  "pushed [] = []"
| "pushed (a # as) =
     (case a of SDK cb \<Rightarrow> pushed_by cb | Worker \<Rightarrow> [] | Exit \<Rightarrow> []) @ pushed as"

text \<open>The handler invocations that dispatching one task makes.\<close>

definition replay :: "('v, 'p) py \<Rightarrow> 'v Task \<Rightarrow> 'p handler_call list" where
  "replay py task = processTask_switch py task []"

text \<open>
  A callback followed by its replay: on an object that \<^verbatim>\<open>init()\<close> has started, with
  an empty queue and an empty log, the SDK runs the callback and then the worker runs
  its loop; the result is the log of the handler invocations.
\<close>

definition started :: "('v, 'p) TdApi" where
  "started = init \<lparr>active = False, task_queue = empty_queue, calls = []\<rparr>"

definition callback_then_replay :: "('v, 'p) py \<Rightarrow> 'v callback \<Rightarrow> 'p handler_call list" where
  "callback_then_replay py cb = calls (processTask py (perform py (SDK cb) started))"

subsection \<open>Names and arguments\<close>

text \<open>
  The names of the tags, callbacks and handlers as they are written in the source, and
  ASCII upper case: the tag of \<^verbatim>\<open>OnX\<close> and of \<^verbatim>\<open>onX\<close> is written \<^verbatim>\<open>ONX\<close>.
\<close>

primrec tag_name :: "task_name \<Rightarrow> string" where
  "tag_name ONCONNECT = ''ONCONNECT''"
| "tag_name ONRSPLOGIN = ''ONRSPLOGIN''"
| "tag_name ONRTNCONTACTINFO = ''ONRTNCONTACTINFO''"
| "tag_name ONRSPREQUESTVERTIFICATECODE = ''ONRSPREQUESTVERTIFICATECODE''"
| "tag_name ONEXPRIATIONDATE = ''ONEXPRIATIONDATE''"
| "tag_name ONAPIREADY = ''ONAPIREADY''"
| "tag_name ONDISCONNECT = ''ONDISCONNECT''"
| "tag_name ONRSPCHANGEPASSWORD = ''ONRSPCHANGEPASSWORD''"
| "tag_name ONRSPAUTHPASSWORD = ''ONRSPAUTHPASSWORD''"
| "tag_name ONRSPQRYTRADINGDATE = ''ONRSPQRYTRADINGDATE''"
| "tag_name ONRSPSETRESERVEDINFO = ''ONRSPSETRESERVEDINFO''"
| "tag_name ONRSPQRYACCOUNT = ''ONRSPQRYACCOUNT''"
| "tag_name ONRSPQRYFUND = ''ONRSPQRYFUND''"
| "tag_name ONRTNFUND = ''ONRTNFUND''"
| "tag_name ONRSPQRYEXCHANGE = ''ONRSPQRYEXCHANGE''"
| "tag_name ONRSPQRYCOMMODITY = ''ONRSPQRYCOMMODITY''"
| "tag_name ONRSPQRYCONTRACT = ''ONRSPQRYCONTRACT''"
| "tag_name ONRTNCONTRACT = ''ONRTNCONTRACT''"
| "tag_name ONRSPORDERACTION = ''ONRSPORDERACTION''"
| "tag_name ONRTNORDER = ''ONRTNORDER''"
| "tag_name ONRSPQRYORDER = ''ONRSPQRYORDER''"
| "tag_name ONRSPQRYORDERPROCESS = ''ONRSPQRYORDERPROCESS''"
| "tag_name ONRSPQRYFILL = ''ONRSPQRYFILL''"
| "tag_name ONRTNFILL = ''ONRTNFILL''"
| "tag_name ONRSPQRYPOSITION = ''ONRSPQRYPOSITION''"
| "tag_name ONRTNPOSITION = ''ONRTNPOSITION''"
| "tag_name ONRSPQRYPOSITIONSUMMARY = ''ONRSPQRYPOSITIONSUMMARY''"
| "tag_name ONRTNPOSITIONSUMMARY = ''ONRTNPOSITIONSUMMARY''"
| "tag_name ONRTNPOSITIONPROFIT = ''ONRTNPOSITIONPROFIT''"
| "tag_name ONRSPQRYCURRENCY = ''ONRSPQRYCURRENCY''"
| "tag_name ONRSPQRYTRADEMESSAGE = ''ONRSPQRYTRADEMESSAGE''"
| "tag_name ONRTNTRADEMESSAGE = ''ONRTNTRADEMESSAGE''"
| "tag_name ONRSPQRYHISORDER = ''ONRSPQRYHISORDER''"
| "tag_name ONRSPQRYHISORDERPROCESS = ''ONRSPQRYHISORDERPROCESS''"
| "tag_name ONRSPQRYHISMATCH = ''ONRSPQRYHISMATCH''"
| "tag_name ONRSPQRYHISPOSITION = ''ONRSPQRYHISPOSITION''"
| "tag_name ONRSPQRYHISDELIVERY = ''ONRSPQRYHISDELIVERY''"
| "tag_name ONRSPQRYACCOUNTCASHADJUST = ''ONRSPQRYACCOUNTCASHADJUST''"
| "tag_name ONRSPQRYBILL = ''ONRSPQRYBILL''"
| "tag_name ONRSPQRYACCOUNTFEERENT = ''ONRSPQRYACCOUNTFEERENT''"
| "tag_name ONRSPQRYACCOUNTMARGINRENT = ''ONRSPQRYACCOUNTMARGINRENT''"
| "tag_name ONRSPHKMARKETORDERINSERT = ''ONRSPHKMARKETORDERINSERT''"
| "tag_name ONRSPHKMARKETORDERDELETE = ''ONRSPHKMARKETORDERDELETE''"
| "tag_name ONHKMARKETQUOTENOTICE = ''ONHKMARKETQUOTENOTICE''"
| "tag_name ONRSPORDERLOCALREMOVE = ''ONRSPORDERLOCALREMOVE''"
| "tag_name ONRSPORDERLOCALINPUT = ''ONRSPORDERLOCALINPUT''"
| "tag_name ONRSPORDERLOCALMODIFY = ''ONRSPORDERLOCALMODIFY''"
| "tag_name ONRSPORDERLOCALTRANSFER = ''ONRSPORDERLOCALTRANSFER''"
| "tag_name ONRSPFILLLOCALINPUT = ''ONRSPFILLLOCALINPUT''"
| "tag_name ONRSPFILLLOCALREMOVE = ''ONRSPFILLLOCALREMOVE''"

primrec callback_name :: "'v callback \<Rightarrow> string" where
  "callback_name OnConnect = ''OnConnect''"
| "callback_name (OnRspLogin _ _) = ''OnRspLogin''"
| "callback_name (OnRtnContactInfo _ _ _) = ''OnRtnContactInfo''"
| "callback_name (OnRspRequestVertificateCode _ _ _) = ''OnRspRequestVertificateCode''"
| "callback_name (OnExpriationDate _ _) = ''OnExpriationDate''"
| "callback_name (OnAPIReady _) = ''OnAPIReady''"
| "callback_name (OnDisconnect _) = ''OnDisconnect''"
| "callback_name (OnRspChangePassword _ _) = ''OnRspChangePassword''"
| "callback_name (OnRspAuthPassword _ _) = ''OnRspAuthPassword''"
| "callback_name (OnRspQryTradingDate _ _ _) = ''OnRspQryTradingDate''"
| "callback_name (OnRspSetReservedInfo _ _ _) = ''OnRspSetReservedInfo''"
| "callback_name (OnRspQryAccount _ _ _ _) = ''OnRspQryAccount''"
| "callback_name (OnRspQryFund _ _ _ _) = ''OnRspQryFund''"
| "callback_name (OnRtnFund _) = ''OnRtnFund''"
| "callback_name (OnRspQryExchange _ _ _ _) = ''OnRspQryExchange''"
| "callback_name (OnRspQryCommodity _ _ _ _) = ''OnRspQryCommodity''"
| "callback_name (OnRspQryContract _ _ _ _) = ''OnRspQryContract''"
| "callback_name (OnRtnContract _) = ''OnRtnContract''"
| "callback_name (OnRspOrderAction _ _ _) = ''OnRspOrderAction''"
| "callback_name (OnRtnOrder _) = ''OnRtnOrder''"
| "callback_name (OnRspQryOrder _ _ _ _) = ''OnRspQryOrder''"
| "callback_name (OnRspQryOrderProcess _ _ _ _) = ''OnRspQryOrderProcess''"
| "callback_name (OnRspQryFill _ _ _ _) = ''OnRspQryFill''"
| "callback_name (OnRtnFill _) = ''OnRtnFill''"
| "callback_name (OnRspQryPosition _ _ _ _) = ''OnRspQryPosition''"
| "callback_name (OnRtnPosition _) = ''OnRtnPosition''"
| "callback_name (OnRspQryPositionSummary _ _ _ _) = ''OnRspQryPositionSummary''"
| "callback_name (OnRtnPositionSummary _) = ''OnRtnPositionSummary''"
| "callback_name (OnRtnPositionProfit _) = ''OnRtnPositionProfit''"
| "callback_name (OnRspQryCurrency _ _ _ _) = ''OnRspQryCurrency''"
| "callback_name (OnRspQryTradeMessage _ _ _ _) = ''OnRspQryTradeMessage''"
| "callback_name (OnRtnTradeMessage _) = ''OnRtnTradeMessage''"
| "callback_name (OnRspQryHisOrder _ _ _ _) = ''OnRspQryHisOrder''"
| "callback_name (OnRspQryHisOrderProcess _ _ _ _) = ''OnRspQryHisOrderProcess''"
| "callback_name (OnRspQryHisMatch _ _ _ _) = ''OnRspQryHisMatch''"
| "callback_name (OnRspQryHisPosition _ _ _ _) = ''OnRspQryHisPosition''"
| "callback_name (OnRspQryHisDelivery _ _ _ _) = ''OnRspQryHisDelivery''"
| "callback_name (OnRspQryAccountCashAdjust _ _ _ _) = ''OnRspQryAccountCashAdjust''"
| "callback_name (OnRspQryBill _ _ _ _) = ''OnRspQryBill''"
| "callback_name (OnRspQryAccountFeeRent _ _ _ _) = ''OnRspQryAccountFeeRent''"
| "callback_name (OnRspQryAccountMarginRent _ _ _ _) = ''OnRspQryAccountMarginRent''"
| "callback_name (OnRspHKMarketOrderInsert _ _ _) = ''OnRspHKMarketOrderInsert''"
| "callback_name (OnRspHKMarketOrderDelete _ _ _) = ''OnRspHKMarketOrderDelete''"
| "callback_name (OnHKMarketQuoteNotice _) = ''OnHKMarketQuoteNotice''"
| "callback_name (OnRspOrderLocalRemove _ _ _) = ''OnRspOrderLocalRemove''"
| "callback_name (OnRspOrderLocalInput _ _ _) = ''OnRspOrderLocalInput''"
| "callback_name (OnRspOrderLocalModify _ _ _) = ''OnRspOrderLocalModify''"
| "callback_name (OnRspOrderLocalTransfer _ _ _) = ''OnRspOrderLocalTransfer''"
| "callback_name (OnRspFillLocalInput _ _ _) = ''OnRspFillLocalInput''"
| "callback_name (OnRspFillLocalRemove _ _ _) = ''OnRspFillLocalRemove''"

primrec handler_name :: "'p handler_call \<Rightarrow> string" where
  "handler_name onConnect = ''onConnect''"
| "handler_name (onRspLogin _ _) = ''onRspLogin''"
| "handler_name (onRtnContactInfo _ _ _) = ''onRtnContactInfo''"
| "handler_name (onRspRequestVertificateCode _ _ _) = ''onRspRequestVertificateCode''"
| "handler_name (onExpriationDate _ _) = ''onExpriationDate''"
| "handler_name (onAPIReady _) = ''onAPIReady''"
| "handler_name (onDisconnect _) = ''onDisconnect''"
| "handler_name (onRspChangePassword _ _) = ''onRspChangePassword''"
| "handler_name (onRspAuthPassword _ _) = ''onRspAuthPassword''"
| "handler_name (onRspQryTradingDate _ _ _) = ''onRspQryTradingDate''"
| "handler_name (onRspSetReservedInfo _ _ _) = ''onRspSetReservedInfo''"
| "handler_name (onRspQryAccount _ _ _ _) = ''onRspQryAccount''"
| "handler_name (onRspQryFund _ _ _ _) = ''onRspQryFund''"
| "handler_name (onRtnFund _) = ''onRtnFund''"
| "handler_name (onRspQryExchange _ _ _ _) = ''onRspQryExchange''"
| "handler_name (onRspQryCommodity _ _ _ _) = ''onRspQryCommodity''"
| "handler_name (onRspQryContract _ _ _ _) = ''onRspQryContract''"
| "handler_name (onRtnContract _) = ''onRtnContract''"
| "handler_name (onRspOrderAction _ _ _) = ''onRspOrderAction''"
| "handler_name (onRtnOrder _) = ''onRtnOrder''"
| "handler_name (onRspQryOrder _ _ _ _) = ''onRspQryOrder''"
| "handler_name (onRspQryOrderProcess _ _ _ _) = ''onRspQryOrderProcess''"
| "handler_name (onRspQryFill _ _ _ _) = ''onRspQryFill''"
| "handler_name (onRtnFill _) = ''onRtnFill''"
| "handler_name (onRspQryPosition _ _ _ _) = ''onRspQryPosition''"
| "handler_name (onRtnPosition _) = ''onRtnPosition''"
| "handler_name (onRspQryPositionSummary _ _ _ _) = ''onRspQryPositionSummary''"
| "handler_name (onRtnPositionSummary _) = ''onRtnPositionSummary''"
| "handler_name (onRtnPositionProfit _) = ''onRtnPositionProfit''"
| "handler_name (onRspQryCurrency _ _ _ _) = ''onRspQryCurrency''"
| "handler_name (onRspQryTradeMessage _ _ _ _) = ''onRspQryTradeMessage''"
| "handler_name (onRtnTradeMessage _) = ''onRtnTradeMessage''"
| "handler_name (onRspQryHisOrder _ _ _ _) = ''onRspQryHisOrder''"
| "handler_name (onRspQryHisOrderProcess _ _ _ _) = ''onRspQryHisOrderProcess''"
| "handler_name (onRspQryHisMatch _ _ _ _) = ''onRspQryHisMatch''"
| "handler_name (onRspQryHisPosition _ _ _ _) = ''onRspQryHisPosition''"
| "handler_name (onRspQryHisDelivery _ _ _ _) = ''onRspQryHisDelivery''"
| "handler_name (onRspQryAccountCashAdjust _ _ _ _) = ''onRspQryAccountCashAdjust''"
| "handler_name (onRspQryBill _ _ _ _) = ''onRspQryBill''"
| "handler_name (onRspQryAccountFeeRent _ _ _ _) = ''onRspQryAccountFeeRent''"
| "handler_name (onRspQryAccountMarginRent _ _ _ _) = ''onRspQryAccountMarginRent''"
| "handler_name (onRspHKMarketOrderInsert _ _ _) = ''onRspHKMarketOrderInsert''"
| "handler_name (onRspHKMarketOrderDelete _ _ _) = ''onRspHKMarketOrderDelete''"
| "handler_name (onHKMarketQuoteNotice _) = ''onHKMarketQuoteNotice''"
| "handler_name (onRspOrderLocalRemove _ _ _) = ''onRspOrderLocalRemove''"
| "handler_name (onRspOrderLocalInput _ _ _) = ''onRspOrderLocalInput''"
| "handler_name (onRspOrderLocalModify _ _ _) = ''onRspOrderLocalModify''"
| "handler_name (onRspOrderLocalTransfer _ _ _) = ''onRspOrderLocalTransfer''"
| "handler_name (onRspFillLocalInput _ _ _) = ''onRspFillLocalInput''"
| "handler_name (onRspFillLocalRemove _ _ _) = ''onRspFillLocalRemove''"

definition upper :: "char \<Rightarrow> char" where
  "upper c =
     (case map_of (zip ''abcdefghijklmnopqrstuvwxyz'' ''ABCDEFGHIJKLMNOPQRSTUVWXYZ'') c of
        None \<Rightarrow> c
      | Some C \<Rightarrow> C)"

text \<open>Each callback, invoked with zero numbers, empty strings and a null pointer.\<close>

primrec null_invocation :: "task_name \<Rightarrow> 'v callback" where
  "null_invocation ONCONNECT = OnConnect"
| "null_invocation ONRSPLOGIN = OnRspLogin 0 None"
| "null_invocation ONRTNCONTACTINFO = OnRtnContactInfo 0 0 []"
| "null_invocation ONRSPREQUESTVERTIFICATECODE = OnRspRequestVertificateCode 0 0 None"
| "null_invocation ONEXPRIATIONDATE = OnExpriationDate [] 0"
| "null_invocation ONAPIREADY = OnAPIReady 0"
| "null_invocation ONDISCONNECT = OnDisconnect 0"
| "null_invocation ONRSPCHANGEPASSWORD = OnRspChangePassword 0 0"
| "null_invocation ONRSPAUTHPASSWORD = OnRspAuthPassword 0 0"
| "null_invocation ONRSPQRYTRADINGDATE = OnRspQryTradingDate 0 0 None"
| "null_invocation ONRSPSETRESERVEDINFO = OnRspSetReservedInfo 0 0 []"
| "null_invocation ONRSPQRYACCOUNT = OnRspQryAccount 0 0 0 None"
| "null_invocation ONRSPQRYFUND = OnRspQryFund 0 0 0 None"
| "null_invocation ONRTNFUND = OnRtnFund None"
| "null_invocation ONRSPQRYEXCHANGE = OnRspQryExchange 0 0 0 None"
| "null_invocation ONRSPQRYCOMMODITY = OnRspQryCommodity 0 0 0 None"
| "null_invocation ONRSPQRYCONTRACT = OnRspQryContract 0 0 0 None"
| "null_invocation ONRTNCONTRACT = OnRtnContract None"
| "null_invocation ONRSPORDERACTION = OnRspOrderAction 0 0 None"
| "null_invocation ONRTNORDER = OnRtnOrder None"
| "null_invocation ONRSPQRYORDER = OnRspQryOrder 0 0 0 None"
| "null_invocation ONRSPQRYORDERPROCESS = OnRspQryOrderProcess 0 0 0 None"
| "null_invocation ONRSPQRYFILL = OnRspQryFill 0 0 0 None"
| "null_invocation ONRTNFILL = OnRtnFill None"
| "null_invocation ONRSPQRYPOSITION = OnRspQryPosition 0 0 0 None"
| "null_invocation ONRTNPOSITION = OnRtnPosition None"
| "null_invocation ONRSPQRYPOSITIONSUMMARY = OnRspQryPositionSummary 0 0 0 None"
| "null_invocation ONRTNPOSITIONSUMMARY = OnRtnPositionSummary None"
| "null_invocation ONRTNPOSITIONPROFIT = OnRtnPositionProfit None"
| "null_invocation ONRSPQRYCURRENCY = OnRspQryCurrency 0 0 0 None"
| "null_invocation ONRSPQRYTRADEMESSAGE = OnRspQryTradeMessage 0 0 0 None"
| "null_invocation ONRTNTRADEMESSAGE = OnRtnTradeMessage None"
| "null_invocation ONRSPQRYHISORDER = OnRspQryHisOrder 0 0 0 None"
| "null_invocation ONRSPQRYHISORDERPROCESS = OnRspQryHisOrderProcess 0 0 0 None"
| "null_invocation ONRSPQRYHISMATCH = OnRspQryHisMatch 0 0 0 None"
| "null_invocation ONRSPQRYHISPOSITION = OnRspQryHisPosition 0 0 0 None"
| "null_invocation ONRSPQRYHISDELIVERY = OnRspQryHisDelivery 0 0 0 None"
| "null_invocation ONRSPQRYACCOUNTCASHADJUST = OnRspQryAccountCashAdjust 0 0 0 None"
| "null_invocation ONRSPQRYBILL = OnRspQryBill 0 0 0 None"
| "null_invocation ONRSPQRYACCOUNTFEERENT = OnRspQryAccountFeeRent 0 0 0 None"
| "null_invocation ONRSPQRYACCOUNTMARGINRENT = OnRspQryAccountMarginRent 0 0 0 None"
| "null_invocation ONRSPHKMARKETORDERINSERT = OnRspHKMarketOrderInsert 0 0 None"
| "null_invocation ONRSPHKMARKETORDERDELETE = OnRspHKMarketOrderDelete 0 0 None"
| "null_invocation ONHKMARKETQUOTENOTICE = OnHKMarketQuoteNotice None"
| "null_invocation ONRSPORDERLOCALREMOVE = OnRspOrderLocalRemove 0 0 None"
| "null_invocation ONRSPORDERLOCALINPUT = OnRspOrderLocalInput 0 0 None"
| "null_invocation ONRSPORDERLOCALMODIFY = OnRspOrderLocalModify 0 0 None"
| "null_invocation ONRSPORDERLOCALTRANSFER = OnRspOrderLocalTransfer 0 0 None"
| "null_invocation ONRSPFILLLOCALINPUT = OnRspFillLocalInput 0 0 None"
| "null_invocation ONRSPFILLLOCALREMOVE = OnRspFillLocalRemove 0 0 None"

text \<open>
  The arguments of a callback by parameter name (\<^verbatim>\<open>sessionID\<close>,
  \<^verbatim>\<open>errorCode\<close>, \<^verbatim>\<open>isLast\<close>, the struct pointer), and the arguments of a
  handler invocation by parameter name (\<^verbatim>\<open>session\<close>, \<^verbatim>\<open>error\<close>,
  \<^verbatim>\<open>last\<close>, \<^verbatim>\<open>data\<close>). The override of \<^verbatim>\<open>onRspQryAccount\<close> calls both
  of its first two parameters \<^verbatim>\<open>session\<close>; the second one stands where the
  other handlers have \<^verbatim>\<open>error\<close>.
\<close>

primrec sdk_sessionID :: "'v callback \<Rightarrow> uint option" where
  "sdk_sessionID OnConnect = None"
| "sdk_sessionID (OnRspLogin _ _) = None"
| "sdk_sessionID (OnRtnContactInfo _ _ _) = None"
| "sdk_sessionID (OnRspRequestVertificateCode sessionID _ _) = Some sessionID"
| "sdk_sessionID (OnExpriationDate _ _) = None"
| "sdk_sessionID (OnAPIReady _) = None"
| "sdk_sessionID (OnDisconnect _) = None"
| "sdk_sessionID (OnRspChangePassword sessionID _) = Some sessionID"
| "sdk_sessionID (OnRspAuthPassword sessionID _) = Some sessionID"
| "sdk_sessionID (OnRspQryTradingDate sessionID _ _) = Some sessionID"
| "sdk_sessionID (OnRspSetReservedInfo sessionID _ _) = Some sessionID"
| "sdk_sessionID (OnRspQryAccount sessionID _ _ _) = Some sessionID"
| "sdk_sessionID (OnRspQryFund sessionID _ _ _) = Some sessionID"
| "sdk_sessionID (OnRtnFund _) = None"
| "sdk_sessionID (OnRspQryExchange sessionID _ _ _) = Some sessionID"
| "sdk_sessionID (OnRspQryCommodity sessionID _ _ _) = Some sessionID"
| "sdk_sessionID (OnRspQryContract sessionID _ _ _) = Some sessionID"
| "sdk_sessionID (OnRtnContract _) = None"
| "sdk_sessionID (OnRspOrderAction sessionID _ _) = Some sessionID"
| "sdk_sessionID (OnRtnOrder _) = None"
| "sdk_sessionID (OnRspQryOrder sessionID _ _ _) = Some sessionID"
| "sdk_sessionID (OnRspQryOrderProcess sessionID _ _ _) = Some sessionID"
| "sdk_sessionID (OnRspQryFill sessionID _ _ _) = Some sessionID"
| "sdk_sessionID (OnRtnFill _) = None"
| "sdk_sessionID (OnRspQryPosition sessionID _ _ _) = Some sessionID"
| "sdk_sessionID (OnRtnPosition _) = None"
| "sdk_sessionID (OnRspQryPositionSummary sessionID _ _ _) = Some sessionID"
| "sdk_sessionID (OnRtnPositionSummary _) = None"
| "sdk_sessionID (OnRtnPositionProfit _) = None"
| "sdk_sessionID (OnRspQryCurrency sessionID _ _ _) = Some sessionID"
| "sdk_sessionID (OnRspQryTradeMessage sessionID _ _ _) = Some sessionID"
| "sdk_sessionID (OnRtnTradeMessage _) = None"
| "sdk_sessionID (OnRspQryHisOrder sessionID _ _ _) = Some sessionID"
| "sdk_sessionID (OnRspQryHisOrderProcess sessionID _ _ _) = Some sessionID"
| "sdk_sessionID (OnRspQryHisMatch sessionID _ _ _) = Some sessionID"
| "sdk_sessionID (OnRspQryHisPosition sessionID _ _ _) = Some sessionID"
| "sdk_sessionID (OnRspQryHisDelivery sessionID _ _ _) = Some sessionID"
| "sdk_sessionID (OnRspQryAccountCashAdjust sessionID _ _ _) = Some sessionID"
| "sdk_sessionID (OnRspQryBill sessionID _ _ _) = Some sessionID"
| "sdk_sessionID (OnRspQryAccountFeeRent sessionID _ _ _) = Some sessionID"
| "sdk_sessionID (OnRspQryAccountMarginRent sessionID _ _ _) = Some sessionID"
| "sdk_sessionID (OnRspHKMarketOrderInsert sessionID _ _) = Some sessionID"
| "sdk_sessionID (OnRspHKMarketOrderDelete sessionID _ _) = Some sessionID"
| "sdk_sessionID (OnHKMarketQuoteNotice _) = None"
| "sdk_sessionID (OnRspOrderLocalRemove sessionID _ _) = Some sessionID"
| "sdk_sessionID (OnRspOrderLocalInput sessionID _ _) = Some sessionID"
| "sdk_sessionID (OnRspOrderLocalModify sessionID _ _) = Some sessionID"
| "sdk_sessionID (OnRspOrderLocalTransfer sessionID _ _) = Some sessionID"
| "sdk_sessionID (OnRspFillLocalInput sessionID _ _) = Some sessionID"
| "sdk_sessionID (OnRspFillLocalRemove sessionID _ _) = Some sessionID"

primrec sdk_errorCode :: "'v callback \<Rightarrow> cint option" where
  "sdk_errorCode OnConnect = None"
| "sdk_errorCode (OnRspLogin errorCode _) = Some errorCode"
| "sdk_errorCode (OnRtnContactInfo errorCode _ _) = Some errorCode"
| "sdk_errorCode (OnRspRequestVertificateCode _ errorCode _) = Some errorCode"
| "sdk_errorCode (OnExpriationDate _ _) = None"
| "sdk_errorCode (OnAPIReady errorCode) = Some errorCode"
| "sdk_errorCode (OnDisconnect _) = None"
| "sdk_errorCode (OnRspChangePassword _ errorCode) = Some errorCode"
| "sdk_errorCode (OnRspAuthPassword _ errorCode) = Some errorCode"
| "sdk_errorCode (OnRspQryTradingDate _ errorCode _) = Some errorCode"
| "sdk_errorCode (OnRspSetReservedInfo _ errorCode _) = Some errorCode"
| "sdk_errorCode (OnRspQryAccount _ errorCode _ _) = Some errorCode"
| "sdk_errorCode (OnRspQryFund _ errorCode _ _) = Some errorCode"
| "sdk_errorCode (OnRtnFund _) = None"
| "sdk_errorCode (OnRspQryExchange _ errorCode _ _) = Some errorCode"
| "sdk_errorCode (OnRspQryCommodity _ errorCode _ _) = Some errorCode"
| "sdk_errorCode (OnRspQryContract _ errorCode _ _) = Some errorCode"
| "sdk_errorCode (OnRtnContract _) = None"
| "sdk_errorCode (OnRspOrderAction _ errorCode _) = Some errorCode"
| "sdk_errorCode (OnRtnOrder _) = None"
| "sdk_errorCode (OnRspQryOrder _ errorCode _ _) = Some errorCode"
| "sdk_errorCode (OnRspQryOrderProcess _ errorCode _ _) = Some errorCode"
| "sdk_errorCode (OnRspQryFill _ errorCode _ _) = Some errorCode"
| "sdk_errorCode (OnRtnFill _) = None"
| "sdk_errorCode (OnRspQryPosition _ errorCode _ _) = Some errorCode"
| "sdk_errorCode (OnRtnPosition _) = None"
| "sdk_errorCode (OnRspQryPositionSummary _ errorCode _ _) = Some errorCode"
| "sdk_errorCode (OnRtnPositionSummary _) = None"
| "sdk_errorCode (OnRtnPositionProfit _) = None"
| "sdk_errorCode (OnRspQryCurrency _ errorCode _ _) = Some errorCode"
| "sdk_errorCode (OnRspQryTradeMessage _ errorCode _ _) = Some errorCode"
| "sdk_errorCode (OnRtnTradeMessage _) = None"
| "sdk_errorCode (OnRspQryHisOrder _ errorCode _ _) = Some errorCode"
| "sdk_errorCode (OnRspQryHisOrderProcess _ errorCode _ _) = Some errorCode"
| "sdk_errorCode (OnRspQryHisMatch _ errorCode _ _) = Some errorCode"
| "sdk_errorCode (OnRspQryHisPosition _ errorCode _ _) = Some errorCode"
| "sdk_errorCode (OnRspQryHisDelivery _ errorCode _ _) = Some errorCode"
| "sdk_errorCode (OnRspQryAccountCashAdjust _ errorCode _ _) = Some errorCode"
| "sdk_errorCode (OnRspQryBill _ errorCode _ _) = Some errorCode"
| "sdk_errorCode (OnRspQryAccountFeeRent _ errorCode _ _) = Some errorCode"
| "sdk_errorCode (OnRspQryAccountMarginRent _ errorCode _ _) = Some errorCode"
| "sdk_errorCode (OnRspHKMarketOrderInsert _ errorCode _) = Some errorCode"
| "sdk_errorCode (OnRspHKMarketOrderDelete _ errorCode _) = Some errorCode"
| "sdk_errorCode (OnHKMarketQuoteNotice _) = None"
| "sdk_errorCode (OnRspOrderLocalRemove _ errorCode _) = Some errorCode"
| "sdk_errorCode (OnRspOrderLocalInput _ errorCode _) = Some errorCode"
| "sdk_errorCode (OnRspOrderLocalModify _ errorCode _) = Some errorCode"
| "sdk_errorCode (OnRspOrderLocalTransfer _ errorCode _) = Some errorCode"
| "sdk_errorCode (OnRspFillLocalInput _ errorCode _) = Some errorCode"
| "sdk_errorCode (OnRspFillLocalRemove _ errorCode _) = Some errorCode"

primrec sdk_isLast :: "'v callback \<Rightarrow> cchar option" where
  "sdk_isLast OnConnect = None"
| "sdk_isLast (OnRspLogin _ _) = None"
| "sdk_isLast (OnRtnContactInfo _ isLast _) = Some isLast"
| "sdk_isLast (OnRspRequestVertificateCode _ _ _) = None"
| "sdk_isLast (OnExpriationDate _ _) = None"
| "sdk_isLast (OnAPIReady _) = None"
| "sdk_isLast (OnDisconnect _) = None"
| "sdk_isLast (OnRspChangePassword _ _) = None"
| "sdk_isLast (OnRspAuthPassword _ _) = None"
| "sdk_isLast (OnRspQryTradingDate _ _ _) = None"
| "sdk_isLast (OnRspSetReservedInfo _ _ _) = None"
| "sdk_isLast (OnRspQryAccount _ _ isLast _) = Some isLast"
| "sdk_isLast (OnRspQryFund _ _ isLast _) = Some isLast"
| "sdk_isLast (OnRtnFund _) = None"
| "sdk_isLast (OnRspQryExchange _ _ isLast _) = Some isLast"
| "sdk_isLast (OnRspQryCommodity _ _ isLast _) = Some isLast"
| "sdk_isLast (OnRspQryContract _ _ isLast _) = Some isLast"
| "sdk_isLast (OnRtnContract _) = None"
| "sdk_isLast (OnRspOrderAction _ _ _) = None"
| "sdk_isLast (OnRtnOrder _) = None"
| "sdk_isLast (OnRspQryOrder _ _ isLast _) = Some isLast"
| "sdk_isLast (OnRspQryOrderProcess _ _ isLast _) = Some isLast"
| "sdk_isLast (OnRspQryFill _ _ isLast _) = Some isLast"
| "sdk_isLast (OnRtnFill _) = None"
| "sdk_isLast (OnRspQryPosition _ _ isLast _) = Some isLast"
| "sdk_isLast (OnRtnPosition _) = None"
| "sdk_isLast (OnRspQryPositionSummary _ _ isLast _) = Some isLast"
| "sdk_isLast (OnRtnPositionSummary _) = None"
| "sdk_isLast (OnRtnPositionProfit _) = None"
| "sdk_isLast (OnRspQryCurrency _ _ isLast _) = Some isLast"
| "sdk_isLast (OnRspQryTradeMessage _ _ isLast _) = Some isLast"
| "sdk_isLast (OnRtnTradeMessage _) = None"
| "sdk_isLast (OnRspQryHisOrder _ _ isLast _) = Some isLast"
| "sdk_isLast (OnRspQryHisOrderProcess _ _ isLast _) = Some isLast"
| "sdk_isLast (OnRspQryHisMatch _ _ isLast _) = Some isLast"
| "sdk_isLast (OnRspQryHisPosition _ _ isLast _) = Some isLast"
| "sdk_isLast (OnRspQryHisDelivery _ _ isLast _) = Some isLast"
| "sdk_isLast (OnRspQryAccountCashAdjust _ _ isLast _) = Some isLast"
| "sdk_isLast (OnRspQryBill _ _ isLast _) = Some isLast"
| "sdk_isLast (OnRspQryAccountFeeRent _ _ isLast _) = Some isLast"
| "sdk_isLast (OnRspQryAccountMarginRent _ _ isLast _) = Some isLast"
| "sdk_isLast (OnRspHKMarketOrderInsert _ _ _) = None"
| "sdk_isLast (OnRspHKMarketOrderDelete _ _ _) = None"
| "sdk_isLast (OnHKMarketQuoteNotice _) = None"
| "sdk_isLast (OnRspOrderLocalRemove _ _ _) = None"
| "sdk_isLast (OnRspOrderLocalInput _ _ _) = None"
| "sdk_isLast (OnRspOrderLocalModify _ _ _) = None"
| "sdk_isLast (OnRspOrderLocalTransfer _ _ _) = None"
| "sdk_isLast (OnRspFillLocalInput _ _ _) = None"
| "sdk_isLast (OnRspFillLocalRemove _ _ _) = None"

primrec sdk_payload :: "'v callback \<Rightarrow> 'v cstruct option option" where
  "sdk_payload OnConnect = None"
| "sdk_payload (OnRspLogin _ loginRspInfo) = Some loginRspInfo"
| "sdk_payload (OnRtnContactInfo _ _ _) = None"
| "sdk_payload (OnRspRequestVertificateCode _ _ rsp) = Some rsp"
| "sdk_payload (OnExpriationDate _ _) = None"
| "sdk_payload (OnAPIReady _) = None"
| "sdk_payload (OnDisconnect _) = None"
| "sdk_payload (OnRspChangePassword _ _) = None"
| "sdk_payload (OnRspAuthPassword _ _) = None"
| "sdk_payload (OnRspQryTradingDate _ _ info) = Some info"
| "sdk_payload (OnRspSetReservedInfo _ _ _) = None"
| "sdk_payload (OnRspQryAccount _ _ _ info) = Some info"
| "sdk_payload (OnRspQryFund _ _ _ info) = Some info"
| "sdk_payload (OnRtnFund info) = Some info"
| "sdk_payload (OnRspQryExchange _ _ _ info) = Some info"
| "sdk_payload (OnRspQryCommodity _ _ _ info) = Some info"
| "sdk_payload (OnRspQryContract _ _ _ info) = Some info"
| "sdk_payload (OnRtnContract info) = Some info"
| "sdk_payload (OnRspOrderAction _ _ info) = Some info"
| "sdk_payload (OnRtnOrder info) = Some info"
| "sdk_payload (OnRspQryOrder _ _ _ info) = Some info"
| "sdk_payload (OnRspQryOrderProcess _ _ _ info) = Some info"
| "sdk_payload (OnRspQryFill _ _ _ info) = Some info"
| "sdk_payload (OnRtnFill info) = Some info"
| "sdk_payload (OnRspQryPosition _ _ _ info) = Some info"
| "sdk_payload (OnRtnPosition info) = Some info"
| "sdk_payload (OnRspQryPositionSummary _ _ _ info) = Some info"
| "sdk_payload (OnRtnPositionSummary info) = Some info"
| "sdk_payload (OnRtnPositionProfit info) = Some info"
| "sdk_payload (OnRspQryCurrency _ _ _ info) = Some info"
| "sdk_payload (OnRspQryTradeMessage _ _ _ info) = Some info"
| "sdk_payload (OnRtnTradeMessage info) = Some info"
| "sdk_payload (OnRspQryHisOrder _ _ _ info) = Some info"
| "sdk_payload (OnRspQryHisOrderProcess _ _ _ info) = Some info"
| "sdk_payload (OnRspQryHisMatch _ _ _ info) = Some info"
| "sdk_payload (OnRspQryHisPosition _ _ _ info) = Some info"
| "sdk_payload (OnRspQryHisDelivery _ _ _ info) = Some info"
| "sdk_payload (OnRspQryAccountCashAdjust _ _ _ info) = Some info"
| "sdk_payload (OnRspQryBill _ _ _ info) = Some info"
| "sdk_payload (OnRspQryAccountFeeRent _ _ _ info) = Some info"
| "sdk_payload (OnRspQryAccountMarginRent _ _ _ info) = Some info"
| "sdk_payload (OnRspHKMarketOrderInsert _ _ info) = Some info"
| "sdk_payload (OnRspHKMarketOrderDelete _ _ info) = Some info"
| "sdk_payload (OnHKMarketQuoteNotice info) = Some info"
| "sdk_payload (OnRspOrderLocalRemove _ _ info) = Some info"
| "sdk_payload (OnRspOrderLocalInput _ _ info) = Some info"
| "sdk_payload (OnRspOrderLocalModify _ _ info) = Some info"
| "sdk_payload (OnRspOrderLocalTransfer _ _ info) = Some info"
| "sdk_payload (OnRspFillLocalInput _ _ info) = Some info"
| "sdk_payload (OnRspFillLocalRemove _ _ info) = Some info"

primrec session_arg :: "'p handler_call \<Rightarrow> cint option" where
  "session_arg onConnect = None"
| "session_arg (onRspLogin _ _) = None"
| "session_arg (onRtnContactInfo _ _ _) = None"
| "session_arg (onRspRequestVertificateCode v _ _) = Some v"
| "session_arg (onExpriationDate _ _) = None"
| "session_arg (onAPIReady _) = None"
| "session_arg (onDisconnect _) = None"
| "session_arg (onRspChangePassword v _) = Some v"
| "session_arg (onRspAuthPassword v _) = Some v"
| "session_arg (onRspQryTradingDate v _ _) = Some v"
| "session_arg (onRspSetReservedInfo v _ _) = Some v"
| "session_arg (onRspQryAccount v _ _ _) = Some v"
| "session_arg (onRspQryFund v _ _ _) = Some v"
| "session_arg (onRtnFund _) = None"
| "session_arg (onRspQryExchange v _ _ _) = Some v"
| "session_arg (onRspQryCommodity v _ _ _) = Some v"
| "session_arg (onRspQryContract v _ _ _) = Some v"
| "session_arg (onRtnContract _) = None"
| "session_arg (onRspOrderAction v _ _) = Some v"
| "session_arg (onRtnOrder _) = None"
| "session_arg (onRspQryOrder v _ _ _) = Some v"
| "session_arg (onRspQryOrderProcess v _ _ _) = Some v"
| "session_arg (onRspQryFill v _ _ _) = Some v"
| "session_arg (onRtnFill _) = None"
| "session_arg (onRspQryPosition v _ _ _) = Some v"
| "session_arg (onRtnPosition _) = None"
| "session_arg (onRspQryPositionSummary v _ _ _) = Some v"
| "session_arg (onRtnPositionSummary _) = None"
| "session_arg (onRtnPositionProfit _) = None"
| "session_arg (onRspQryCurrency v _ _ _) = Some v"
| "session_arg (onRspQryTradeMessage v _ _ _) = Some v"
| "session_arg (onRtnTradeMessage _) = None"
| "session_arg (onRspQryHisOrder v _ _ _) = Some v"
| "session_arg (onRspQryHisOrderProcess v _ _ _) = Some v"
| "session_arg (onRspQryHisMatch v _ _ _) = Some v"
| "session_arg (onRspQryHisPosition v _ _ _) = Some v"
| "session_arg (onRspQryHisDelivery v _ _ _) = Some v"
| "session_arg (onRspQryAccountCashAdjust v _ _ _) = Some v"
| "session_arg (onRspQryBill v _ _ _) = Some v"
| "session_arg (onRspQryAccountFeeRent v _ _ _) = Some v"
| "session_arg (onRspQryAccountMarginRent v _ _ _) = Some v"
| "session_arg (onRspHKMarketOrderInsert v _ _) = Some v"
| "session_arg (onRspHKMarketOrderDelete v _ _) = Some v"
| "session_arg (onHKMarketQuoteNotice _) = None"
| "session_arg (onRspOrderLocalRemove v _ _) = Some v"
| "session_arg (onRspOrderLocalInput v _ _) = Some v"
| "session_arg (onRspOrderLocalModify v _ _) = Some v"
| "session_arg (onRspOrderLocalTransfer v _ _) = Some v"
| "session_arg (onRspFillLocalInput v _ _) = Some v"
| "session_arg (onRspFillLocalRemove v _ _) = Some v"

primrec error_arg :: "'p handler_call \<Rightarrow> cint option" where
  "error_arg onConnect = None"
| "error_arg (onRspLogin v _) = Some v"
| "error_arg (onRtnContactInfo v _ _) = Some v"
| "error_arg (onRspRequestVertificateCode _ v _) = Some v"
| "error_arg (onExpriationDate _ _) = None"
| "error_arg (onAPIReady v) = Some v"
| "error_arg (onDisconnect _) = None"
| "error_arg (onRspChangePassword _ v) = Some v"
| "error_arg (onRspAuthPassword _ v) = Some v"
| "error_arg (onRspQryTradingDate _ v _) = Some v"
| "error_arg (onRspSetReservedInfo _ v _) = Some v"
| "error_arg (onRspQryAccount _ v _ _) = Some v"
| "error_arg (onRspQryFund _ v _ _) = Some v"
| "error_arg (onRtnFund _) = None"
| "error_arg (onRspQryExchange _ v _ _) = Some v"
| "error_arg (onRspQryCommodity _ v _ _) = Some v"
| "error_arg (onRspQryContract _ v _ _) = Some v"
| "error_arg (onRtnContract _) = None"
| "error_arg (onRspOrderAction _ v _) = Some v"
| "error_arg (onRtnOrder _) = None"
| "error_arg (onRspQryOrder _ v _ _) = Some v"
| "error_arg (onRspQryOrderProcess _ v _ _) = Some v"
| "error_arg (onRspQryFill _ v _ _) = Some v"
| "error_arg (onRtnFill _) = None"
| "error_arg (onRspQryPosition _ v _ _) = Some v"
| "error_arg (onRtnPosition _) = None"
| "error_arg (onRspQryPositionSummary _ v _ _) = Some v"
| "error_arg (onRtnPositionSummary _) = None"
| "error_arg (onRtnPositionProfit _) = None"
| "error_arg (onRspQryCurrency _ v _ _) = Some v"
| "error_arg (onRspQryTradeMessage _ v _ _) = Some v"
| "error_arg (onRtnTradeMessage _) = None"
| "error_arg (onRspQryHisOrder _ v _ _) = Some v"
| "error_arg (onRspQryHisOrderProcess _ v _ _) = Some v"
| "error_arg (onRspQryHisMatch _ v _ _) = Some v"
| "error_arg (onRspQryHisPosition _ v _ _) = Some v"
| "error_arg (onRspQryHisDelivery _ v _ _) = Some v"
| "error_arg (onRspQryAccountCashAdjust _ v _ _) = Some v"
| "error_arg (onRspQryBill _ v _ _) = Some v"
| "error_arg (onRspQryAccountFeeRent _ v _ _) = Some v"
| "error_arg (onRspQryAccountMarginRent _ v _ _) = Some v"
| "error_arg (onRspHKMarketOrderInsert _ v _) = Some v"
| "error_arg (onRspHKMarketOrderDelete _ v _) = Some v"
| "error_arg (onHKMarketQuoteNotice _) = None"
| "error_arg (onRspOrderLocalRemove _ v _) = Some v"
| "error_arg (onRspOrderLocalInput _ v _) = Some v"
| "error_arg (onRspOrderLocalModify _ v _) = Some v"
| "error_arg (onRspOrderLocalTransfer _ v _) = Some v"
| "error_arg (onRspFillLocalInput _ v _) = Some v"
| "error_arg (onRspFillLocalRemove _ v _) = Some v"

primrec last_arg :: "'p handler_call \<Rightarrow> bool option" where
  "last_arg onConnect = None"
| "last_arg (onRspLogin _ _) = None"
| "last_arg (onRtnContactInfo _ v _) = Some v"
| "last_arg (onRspRequestVertificateCode _ _ _) = None"
| "last_arg (onExpriationDate _ _) = None"
| "last_arg (onAPIReady _) = None"
| "last_arg (onDisconnect _) = None"
| "last_arg (onRspChangePassword _ _) = None"
| "last_arg (onRspAuthPassword _ _) = None"
| "last_arg (onRspQryTradingDate _ _ _) = None"
| "last_arg (onRspSetReservedInfo _ _ _) = None"
| "last_arg (onRspQryAccount _ _ v _) = Some v"
| "last_arg (onRspQryFund _ _ v _) = Some v"
| "last_arg (onRtnFund _) = None"
| "last_arg (onRspQryExchange _ _ v _) = Some v"
| "last_arg (onRspQryCommodity _ _ v _) = Some v"
| "last_arg (onRspQryContract _ _ v _) = Some v"
| "last_arg (onRtnContract _) = None"
| "last_arg (onRspOrderAction _ _ _) = None"
| "last_arg (onRtnOrder _) = None"
| "last_arg (onRspQryOrder _ _ v _) = Some v"
| "last_arg (onRspQryOrderProcess _ _ v _) = Some v"
| "last_arg (onRspQryFill _ _ v _) = Some v"
| "last_arg (onRtnFill _) = None"
| "last_arg (onRspQryPosition _ _ v _) = Some v"
| "last_arg (onRtnPosition _) = None"
| "last_arg (onRspQryPositionSummary _ _ v _) = Some v"
| "last_arg (onRtnPositionSummary _) = None"
| "last_arg (onRtnPositionProfit _) = None"
| "last_arg (onRspQryCurrency _ _ v _) = Some v"
| "last_arg (onRspQryTradeMessage _ _ v _) = Some v"
| "last_arg (onRtnTradeMessage _) = None"
| "last_arg (onRspQryHisOrder _ _ v _) = Some v"
| "last_arg (onRspQryHisOrderProcess _ _ v _) = Some v"
| "last_arg (onRspQryHisMatch _ _ v _) = Some v"
| "last_arg (onRspQryHisPosition _ _ v _) = Some v"
| "last_arg (onRspQryHisDelivery _ _ v _) = Some v"
| "last_arg (onRspQryAccountCashAdjust _ _ v _) = Some v"
| "last_arg (onRspQryBill _ _ v _) = Some v"
| "last_arg (onRspQryAccountFeeRent _ _ v _) = Some v"
| "last_arg (onRspQryAccountMarginRent _ _ v _) = Some v"
| "last_arg (onRspHKMarketOrderInsert _ _ _) = None"
| "last_arg (onRspHKMarketOrderDelete _ _ _) = None"
| "last_arg (onHKMarketQuoteNotice _) = None"
| "last_arg (onRspOrderLocalRemove _ _ _) = None"
| "last_arg (onRspOrderLocalInput _ _ _) = None"
| "last_arg (onRspOrderLocalModify _ _ _) = None"
| "last_arg (onRspOrderLocalTransfer _ _ _) = None"
| "last_arg (onRspFillLocalInput _ _ _) = None"
| "last_arg (onRspFillLocalRemove _ _ _) = None"

primrec data_arg :: "'p handler_call \<Rightarrow> 'p dict option" where
  "data_arg onConnect = None"
| "data_arg (onRspLogin _ v) = Some v"
| "data_arg (onRtnContactInfo _ _ _) = None"
| "data_arg (onRspRequestVertificateCode _ _ v) = Some v"
| "data_arg (onExpriationDate _ _) = None"
| "data_arg (onAPIReady _) = None"
| "data_arg (onDisconnect _) = None"
| "data_arg (onRspChangePassword _ _) = None"
| "data_arg (onRspAuthPassword _ _) = None"
| "data_arg (onRspQryTradingDate _ _ v) = Some v"
| "data_arg (onRspSetReservedInfo _ _ _) = None"
| "data_arg (onRspQryAccount _ _ _ v) = Some v"
| "data_arg (onRspQryFund _ _ _ v) = Some v"
| "data_arg (onRtnFund v) = Some v"
| "data_arg (onRspQryExchange _ _ _ v) = Some v"
| "data_arg (onRspQryCommodity _ _ _ v) = Some v"
| "data_arg (onRspQryContract _ _ _ v) = Some v"
| "data_arg (onRtnContract v) = Some v"
| "data_arg (onRspOrderAction _ _ v) = Some v"
| "data_arg (onRtnOrder v) = Some v"
| "data_arg (onRspQryOrder _ _ _ v) = Some v"
| "data_arg (onRspQryOrderProcess _ _ _ v) = Some v"
| "data_arg (onRspQryFill _ _ _ v) = Some v"
| "data_arg (onRtnFill v) = Some v"
| "data_arg (onRspQryPosition _ _ _ v) = Some v"
| "data_arg (onRtnPosition v) = Some v"
| "data_arg (onRspQryPositionSummary _ _ _ v) = Some v"
| "data_arg (onRtnPositionSummary v) = Some v"
| "data_arg (onRtnPositionProfit v) = Some v"
| "data_arg (onRspQryCurrency _ _ _ v) = Some v"
| "data_arg (onRspQryTradeMessage _ _ _ v) = Some v"
| "data_arg (onRtnTradeMessage v) = Some v"
| "data_arg (onRspQryHisOrder _ _ _ v) = Some v"
| "data_arg (onRspQryHisOrderProcess _ _ _ v) = Some v"
| "data_arg (onRspQryHisMatch _ _ _ v) = Some v"
| "data_arg (onRspQryHisPosition _ _ _ v) = Some v"
| "data_arg (onRspQryHisDelivery _ _ _ v) = Some v"
| "data_arg (onRspQryAccountCashAdjust _ _ _ v) = Some v"
| "data_arg (onRspQryBill _ _ _ v) = Some v"
| "data_arg (onRspQryAccountFeeRent _ _ _ v) = Some v"
| "data_arg (onRspQryAccountMarginRent _ _ _ v) = Some v"
| "data_arg (onRspHKMarketOrderInsert _ _ v) = Some v"
| "data_arg (onRspHKMarketOrderDelete _ _ v) = Some v"
| "data_arg (onHKMarketQuoteNotice v) = Some v"
| "data_arg (onRspOrderLocalRemove _ _ v) = Some v"
| "data_arg (onRspOrderLocalInput _ _ v) = Some v"
| "data_arg (onRspOrderLocalModify _ _ v) = Some v"
| "data_arg (onRspOrderLocalTransfer _ _ v) = Some v"
| "data_arg (onRspFillLocalInput _ _ v) = Some v"
| "data_arg (onRspFillLocalRemove _ _ v) = Some v"




subsection \<open>Queries\<close>

text \<open>
  The SDK object \<^verbatim>\<open>this->api\<close> is closed vendor code: its methods are parameters
  of the model, functions from their arguments and the SDK's state to the returned
  \<^verbatim>\<open>int\<close> and the new state. A request struct is modelled by the contents of the
  fields written since \<^verbatim>\<open>memset(&myreq, 0, sizeof(myreq))\<close>: the empty map is the
  zeroed struct. \<^verbatim>\<open>getString\<close> is declared in a header that is not part of the
  sources; it is a parameter, taking the dict, the key and the old content of the
  destination field to the field's new content.
\<close>

type_synonym 'c creq = "string \<rightharpoonup> 'c"

record ('c, 's) ITapTradeAPI =
  QryAccount :: "uint \<Rightarrow> 'c creq \<Rightarrow> 's \<Rightarrow> cint \<times> 's"
  QryFund :: "uint \<Rightarrow> 'c creq \<Rightarrow> 's \<Rightarrow> cint \<times> 's"

definition qryAccount :: "('c, 's) ITapTradeAPI \<Rightarrow> uint \<Rightarrow> 'p dict \<Rightarrow> 's \<Rightarrow> cint \<times> 's" where
  "qryAccount api session req s =
     (let myreq = Map.empty;
          (i, s') = QryAccount api session myreq s
      in (i, s'))"

definition qryFund ::
  "('p dict \<Rightarrow> string \<Rightarrow> 'c option \<Rightarrow> 'c option) \<Rightarrow> ('c, 's) ITapTradeAPI \<Rightarrow> uint \<Rightarrow> 'p dict \<Rightarrow> 's \<Rightarrow> cint \<times> 's" where
  "qryFund getString api session req s =
     (let myreq = Map.empty;
          myreq = myreq(''AccountNo'' := getString req ''AccountNo'' (myreq ''AccountNo''));
          (i, s') = QryFund api session myreq s
      in (i, s'))"

subsection \<open>Sample values\<close>

abbreviation demo_py :: "(string, string) py" where
  "demo_py \<equiv> \<lparr>toUtf = (\<lambda>v. ''utf8:'' @ v), implicit = (\<lambda>v. v)\<rparr>"

abbreviation demo_struct :: "string cstruct" where
  "demo_struct \<equiv> (\<lambda>field. ''value of '' @ field)"

abbreviation demo_api :: "(string, nat) ITapTradeAPI" where
  "demo_api \<equiv>
     \<lparr>QryAccount = (\<lambda>session myreq s. (if myreq = Map.empty then session else 0, Suc s)),
      QryFund = (\<lambda>session myreq s. (if myreq ''AccountNo'' = None then session else 0, Suc s))\<rparr>"


section \<open>Properties of the bridge\<close>

subsection \<open>Reading a session ID as \<^verbatim>\<open>int\<close>\<close>

text \<open>
  The callbacks get the session ID as \<^verbatim>\<open>unsigned int\<close> and the handlers take it
  as \<^verbatim>\<open>int\<close>. The word is the same; the number read from it is the same below
  \<open>2 ^ 31\<close>, and negative from there on.
\<close>

lemma int_reads_uint:
  fixes w :: uint
  assumes "unat w < 2 ^ 31"
  shows "sint w = int (unat w)"
proof -
  have "int (unat w) < int (2 ^ 31)" using assms by (rule iffD2[OF of_nat_less_iff])
  then have u: "uint w < 2 ^ 31" by simp
  have "sint w = signed_take_bit 31 (uint w)" by (simp add: sint_uint)
  also have "\<dots> = uint w"
  proof (rule signed_take_bit_int_eq_self)
    have "- (2 ^ 31) \<le> (0 :: int)" by simp
    also have "0 \<le> uint w" by simp
    finally show "- (2 ^ 31) \<le> uint w" .
    show "uint w < 2 ^ 31" by (rule u)
  qed
  finally show ?thesis by simp
qed

lemma int_reads_uint_large: "unat (4294967295 :: uint) = 4294967295 \<and> sint (4294967295 :: uint) = - 1"
  by simp

subsection \<open>The callbacks\<close>

lemmas callback_defs = pushed_by_def push_def empty_queue_def new_Task_def Let_def

lemma sdk_callback_queued: "queued (sdk_callback cb q) = queued q @ pushed_by cb"
  by (cases cb) (simp_all add: pushed_by_def push_def empty_queue_def Let_def)

lemma sdk_callback_terminated: "terminated (sdk_callback cb q) = terminated q"
  by (cases cb) (simp_all add: push_def Let_def)

lemma pushed_by_tag:
  "\<exists>t. pushed_by cb = [t] \<and> sdk_callback cb q = push t q \<and>
       tag_name (task_name t) = map upper (callback_name cb)"
  by (cases cb) (simp_all add: callback_defs upper_def split: option.split)

lemma pushed_by_kind:
  "pushed_by cb = [t] \<Longrightarrow>
   callback_name (null_invocation (task_name t) :: 'v callback) = callback_name cb"
  by (cases cb) (auto simp add: callback_defs split: option.splits)

lemma same_tag_same_callback:
  fixes cb1 cb2 :: "'v callback"
  assumes "pushed_by cb1 = [t1]" "pushed_by cb2 = [t2]" "task_name t1 = task_name t2"
  shows "callback_name cb1 = callback_name cb2"
proof -
  have "callback_name cb1 = callback_name (null_invocation (task_name t1) :: 'v callback)"
    using assms(1) by (simp add: pushed_by_kind)
  also have "\<dots> = callback_name cb2"
    using assms(2,3) by (simp add: pushed_by_kind)
  finally show ?thesis .
qed

lemma null_invocation_tag: "map task_name (pushed_by (null_invocation t)) = [t]"
  by (cases t) (simp_all add: callback_defs)

lemma task_name_UNIV: "UNIV = set all_task_names"
proof -
  have "t \<in> set all_task_names" for t
    by (cases t) (simp_all add: all_task_names_def)
  then show ?thesis by auto
qed

lemma card_task_name: "card (UNIV :: task_name set) = 50"
proof -
  have "distinct all_task_names" by (simp add: all_task_names_def)
  then have "card (set all_task_names) = length all_task_names" by (rule distinct_card)
  then show ?thesis by (simp add: task_name_UNIV all_task_names_def)
qed

lemma tags_used: "range (map task_name \<circ> (pushed_by :: 'v callback \<Rightarrow> 'v Task list)) = (\<lambda>t. [t]) ` UNIV"
proof
  show "range (map task_name \<circ> (pushed_by :: 'v callback \<Rightarrow> 'v Task list)) \<subseteq> (\<lambda>t. [t]) ` UNIV"
  proof
    fix x assume "x \<in> range (map task_name \<circ> (pushed_by :: 'v callback \<Rightarrow> 'v Task list))"
    then obtain cb :: "'v callback" where x: "x = map task_name (pushed_by cb)" by auto
    obtain t where "pushed_by cb = [t]" using pushed_by_tag[of cb empty_queue] by blast
    then show "x \<in> (\<lambda>t. [t]) ` UNIV" using x by simp
  qed
  show "(\<lambda>t. [t]) ` UNIV \<subseteq> range (map task_name \<circ> (pushed_by :: 'v callback \<Rightarrow> 'v Task list))"
  proof
    fix x :: "task_name list" assume "x \<in> (\<lambda>t. [t]) ` UNIV"
    then obtain t where "x = [t]" by auto
    then have "x = (map task_name \<circ> pushed_by) (null_invocation t :: 'v callback)"
      by (simp add: null_invocation_tag)
    then show "x \<in> range (map task_name \<circ> (pushed_by :: 'v callback \<Rightarrow> 'v Task list))"
      by blast
  qed
qed

lemma card_tags_used:
  "card (range (map task_name \<circ> (pushed_by :: 'v callback \<Rightarrow> 'v Task list))) = 50"
proof -
  have "inj (\<lambda>t :: task_name. [t])" by (simp add: inj_def)
  then have "card ((\<lambda>t :: task_name. [t]) ` UNIV) = card (UNIV :: task_name set)"
    by (rule card_image)
  then show ?thesis by (simp only: tags_used card_task_name)
qed

subsection \<open>The dispatch and the loop\<close>

lemmas process_defs =
  processConnect_def processRspLogin_def processRtnContactInfo_def
  processRspRequestVertificateCode_def processExpriationDate_def processAPIReady_def
  processDisconnect_def processRspChangePassword_def processRspAuthPassword_def
  processRspQryTradingDate_def processRspSetReservedInfo_def processRspQryAccount_def
  processRspQryFund_def processRtnFund_def processRspQryExchange_def processRspQryCommodity_def
  processRspQryContract_def processRtnContract_def processRspOrderAction_def processRtnOrder_def
  processRspQryOrder_def processRspQryOrderProcess_def processRspQryFill_def processRtnFill_def
  processRspQryPosition_def processRtnPosition_def processRspQryPositionSummary_def
  processRtnPositionSummary_def processRtnPositionProfit_def processRspQryCurrency_def
  processRspQryTradeMessage_def processRtnTradeMessage_def processRspQryHisOrder_def
  processRspQryHisOrderProcess_def processRspQryHisMatch_def processRspQryHisPosition_def
  processRspQryHisDelivery_def processRspQryAccountCashAdjust_def processRspQryBill_def
  processRspQryAccountFeeRent_def processRspQryAccountMarginRent_def
  processRspHKMarketOrderInsert_def processRspHKMarketOrderDelete_def
  processHKMarketQuoteNotice_def processRspOrderLocalRemove_def processRspOrderLocalInput_def
  processRspOrderLocalModify_def processRspOrderLocalTransfer_def processRspFillLocalInput_def
  processRspFillLocalRemove_def

lemmas replay_defs = replay_def processTask_switch_def process_defs

declare processTask.simps [simp del]

lemma switch_appends: "processTask_switch py task log = log @ replay py task"
  by (cases "task_name task") (simp_all add: replay_defs Let_def)

lemma replay_single:
  "\<exists>c. replay py task = [c] \<and> map upper (handler_name c) = tag_name (task_name task)"
  by (cases "task_name task") (simp_all add: replay_defs Let_def upper_def)

lemma replay_handler_names:
  "map (map upper \<circ> handler_name) (concat (map (replay py) ts)) = map (tag_name \<circ> task_name) ts"
proof (induction ts)
  case Nil
  show ?case by simp
next
  case (Cons t ts)
  obtain c where "replay py t = [c]" "map upper (handler_name c) = tag_name (task_name t)"
    using replay_single by blast
  then show ?case using Cons by simp
qed

lemma processTask_pass_Popped:
  assumes "active this" "\<not> terminated (task_queue this)" "queued (task_queue this) = t # ts"
  shows "processTask_pass py this =
    Some (this\<lparr>task_queue := (task_queue this)\<lparr>queued := ts\<rparr>, calls := calls this @ replay py t\<rparr>)"
  using assms by (simp add: processTask_pass_def pop_def switch_appends)

lemma processTask_pass_SomeD:
  assumes "processTask_pass py this = Some this'"
  shows "\<exists>t ts. queued (task_queue this) = t # ts \<and>
    this' = this\<lparr>task_queue := (task_queue this)\<lparr>queued := ts\<rparr>, calls := calls this @ replay py t\<rparr>"
proof (cases "queued (task_queue this)")
  case Nil
  then show ?thesis using assms by (simp add: processTask_pass_def pop_def split: if_splits)
next
  case (Cons t ts)
  then show ?thesis using assms
    by (simp add: processTask_pass_def pop_def switch_appends split: if_splits)
qed

lemma processTask_pass_empty:
  "queued (task_queue this) = [] \<Longrightarrow> processTask_pass py this = None"
  by (simp add: processTask_pass_def pop_def)

text \<open>
  The loop terminates (it is a total function) and, on a started object whose queue
  has not been terminated, it replays every queued task, front first.
\<close>

lemma processTask_calls:
  assumes "active this" "\<not> terminated (task_queue this)"
  shows "calls (processTask py this) = calls this @ concat (map (replay py) (queued (task_queue this)))"
  using assms
proof (induction "queued (task_queue this)" arbitrary: this)
  case Nil
  then have "processTask_pass py this = None"
    by (simp add: processTask_pass_empty)
  then show ?case using Nil by (subst processTask.simps) simp
next
  case (Cons t ts)
  let ?next = "this\<lparr>task_queue := (task_queue this)\<lparr>queued := ts\<rparr>, calls := calls this @ replay py t\<rparr>"
  have pass: "processTask_pass py this = Some ?next"
    using Cons.prems Cons.hyps(2) by (simp add: processTask_pass_Popped)
  have "calls (processTask py ?next) = calls ?next @ concat (map (replay py) (queued (task_queue ?next)))"
    using Cons.prems by (intro Cons.hyps(1)) simp_all
  moreover have "processTask py this = processTask py ?next"
    using pass by (subst processTask.simps) simp
  ultimately show ?case using Cons.hyps(2)[symmetric] by simp
qed

lemma callback_then_replay_eq:
  "callback_then_replay py cb = concat (map (replay py) (pushed_by cb))"
  by (simp add: callback_then_replay_def processTask_calls started_def init_def empty_queue_def
      sdk_callback_queued sdk_callback_terminated)

lemma replay_scalars:
  "\<exists>c. callback_then_replay py cb = [c] \<and>
     (\<forall>s. sdk_sessionID cb = Some s \<and> callback_name cb \<noteq> ''OnRspQryAccount'' \<longrightarrow> session_arg c = Some s) \<and>
     (\<forall>e. sdk_errorCode cb = Some e \<longrightarrow> error_arg c = Some e) \<and>
     (\<forall>l. sdk_isLast cb = Some l \<longrightarrow> last_arg c = Some (l \<noteq> 0))"
  by (cases cb) (simp_all add: callback_then_replay_eq callback_defs replay_defs split: option.split)

text \<open>Schedules: what has been replayed and what is still queued is what was pushed.\<close>

lemma run_SDK:
  "run py (map SDK cbs) this =
   this\<lparr>task_queue := (task_queue this)\<lparr>queued := queued (task_queue this) @ concat (map pushed_by cbs)\<rparr>\<rparr>"
proof (induction cbs arbitrary: this)
  case Nil
  show ?case by simp
next
  case (Cons cb cbs)
  obtain t where t: "pushed_by cb = [t]" "sdk_callback cb (task_queue this) = push t (task_queue this)"
    using pushed_by_tag by blast
  show ?case by (simp add: Cons t push_def)
qed

lemma perform_invariant:
  "calls (perform py a this) @ concat (map (replay py) (queued (task_queue (perform py a this)))) =
   calls this @ concat (map (replay py) (queued (task_queue this) @ pushed [a]))"
proof (cases a)
  case (SDK cb)
  then show ?thesis by (simp add: sdk_callback_queued)
next
  case Worker
  show ?thesis
  proof (cases "processTask_pass py this")
    case None
    then show ?thesis using Worker by simp
  next
    case (Some this')
    then obtain t ts where "queued (task_queue this) = t # ts"
      and "this' = this\<lparr>task_queue := (task_queue this)\<lparr>queued := ts\<rparr>, calls := calls this @ replay py t\<rparr>"
      using processTask_pass_SomeD by blast
    then show ?thesis using Worker Some by simp
  qed
next
  case Exit
  then show ?thesis by (simp add: exit_def terminate_def)
qed

lemma run_invariant:
  "calls (run py sched this) @ concat (map (replay py) (queued (task_queue (run py sched this)))) =
   calls this @ concat (map (replay py) (queued (task_queue this) @ pushed sched))"
proof (induction sched arbitrary: this)
  case Nil
  show ?case by simp
next
  case (Cons a as)
  have "pushed (a # as) = pushed [a] @ pushed as" by simp
  then show ?case
    using Cons[of "perform py a this"] perform_invariant[of py a this]
    by (simp del: pushed.simps)
qed

text \<open>
  A callback invokes no handler, and only a pass of the worker's loop extends the log
  or takes a task off the queue.
\<close>

lemma callback_invokes_no_handler: "calls (perform py (SDK cb) this) = calls this"
  by simp

lemma only_worker_pops:
  "length (queued (task_queue (perform py a this))) < length (queued (task_queue this)) \<Longrightarrow> a = Worker"
  by (cases a) (simp_all add: exit_def terminate_def sdk_callback_queued)

lemma only_worker_invokes:
  "calls (perform py a this) \<noteq> calls this \<Longrightarrow> a = Worker"
  by (cases a) (simp_all add: exit_def)

text \<open>
  Progress: while the object is started and the queue is not terminated, a worker pass
  on a non-empty queue replays the task at the front, and as many passes as there are
  tasks empty the queue.
\<close>

lemma pushed_by_names:
  "map (tag_name \<circ> task_name) (concat (map pushed_by cbs)) = map (map upper \<circ> callback_name) cbs"
proof (induction cbs)
  case Nil
  show ?case by simp
next
  case (Cons cb cbs)
  obtain t where "pushed_by cb = [t]" "tag_name (task_name t) = map upper (callback_name cb)"
    using pushed_by_tag[of cb empty_queue] by blast
  then show ?case using Cons by simp
qed

lemma run_append: "run py (as @ bs) this = run py bs (run py as this)"
  by (induction as arbitrary: this) simp_all

lemma perform_keeps_running:
  assumes "a \<noteq> Exit" "active this" "\<not> terminated (task_queue this)"
  shows "active (perform py a this) \<and> \<not> terminated (task_queue (perform py a this))"
proof (cases a)
  case (SDK cb)
  then show ?thesis using assms by (simp add: sdk_callback_terminated)
next
  case Worker
  show ?thesis
  proof (cases "processTask_pass py this")
    case None
    then show ?thesis using Worker assms by simp
  next
    case (Some this')
    then obtain t ts where "queued (task_queue this) = t # ts"
      and "this' = this\<lparr>task_queue := (task_queue this)\<lparr>queued := ts\<rparr>, calls := calls this @ replay py t\<rparr>"
      using processTask_pass_SomeD by blast
    then show ?thesis using Worker Some assms by simp
  qed
next
  case Exit
  then show ?thesis using assms by simp
qed

lemma run_keeps_running:
  assumes "Exit \<notin> set sched" "active this" "\<not> terminated (task_queue this)"
  shows "active (run py sched this) \<and> \<not> terminated (task_queue (run py sched this))"
  using assms
proof (induction sched arbitrary: this)
  case Nil
  then show ?case by simp
next
  case (Cons a as)
  have "a \<noteq> Exit" "Exit \<notin> set as" using Cons.prems(1) by auto
  then show ?case
    using Cons.IH[of "perform py a this"] perform_keeps_running[of a this py] Cons.prems(2,3)
    by simp
qed

lemma worker_pass_front:
  assumes "active this" "\<not> terminated (task_queue this)" "queued (task_queue this) = t # ts"
  shows "perform py Worker this =
    this\<lparr>task_queue := (task_queue this)\<lparr>queued := ts\<rparr>, calls := calls this @ replay py t\<rparr>"
  using assms by (simp add: processTask_pass_Popped)

lemma workers_drain:
  assumes "active this" "\<not> terminated (task_queue this)" "length (queued (task_queue this)) \<le> n"
  shows "queued (task_queue (run py (replicate n Worker) this)) = []"
  using assms
proof (induction n arbitrary: this)
  case 0
  then show ?case by simp
next
  case (Suc n)
  show ?case
  proof (cases "queued (task_queue this)")
    case Nil
    then have "perform py Worker this = this" by (simp add: processTask_pass_empty)
    then show ?thesis using Suc.IH[of this] Suc.prems(1,2) Nil by simp
  next
    case (Cons t ts)
    let ?next = "this\<lparr>task_queue := (task_queue this)\<lparr>queued := ts\<rparr>, calls := calls this @ replay py t\<rparr>"
    have p: "perform py Worker this = ?next"
      using Suc.prems(1,2) Cons by (rule worker_pass_front)
    have "queued (task_queue (run py (replicate n Worker) ?next)) = []"
      using Suc.prems Cons by (intro Suc.IH) simp_all
    then show ?thesis using p by simp
  qed
qed

lemma run_queue_bound:
  "length (queued (task_queue (run py sched this))) \<le> length (queued (task_queue this)) + length (pushed sched)"
proof -
  have "length (calls (run py sched this) @ concat (map (replay py) (queued (task_queue (run py sched this))))) =
     length (calls this @ concat (map (replay py) (queued (task_queue this) @ pushed sched)))"
    by (simp only: run_invariant)
  moreover have len: "length (concat (map (replay py) ts)) = length ts" for ts :: "'a Task list"
  proof (induction ts)
    case Nil
    show ?case by simp
  next
    case (Cons t ts)
    obtain c where "replay py t = [c]" using replay_single by blast
    then show ?case using Cons by simp
  qed
  moreover have "length (calls this) \<le> length (calls (run py sched this))"
  proof (induction sched arbitrary: this)
    case Nil
    show ?case by simp
  next
    case (Cons a as)
    have "length (calls this) \<le> length (calls (perform py a this))"
    proof (cases a)
      case (SDK cb)
      then show ?thesis by simp
    next
      case Worker
      show ?thesis
      proof (cases "processTask_pass py this")
        case None
        then show ?thesis using Worker by simp
      next
        case (Some this')
        then obtain t ts where "this' = this\<lparr>task_queue := (task_queue this)\<lparr>queued := ts\<rparr>, calls := calls this @ replay py t\<rparr>"
          using processTask_pass_SomeD by blast
        then show ?thesis using Worker Some by simp
      qed
    next
      case Exit
      then show ?thesis by (simp add: exit_def)
    qed
    then show ?case using Cons[of "perform py a this"] by simp
  qed
  ultimately show ?thesis by simp
qed

lemma pushed_append: "pushed (as @ bs) = pushed as @ pushed bs"
  by (induction as) simp_all

lemma pushed_workers: "pushed (sched @ replicate n Worker) = pushed sched"
proof -
  have "pushed (replicate n Worker :: 'a action list) = []" by (induction n) simp_all
  then show ?thesis by (simp add: pushed_append)
qed

lemma schedule_then_workers:
  fixes py :: "('v, 'p) py"
  assumes "Exit \<notin> set sched"
  shows "calls (run py (sched @ replicate (length (pushed sched)) Worker) started) =
    concat (map (replay py) (pushed sched))"
proof -
  let ?n = "length (pushed sched)"
  let ?start = "started :: ('v, 'p) TdApi"
  let ?st = "run py sched ?start"
  let ?fin = "run py (sched @ replicate ?n Worker) ?start"
  have s1: "active ?start" and s2: "\<not> terminated (task_queue ?start)"
    and s3: "queued (task_queue ?start) = []" and s4: "calls ?start = []"
    by (simp_all add: started_def init_def empty_queue_def)
  have r: "active ?st \<and> \<not> terminated (task_queue ?st)"
    using assms s1 s2 by (rule run_keeps_running)
  have "length (queued (task_queue ?st)) \<le> length (queued (task_queue ?start)) + ?n"
    by (rule run_queue_bound)
  then have b: "length (queued (task_queue ?st)) \<le> ?n" unfolding s3 by simp
  have "queued (task_queue (run py (replicate ?n Worker) ?st)) = []"
    using r[THEN conjunct1] r[THEN conjunct2] b by (rule workers_drain)
  then have q: "queued (task_queue ?fin) = []" by (simp add: run_append)
  have "calls ?fin @ concat (map (replay py) (queued (task_queue ?fin))) =
     calls ?start @ concat (map (replay py) (queued (task_queue ?start) @ pushed (sched @ replicate ?n Worker)))"
    by (rule run_invariant)
  then show ?thesis unfolding q pushed_workers s3 s4 by simp
qed

lemma callbacks_then_loop:
  "calls (processTask py (run py (map SDK cbs) started)) =
   concat (map (replay py) (concat (map pushed_by cbs)))"
proof -
  let ?st = "run py (map SDK cbs) started"
  have st: "active ?st" "\<not> terminated (task_queue ?st)" "calls ?st = []"
    "queued (task_queue ?st) = concat (map pushed_by cbs)"
    by (simp_all add: run_SDK started_def init_def empty_queue_def)
  show ?thesis using processTask_calls[OF st(1,2), of py] st(3,4) by simp
qed

subsection \<open>The copy statements\<close>

















































subsection \<open>Replay fidelity\<close>

text \<open>
  Claim C1, as amended. For every SDK callback and every choice of its arguments, the
  callback followed by its replay invokes exactly one handler, and that invocation
  carries the callback's scalar arguments converted to the handler's parameter types:
  the \<^verbatim>\<open>error\<close> argument is the callback's \<^verbatim>\<open>errorCode\<close>, the \<^verbatim>\<open>last\<close>
  argument is the truth value of \<^verbatim>\<open>isLast != 0\<close> (the handlers take a
  \<^verbatim>\<open>bool\<close>, the callbacks get a \<^verbatim>\<open>char\<close>), and the \<^verbatim>\<open>session\<close> argument is
  the word of the callback's \<^verbatim>\<open>sessionID\<close> for every callback other than
  \<^verbatim>\<open>OnRspQryAccount\<close>, about whose \<^verbatim>\<open>session\<close> argument nothing is said here.
\<close>

theorem C1_replay_fidelity:
  "\<exists>c. callback_then_replay py cb = [c] \<and>
     (\<forall>s. sdk_sessionID cb = Some s \<and> callback_name cb \<noteq> ''OnRspQryAccount'' \<longrightarrow> session_arg c = Some s) \<and>
     (\<forall>e. sdk_errorCode cb = Some e \<longrightarrow> error_arg c = Some e) \<and>
     (\<forall>l. sdk_isLast cb = Some l \<longrightarrow> last_arg c = Some (l \<noteq> 0))"
  by (rule replay_scalars)

theorem C1_replay_fidelity_witness:
  "map session_arg (callback_then_replay demo_py (OnRspQryFund 7 0 78 (Some demo_struct))) = [Some 7] \<and>
   map error_arg (callback_then_replay demo_py (OnRspQryFund 7 0 78 (Some demo_struct))) = [Some 0] \<and>
   map last_arg (callback_then_replay demo_py (OnRspQryFund 7 0 78 (Some demo_struct))) = [Some True]"
  using C1_replay_fidelity[of demo_py "OnRspQryFund 7 0 78 (Some demo_struct)"] by auto

text \<open>
  The claim as it is written fails: \<^verbatim>\<open>OnRspQryAccount(7, 3, 'Y', info)\<close> delivers
  the session 3, not 7; and \<^verbatim>\<open>OnRspQryFund\<close> delivers the same \<^verbatim>\<open>last\<close>, true,
  for \<^verbatim>\<open>isLast = 'N'\<close> (78) and for \<^verbatim>\<open>isLast = 'Y'\<close> (89).
\<close>

theorem C1_counterexample:
  "map session_arg (callback_then_replay demo_py (OnRspQryAccount 7 3 89 (Some demo_struct)))
     \<noteq> [sdk_sessionID (OnRspQryAccount 7 3 89 (Some demo_struct))] \<and>
   map last_arg (callback_then_replay demo_py (OnRspQryFund 7 0 78 (Some demo_struct))) = [Some True] \<and>
   map last_arg (callback_then_replay demo_py (OnRspQryFund 7 0 89 (Some demo_struct))) = [Some True] \<and>
   sdk_isLast (OnRspQryFund 7 0 78 (Some demo_struct)) \<noteq> sdk_isLast (OnRspQryFund 7 0 89 (Some demo_struct))"
  by (simp add: callback_then_replay_eq callback_defs replay_defs)

subsection \<open>Exhaustive dispatch\<close>

text \<open>
  Claim C2, as amended. There are 50 event tags (the claim counts 51). For every task,
  whatever its tag, the \<^verbatim>\<open>switch\<close> of \<^verbatim>\<open>processTask\<close> appends exactly one handler
  invocation to the log, and it is the invocation of the handler named after the tag
  (\<^verbatim>\<open>onX\<close> for \<^verbatim>\<open>ONX\<close>); a pass of the loop that pops a task makes exactly
  that one invocation; and the loop, run on a started object whose queue has not been
  terminated, makes one invocation for each queued task, in the order of the queue,
  each of the handler named after the task's tag: no popped task is dropped.
\<close>

theorem C2_exhaustive_dispatch:
  "card (UNIV :: task_name set) = 50 \<and>
   (\<exists>c. processTask_switch py task log = log @ [c] \<and>
        map upper (handler_name c) = tag_name (task_name task)) \<and>
   (active this \<and> pop (task_queue this) = Popped task q \<longrightarrow>
     (\<exists>c. processTask_pass py this = Some (this\<lparr>task_queue := q, calls := calls this @ [c]\<rparr>) \<and>
          map upper (handler_name c) = tag_name (task_name task))) \<and>
   (active this \<and> \<not> terminated (task_queue this) \<longrightarrow>
     (\<exists>cs. calls (processTask py this) = calls this @ cs \<and>
           map (map upper \<circ> handler_name) cs = map (tag_name \<circ> task_name) (queued (task_queue this))))"
proof -
  obtain c where c: "replay py task = [c]" "map upper (handler_name c) = tag_name (task_name task)"
    using replay_single by blast
  have "processTask_switch py task l = l @ [c]" for l
    using c(1) by (simp add: switch_appends)
  then have one: "\<exists>c. processTask_switch py task log = log @ [c] \<and>
        map upper (handler_name c) = tag_name (task_name task)"
    and pass: "active this \<and> pop (task_queue this) = Popped task q \<longrightarrow>
     (\<exists>c. processTask_pass py this = Some (this\<lparr>task_queue := q, calls := calls this @ [c]\<rparr>) \<and>
          map upper (handler_name c) = tag_name (task_name task))"
    using c(2) by (auto simp: processTask_pass_def)
  have loop: "active this \<and> \<not> terminated (task_queue this) \<longrightarrow>
     (\<exists>cs. calls (processTask py this) = calls this @ cs \<and>
           map (map upper \<circ> handler_name) cs = map (tag_name \<circ> task_name) (queued (task_queue this)))"
    using processTask_calls[of this py] replay_handler_names[of py "queued (task_queue this)"]
    by blast
  show ?thesis using card_task_name one pass loop by blast
qed

theorem C2_exhaustive_dispatch_witness:
  "active (started :: (string, string) TdApi) \<and>
   pop (task_queue (perform demo_py (SDK (OnAPIReady 0)) started)) = Popped (new_Task ONAPIREADY) empty_queue \<and>
   (\<exists>c. processTask_pass demo_py (perform demo_py (SDK (OnAPIReady 0)) started) =
          Some (started\<lparr>calls := [c]\<rparr>) \<and> map upper (handler_name c) = ''ONAPIREADY'') \<and>
   (\<exists>cs. calls (processTask demo_py (perform demo_py (SDK (OnAPIReady 0)) started)) = cs \<and>
         map (map upper \<circ> handler_name) cs = [''ONAPIREADY''])"
proof -
  let ?st = "perform demo_py (SDK (OnAPIReady 0)) started :: (string, string) TdApi"
  note inst = C2_exhaustive_dispatch[of demo_py "new_Task ONAPIREADY" "[]" ?st empty_queue]
  have a0: "active (started :: (string, string) TdApi)" by (simp add: started_def init_def)
  have a: "active ?st" by (simp add: started_def init_def)
  have n: "\<not> terminated (task_queue ?st)"
    by (simp add: started_def init_def callback_defs)
  have p: "pop (task_queue ?st) = Popped (new_Task ONAPIREADY) empty_queue"
    by (simp add: started_def init_def pop_def callback_defs)
  have "\<exists>c. processTask_pass demo_py ?st =
          Some (?st\<lparr>task_queue := empty_queue, calls := calls ?st @ [c]\<rparr>) \<and>
       map upper (handler_name c) = tag_name (task_name (new_Task ONAPIREADY :: string Task))"
    using inst a p by blast
  then have pass: "\<exists>c. processTask_pass demo_py ?st = Some (started\<lparr>calls := [c]\<rparr>) \<and>
       map upper (handler_name c) = ''ONAPIREADY''"
    by (simp add: started_def init_def new_Task_def)
  have "\<exists>cs. calls (processTask demo_py ?st) = calls ?st @ cs \<and>
       map (map upper \<circ> handler_name) cs = map (tag_name \<circ> task_name) (queued (task_queue ?st))"
    using inst a n by blast
  then have loop: "\<exists>cs. calls (processTask demo_py ?st) = cs \<and>
       map (map upper \<circ> handler_name) cs = [''ONAPIREADY'']"
    by (simp add: started_def init_def callback_defs)
  show ?thesis using a0 p pass loop by (intro conjI)
qed

text \<open>The count of the claim as it is written, 51 tags, fails: there are 50.\<close>

theorem C2_counterexample: "card (UNIV :: task_name set) = 50 \<and> card (UNIV :: task_name set) \<noteq> 51"
  by (simp add: card_task_name)

subsection \<open>One-for-one field copy\<close>



subsection \<open>The account query response\<close>

text \<open>
  Claim C5. \<^verbatim>\<open>OnRspQryAccount\<close> stores \<^verbatim>\<open>sessionID\<close> and then \<^verbatim>\<open>errorCode\<close>
  into the same field \<^verbatim>\<open>task_id\<close>, and \<^verbatim>\<open>processRspQryAccount\<close> passes
  \<^verbatim>\<open>task_id\<close> twice. So for every \<^verbatim>\<open>sessionID\<close> and \<^verbatim>\<open>errorCode\<close> the
  callback followed by its replay invokes \<^verbatim>\<open>onRspQryAccount\<close> with both the session
  argument and the error argument equal to \<^verbatim>\<open>errorCode\<close>, and the invocation is the
  same whatever \<^verbatim>\<open>sessionID\<close> was: the session ID never reaches the handler.
\<close>

theorem C5_account_session_is_error:
  "callback_then_replay py (OnRspQryAccount sessionID errorCode isLast info) =
     [onRspQryAccount errorCode errorCode (isLast \<noteq> 0)
        (case info of None \<Rightarrow> Map.empty
         | Some s \<Rightarrow> copy_fields py processRspQryAccount_body s Map.empty)] \<and>
   map session_arg (callback_then_replay py (OnRspQryAccount sessionID errorCode isLast info)) = [Some errorCode] \<and>
   map error_arg (callback_then_replay py (OnRspQryAccount sessionID errorCode isLast info)) = [Some errorCode] \<and>
   callback_then_replay py (OnRspQryAccount sessionID errorCode isLast info) =
     callback_then_replay py (OnRspQryAccount sessionID' errorCode isLast info)"
  by (simp add: callback_then_replay_eq callback_defs replay_defs split: option.split)

theorem C5_account_session_is_error_witness:
  "map session_arg (callback_then_replay demo_py (OnRspQryAccount 7 3 89 None)) = [Some 3] \<and>
   callback_then_replay demo_py (OnRspQryAccount 7 3 89 None) =
     callback_then_replay demo_py (OnRspQryAccount 8 3 89 None)"
  using C5_account_session_is_error[where py = demo_py and sessionID = 7 and errorCode = 3
      and isLast = 89 and info = None and sessionID' = 8]
  by auto


subsection \<open>Distinct tagging\<close>

text \<open>
  Claim C3, as amended. There are 50 SDK callbacks, which use exactly 50 tags between
  them (the claim counts 51). Every invocation of a callback pushes exactly one task
  onto \<^verbatim>\<open>task_queue\<close>, at the back, tagged with the constant whose name is the
  callback's name in upper case; and two different callbacks never use the same tag.
\<close>

theorem C3_one_task_distinct_tag:
  fixes cb cb1 cb2 :: "'v callback"
  shows "card (range (map task_name \<circ> (pushed_by :: 'v callback \<Rightarrow> 'v Task list))) = 50 \<and>
    (\<exists>t. sdk_callback cb q = push t q \<and> queued (sdk_callback cb q) = queued q @ [t] \<and>
         tag_name (task_name t) = map upper (callback_name cb)) \<and>
    (callback_name cb1 \<noteq> callback_name cb2 \<longrightarrow>
       (\<exists>t1 t2. pushed_by cb1 = [t1] \<and> pushed_by cb2 = [t2] \<and> task_name t1 \<noteq> task_name t2))"
proof -
  obtain t where t: "pushed_by cb = [t]" "sdk_callback cb q = push t q"
    "tag_name (task_name t) = map upper (callback_name cb)"
    using pushed_by_tag by blast
  obtain t1 where t1: "pushed_by cb1 = [t1]" using pushed_by_tag[of cb1 empty_queue] by blast
  obtain t2 where t2: "pushed_by cb2 = [t2]" using pushed_by_tag[of cb2 empty_queue] by blast
  have "task_name t1 \<noteq> task_name t2" if "callback_name cb1 \<noteq> callback_name cb2"
    using that same_tag_same_callback[OF t1 t2] by blast
  then have "callback_name cb1 \<noteq> callback_name cb2 \<longrightarrow>
       (\<exists>t1 t2. pushed_by cb1 = [t1] \<and> pushed_by cb2 = [t2] \<and> task_name t1 \<noteq> task_name t2)"
    using t1 t2 by blast
  moreover have "\<exists>t. sdk_callback cb q = push t q \<and> queued (sdk_callback cb q) = queued q @ [t] \<and>
         tag_name (task_name t) = map upper (callback_name cb)"
    using t by (auto simp: push_def)
  ultimately show ?thesis using card_tags_used[where 'v = 'v] by blast
qed

theorem C3_one_task_distinct_tag_witness:
  "callback_name (OnConnect :: string callback) \<noteq> callback_name (OnRspLogin 5 None :: string callback) \<and>
   (\<exists>t1 t2. pushed_by (OnConnect :: string callback) = [t1] \<and>
      pushed_by (OnRspLogin 5 None :: string callback) = [t2] \<and> task_name t1 \<noteq> task_name t2) \<and>
   (\<exists>t. queued (sdk_callback (OnRspLogin 5 None :: string callback) empty_queue) = queued empty_queue @ [t] \<and>
      tag_name (task_name t) = map upper (callback_name (OnRspLogin 5 None :: string callback)))"
proof -
  have n: "callback_name (OnConnect :: string callback) \<noteq> callback_name (OnRspLogin 5 None :: string callback)"
    by simp
  show ?thesis
    using n C3_one_task_distinct_tag[of "OnRspLogin 5 None :: string callback" empty_queue OnConnect "OnRspLogin 5 None"]
    by blast
qed

text \<open>The count of the claim as it is written, 51 callbacks with 51 tags, fails: 50 tags are in use.\<close>

theorem C3_counterexample:
  "card (range (map task_name \<circ> (pushed_by :: string callback \<Rightarrow> string Task list))) = 50 \<and>
   card (range (map task_name \<circ> (pushed_by :: string callback \<Rightarrow> string Task list))) \<noteq> 51"
  by (simp only: card_tags_used) simp

subsection \<open>FIFO replay order\<close>

text \<open>
  Claim C7. The handlers are invoked in exactly the order in which the tasks were
  pushed. For every schedule of callbacks, worker passes and \<^verbatim>\<open>exit()\<close>, from
  every state: the handler invocations made so far, followed by the dispatches of the
  tasks still queued, are the dispatches of the pushed tasks in the order of the
  pushes; so on a started object the log is a prefix of the dispatches in push order,
  and a task pushed earlier is never replayed after a task pushed later. The worker
  does replay: a pass on a started object with a non-empty, not terminated queue
  dispatches the task at the front and appends its handler invocation to the log; a
  schedule without \<^verbatim>\<open>exit()\<close>, followed by as many worker passes as tasks were
  pushed, has invoked the handlers of all pushed tasks, in push order; and after any
  sequence of callbacks the loop \<^verbatim>\<open>processTask\<close> invokes, for each callback in
  turn, the dispatch of its task, which is the handler named after that callback.
\<close>

theorem C7_fifo_replay:
  "calls (run py sched this) @ concat (map (replay py) (queued (task_queue (run py sched this)))) =
     calls this @ concat (map (replay py) (queued (task_queue this) @ pushed sched)) \<and>
   prefix (calls (run py sched started)) (concat (map (replay py) (pushed sched))) \<and>
   (active this \<and> \<not> terminated (task_queue this) \<and> queued (task_queue this) = t # ts \<longrightarrow>
      perform py Worker this =
        this\<lparr>task_queue := (task_queue this)\<lparr>queued := ts\<rparr>, calls := calls this @ replay py t\<rparr>) \<and>
   (Exit \<notin> set sched \<longrightarrow>
      calls (run py (sched @ replicate (length (pushed sched)) Worker) started) =
        concat (map (replay py) (pushed sched))) \<and>
   calls (processTask py (run py (map SDK cbs) started)) =
     concat (map (replay py) (concat (map pushed_by cbs))) \<and>
   map (map upper \<circ> handler_name) (calls (processTask py (run py (map SDK cbs) started))) =
     map (map upper \<circ> callback_name) cbs"
proof -
  have inv: "calls (run py sched this) @ concat (map (replay py) (queued (task_queue (run py sched this)))) =
     calls this @ concat (map (replay py) (queued (task_queue this) @ pushed sched))"
    by (rule run_invariant)
  have "calls (run py sched started) @ concat (map (replay py) (queued (task_queue (run py sched started)))) =
     concat (map (replay py) (pushed sched))"
    using run_invariant[of py sched started] by (simp add: started_def init_def empty_queue_def)
  then have pre: "prefix (calls (run py sched started)) (concat (map (replay py) (pushed sched)))"
    by (metis prefixI)
  have pass: "active this \<and> \<not> terminated (task_queue this) \<and> queued (task_queue this) = t # ts \<longrightarrow>
      perform py Worker this =
        this\<lparr>task_queue := (task_queue this)\<lparr>queued := ts\<rparr>, calls := calls this @ replay py t\<rparr>"
    using worker_pass_front[of this t ts py] by (intro impI) (elim conjE)
  have drain: "Exit \<notin> set sched \<longrightarrow>
      calls (run py (sched @ replicate (length (pushed sched)) Worker) started) =
        concat (map (replay py) (pushed sched))"
    using schedule_then_workers[of sched py] by (intro impI)
  have loop: "calls (processTask py (run py (map SDK cbs) started)) =
     concat (map (replay py) (concat (map pushed_by cbs)))"
    by (rule callbacks_then_loop)
  have names: "map (map upper \<circ> handler_name) (calls (processTask py (run py (map SDK cbs) started))) =
     map (map upper \<circ> callback_name) cbs"
    unfolding loop by (simp only: replay_handler_names pushed_by_names)
  show ?thesis using inv pre pass drain loop names by (intro conjI)
qed

theorem C7_fifo_replay_witness:
  "calls (processTask demo_py (run demo_py (map SDK [OnAPIReady 1, OnDisconnect 2, OnConnect]) started)) =
     [onAPIReady 1, onDisconnect 2, onConnect] \<and>
   Exit \<notin> set [SDK (OnAPIReady 1), Worker, SDK (OnDisconnect 2), SDK OnConnect :: string action] \<and>
   calls (run demo_py ([SDK (OnAPIReady 1), Worker, SDK (OnDisconnect 2), SDK OnConnect] @ replicate 3 Worker) started) =
     [onAPIReady 1, onDisconnect 2, onConnect]"
proof -
  let ?cbs = "[OnAPIReady 1, OnDisconnect 2, OnConnect] :: string callback list"
  let ?s = "[SDK (OnAPIReady 1), Worker, SDK (OnDisconnect 2), SDK OnConnect] :: string action list"
  note inst = C7_fifo_replay[where py = demo_py and sched = ?s and cbs = ?cbs and this = started
      and t = "new_Task ONCONNECT" and ts = "[]"]
  have x: "Exit \<notin> set ?s" by simp
  have len: "length (pushed ?s) = 3" by (simp add: callback_defs)
  have drain: "Exit \<notin> set ?s \<longrightarrow>
      calls (run demo_py (?s @ replicate (length (pushed ?s)) Worker) started) =
        concat (map (replay demo_py) (pushed ?s))"
    by (rule inst[THEN conjunct2, THEN conjunct2, THEN conjunct2, THEN conjunct1])
  have loop: "calls (processTask demo_py (run demo_py (map SDK ?cbs) started)) =
     concat (map (replay demo_py) (concat (map pushed_by ?cbs)))"
    by (rule inst[THEN conjunct2, THEN conjunct2, THEN conjunct2, THEN conjunct2, THEN conjunct1])
  have r1: "concat (map (replay demo_py) (concat (map pushed_by ?cbs))) = [onAPIReady 1, onDisconnect 2, onConnect]"
    by (simp add: callback_defs replay_defs)
  have r2: "concat (map (replay demo_py) (pushed ?s)) = [onAPIReady 1, onDisconnect 2, onConnect]"
    by (simp add: callback_defs replay_defs)
  have a: "calls (processTask demo_py (run demo_py (map SDK ?cbs) started)) = [onAPIReady 1, onDisconnect 2, onConnect]"
    using loop r1 by (rule trans)
  have "calls (run demo_py (?s @ replicate (length (pushed ?s)) Worker) started) =
        concat (map (replay demo_py) (pushed ?s))"
    using drain x by (rule mp)
  then have b: "calls (run demo_py (?s @ replicate 3 Worker) started) = [onAPIReady 1, onDisconnect 2, onConnect]"
    unfolding len r2 .
  show ?thesis using a x b by (intro conjI)
qed

subsection \<open>The account query ignores its request\<close>

text \<open>
  Claim C8. \<^verbatim>\<open>qryAccount\<close> never reads its \<^verbatim>\<open>req\<close> argument: for every session,
  every SDK state and any two request dicts it issues the same SDK call, with the
  zeroed \<^verbatim>\<open>TapAPIAccQryReq\<close>, and returns the same result. \<^verbatim>\<open>qryFund\<close> passes
  \<^verbatim>\<open>req\<close> and the key \<^verbatim>\<open>"AccountNo"\<close> to \<^verbatim>\<open>getString\<close> and sends what it
  returns.
\<close>

theorem C8_qryAccount_ignores_req:
  "qryAccount api session req1 s = qryAccount api session req2 s \<and>
   qryAccount api session req1 s = QryAccount api session Map.empty s \<and>
   qryFund getString api session req1 s =
     QryFund api session (Map.empty(''AccountNo'' := getString req1 ''AccountNo'' None)) s"
  by (simp add: qryAccount_def qryFund_def)

text \<open>
  With a \<^verbatim>\<open>getString\<close> that copies the entry when the key is present, the call that
  \<^verbatim>\<open>qryFund\<close> issues does depend on \<^verbatim>\<open>req\<close>.
\<close>

lemma qryFund_reads_AccountNo:
  "qryFund (\<lambda>d k old. case d k of None \<Rightarrow> old | Some v \<Rightarrow> Some v) demo_api 9 Map.empty (0 :: nat)
     \<noteq> qryFund (\<lambda>d k old. case d k of None \<Rightarrow> old | Some v \<Rightarrow> Some v) demo_api 9 [''AccountNo'' \<mapsto> ''A1''] 0"
  by (simp add: qryFund_def)

theorem C8_qryAccount_ignores_req_witness:
  "qryAccount demo_api 9 [''AccountNo'' \<mapsto> ''A1''] 0 = qryAccount demo_api 9 (Map.empty :: string dict) 0 \<and>
   qryAccount demo_api 9 [''AccountNo'' \<mapsto> ''A1''] 0 = (9, 1)"
proof -
  note inst = C8_qryAccount_ignores_req[where api = demo_api and session = 9
      and ?req1.0 = "[''AccountNo'' \<mapsto> ''A1'']" and ?req2.0 = "Map.empty :: string dict"
      and s = "0 :: nat" and getString = "\<lambda>d k old. old"]
  have a: "qryAccount demo_api 9 [''AccountNo'' \<mapsto> ''A1''] 0 = qryAccount demo_api 9 (Map.empty :: string dict) 0"
    by (rule inst[THEN conjunct1])
  have b: "qryAccount demo_api 9 [''AccountNo'' \<mapsto> ''A1''] 0 = QryAccount demo_api 9 Map.empty 0"
    by (rule inst[THEN conjunct2, THEN conjunct1])
  have c: "QryAccount demo_api 9 Map.empty 0 = (9, 1)" by simp
  show ?thesis using a b[unfolded c] by (rule conjI)
qed

subsection \<open>Null payloads\<close>

text \<open>
  Claim C9, as amended. For every callback that takes a payload struct pointer, invoked
  with a null pointer: the callback still pushes its tagged task, with a null
  \<^verbatim>\<open>task_data\<close>; the replay invokes the handler named after the tag exactly once,
  with an empty dict as the data argument; and the scalar arguments are delivered
  converted to the handler's parameter types: \<^verbatim>\<open>error\<close> is \<^verbatim>\<open>errorCode\<close>,
  \<^verbatim>\<open>last\<close> is the truth value of \<^verbatim>\<open>isLast != 0\<close>, and \<^verbatim>\<open>session\<close> is
  \<^verbatim>\<open>sessionID\<close> for every callback other than \<^verbatim>\<open>OnRspQryAccount\<close>, about
  whose \<^verbatim>\<open>session\<close> argument nothing is said here.
\<close>

theorem C9_null_payload:
  assumes "sdk_payload cb = Some None"
  shows "\<exists>t c. sdk_callback cb q = push t q \<and> pushed_by cb = [t] \<and>
      tag_name (task_name t) = map upper (callback_name cb) \<and> task_data t = None \<and>
      callback_then_replay py cb = [c] \<and>
      map upper (handler_name c) = tag_name (task_name t) \<and>
      data_arg c = Some Map.empty \<and>
      (\<forall>s. sdk_sessionID cb = Some s \<and> callback_name cb \<noteq> ''OnRspQryAccount'' \<longrightarrow> session_arg c = Some s) \<and>
      (\<forall>e. sdk_errorCode cb = Some e \<longrightarrow> error_arg c = Some e) \<and>
      (\<forall>l. sdk_isLast cb = Some l \<longrightarrow> last_arg c = Some (l \<noteq> 0))"
proof -
  obtain t where t: "pushed_by cb = [t]" "sdk_callback cb q = push t q"
    "tag_name (task_name t) = map upper (callback_name cb)"
    using pushed_by_tag by blast
  obtain c where c: "callback_then_replay py cb = [c]"
    "\<forall>s. sdk_sessionID cb = Some s \<and> callback_name cb \<noteq> ''OnRspQryAccount'' \<longrightarrow> session_arg c = Some s"
    "\<forall>e. sdk_errorCode cb = Some e \<longrightarrow> error_arg c = Some e"
    "\<forall>l. sdk_isLast cb = Some l \<longrightarrow> last_arg c = Some (l \<noteq> 0)"
    using replay_scalars by blast
  have r: "replay py t = [c]" using c(1) t(1) by (simp add: callback_then_replay_eq)
  obtain c' where "replay py t = [c']" "map upper (handler_name c') = tag_name (task_name t)"
    using replay_single by blast
  then have h: "map upper (handler_name c) = tag_name (task_name t)" using r by simp
  have n: "task_data t = None \<and> data_arg c = Some Map.empty"
    using assms t(1) r
    by (cases cb) (auto simp: callback_defs replay_defs)
  show ?thesis using t c h n by blast
qed

theorem C9_null_payload_witness:
  "sdk_payload (OnRspQryFund 7 0 78 None :: string callback) = Some None \<and>
   callback_then_replay demo_py (OnRspQryFund 7 0 78 None) = [onRspQryFund 7 0 True Map.empty]"
proof -
  have h: "sdk_payload (OnRspQryFund 7 0 78 None :: string callback) = Some None" by simp
  obtain t c where p: "pushed_by (OnRspQryFund 7 0 78 None :: string callback) = [t]"
    "callback_then_replay demo_py (OnRspQryFund 7 0 78 None) = [c]"
    "map upper (handler_name c) = tag_name (task_name t)"
    "data_arg c = Some Map.empty" "session_arg c = Some 7" "error_arg c = Some 0"
    "last_arg c = Some True"
    using C9_null_payload[OF h, of empty_queue demo_py] by auto
  have "task_name t = ONRSPQRYFUND" using p(1) by (auto simp: callback_defs)
  then have "map upper (handler_name c) = ''ONRSPQRYFUND''" using p(3) by simp
  then have "c = onRspQryFund 7 0 True Map.empty" using p(4,5,6,7)
    by (cases c) (simp_all add: upper_def)
  then show ?thesis using h p(2) by simp
qed

text \<open>
  The claim as it is written fails: with a null payload, \<^verbatim>\<open>OnRspQryFund\<close> delivers
  the same \<^verbatim>\<open>last\<close>, true, for \<^verbatim>\<open>isLast = 'N'\<close> (78) and for
  \<^verbatim>\<open>isLast = 'Y'\<close> (89), and \<^verbatim>\<open>OnRspQryAccount(7, 3, 'Y', NULL)\<close> delivers the
  session 3, not 7.
\<close>

theorem C9_counterexample:
  "callback_then_replay demo_py (OnRspQryFund 7 0 78 None) = [onRspQryFund 7 0 True Map.empty] \<and>
   callback_then_replay demo_py (OnRspQryFund 7 0 89 None) = [onRspQryFund 7 0 True Map.empty] \<and>
   (78 :: cchar) \<noteq> 89 \<and>
   callback_then_replay demo_py (OnRspQryAccount 7 3 89 None) = [onRspQryAccount 3 3 True Map.empty] \<and>
   (7 :: uint) \<noteq> 3"
  by (simp add: callback_then_replay_eq callback_defs replay_defs)

end
